theory Spec2Isabelle
  imports Main "HOL-Library.Sublist"
begin

section \<open>JavaScript values\<close>

text \<open>
  Values that travel as \<open>any\<close> in the TypeScript sources (the \<open>result\<close> and \<open>errors\<close> of a
  provider response, the object literals handed to \<open>JSON.stringify\<close>) are modelled by one
  datatype of JSON-shaped JavaScript values. Numbers are integers: the sources only test
  them for truthiness, compare them with integer literals and print them. An integer
  stands for the double nearest to it.
\<close>

datatype jsval =
    JUndefined
  | JNull
  | JBool bool
  | JNum int
  | JStr string
  | JArr "jsval list"
  | JObj "(string \<times> jsval) list"

text \<open>\<open>!!v\<close>: the truthiness test behind \<open>if (v)\<close>, \<open>v || d\<close> and \<open>v ? a : b\<close>.\<close>

fun truthy :: "jsval \<Rightarrow> bool" where
  "truthy JUndefined = False"
| "truthy JNull = False"
| "truthy (JBool b) = b"
| "truthy (JNum n) = (n \<noteq> 0)"
| "truthy (JStr s) = (s \<noteq> [])"
| "truthy (JArr xs) = True"
| "truthy (JObj kvs) = True"

text \<open>\<open>a || b\<close> on values.\<close>

definition js_or :: "jsval \<Rightarrow> jsval \<Rightarrow> jsval" where
  "js_or a b = (if truthy a then a else b)"

fun nullish :: "jsval \<Rightarrow> bool" where
  "nullish JUndefined = True"
| "nullish JNull = True"
| "nullish v = False"

text \<open>
  \<open>v?.key\<close> for the keys the sources read (\<open>id\<close>, \<open>name\<close>, \<open>message\<close>, \<open>code\<close>, ...): an object
  answers with its own property, every other value with \<open>undefined\<close>.
\<close>

fun opt_prop :: "jsval \<Rightarrow> string \<Rightarrow> jsval" where
  "opt_prop (JObj kvs) k = (case map_of kvs k of None \<Rightarrow> JUndefined | Some v \<Rightarrow> v)"
| "opt_prop v k = JUndefined"

text \<open>Decimal digits of a length, for template literals such as \<open>${secrets.length}\<close>.\<close>

fun show_nat :: "nat \<Rightarrow> string" where
  "show_nat n = (if n < 10 then [char_of (48 + n)] else show_nat (n div 10) @ [char_of (48 + n mod 10)])"

declare show_nat.simps [simp del]

text \<open>
  \<open>String(n)\<close> for a number \<open>n\<close>, as a template literal prints it: \<open>Number::toString\<close> of the
  double nearest to the integer. Below \<open>2^53\<close> every integer is a double and prints as its
  decimal digits. From there on the integer is rounded to 53 significant bits, ties to
  even, and to \<open>Infinity\<close> past the largest double; the digits printed are the shortest
  that read back as the same double (the closest such when there are several), followed
  by zeros below \<open>10^21\<close> and written with an exponent from \<open>10^21\<close> on.
\<close>

function decimal :: "int \<Rightarrow> string" where
  "decimal i = (if i < 10 then [char_of (48 + i)] else decimal (i div 10) @ [char_of (48 + i mod 10)])"
  by pat_completeness auto

termination
  by (relation "measure nat") auto

declare decimal.simps [simp del]

function bit_length :: "int \<Rightarrow> nat" where
  "bit_length n = (if n \<le> 0 then 0 else Suc (bit_length (n div 2)))"
  by pat_completeness auto

termination
  by (relation "measure nat") auto

declare bit_length.simps [simp del]

definition nearest_double :: "int \<Rightarrow> int option" where
  "nearest_double n =
     (let e = bit_length n - 53 in
      if e = 0 then Some n
      else
        let q = n div 2 ^ e;
            r = n mod 2 ^ e;
            m = (if 2 ^ (e - 1) < r \<or> (r = 2 ^ (e - 1) \<and> odd q) then q + 1 else q)
        in if 2 ^ 1024 \<le> m * 2 ^ e then None else Some (m * 2 ^ e))"

text \<open>
  The \<open>k\<close> digits that read back as the double \<open>v\<close> of \<open>d\<close> decimal digits, if there are
  such: the candidates are the two multiples of \<open>10^(d - k)\<close> around \<open>v\<close>.
\<close>

definition digits_at :: "int \<Rightarrow> nat \<Rightarrow> nat \<Rightarrow> int option" where
  "digits_at v d k =
     (let p = 10 ^ (d - k);
          lo = v div p;
          hi = lo + 1;
          lo_ok = (nearest_double (lo * p) = Some v);
          hi_ok = (hi < 10 ^ k \<and> nearest_double (hi * p) = Some v)
      in
        if lo_ok \<and> hi_ok then
          (if v - lo * p < hi * p - v then Some lo
           else if hi * p - v < v - lo * p then Some hi
           else if even lo then Some lo else Some hi)
        else if lo_ok then Some lo
        else if hi_ok then Some hi
        else None)"

function shortest_digits :: "int \<Rightarrow> nat \<Rightarrow> nat \<Rightarrow> int \<times> nat" where
  "shortest_digits v d k =
     (if d \<le> k then (v, d)
      else case digits_at v d k of
             Some s \<Rightarrow> (s, k)
           | None \<Rightarrow> shortest_digits v d (Suc k))"
  by pat_completeness auto

termination
  by (relation "measure (\<lambda>(v, d, k). d - k)") auto

declare shortest_digits.simps [simp del]

definition number_text :: "int \<Rightarrow> string" where
  "number_text a =
     (if a < 2 ^ 53 then decimal a
      else
        case nearest_double a of
          None \<Rightarrow> ''Infinity''
        | Some v \<Rightarrow>
            let d = length (decimal v) in
            if nearest_double (10 ^ d) = Some v then ''1e+'' @ decimal (int d)
            else
              case shortest_digits v d 1 of (s, k) \<Rightarrow>
                if d \<le> 21 then decimal s @ replicate (d - k) (CHR ''0'')
                else
                  (case decimal s of
                     [] \<Rightarrow> []
                   | c # cs \<Rightarrow> c # (if cs = [] then [] else CHR ''.'' # cs) @ ''e+'' @ decimal (int d - 1)))"

definition show_int :: "int \<Rightarrow> string" where
  "show_int i = (if i < 0 then CHR ''-'' # number_text (- i) else number_text i)"

fun join :: "string \<Rightarrow> string list \<Rightarrow> string" where
  "join sep [] = []"
| "join sep [x] = x"
| "join sep (x # y # ys) = x @ sep @ join sep (y # ys)"

text \<open>\<open>String(v)\<close>, the coercion a template literal and \<open>new Error(v)\<close> apply.\<close>

fun to_string :: "jsval \<Rightarrow> string" where
  "to_string JUndefined = ''undefined''"
| "to_string JNull = ''null''"
| "to_string (JBool b) = (if b then ''true'' else ''false'')"
| "to_string (JNum n) = show_int n"
| "to_string (JStr s) = s"
| "to_string (JArr xs) = join '','' (map (\<lambda>x. if nullish x then [] else to_string x) xs)"
| "to_string (JObj kvs) = ''[object Object]''"

section \<open>Thrown values, outbound requests and the remote side\<close>

text \<open>
  What a \<open>catch (error)\<close> can receive: an \<open>Error\<close> instance with its message, or some other
  thrown value (\<open>error instanceof Error\<close> is false for it), such as the error object of a
  database response.
\<close>

datatype thrown = ErrorObj string | NonError jsval

text \<open>A \<open>TypeError\<close> of the engine: an \<open>Error\<close> instance whose message is the given text.\<close>

definition type_error :: "string \<Rightarrow> thrown" where
  "type_error what = ErrorObj what"

datatype part_content = ScriptText string | JsonText jsval

datatype req_body =
    NoBody
  | JsonBody jsval
  | FormData "(string \<times> part_content \<times> string) list"

record request =
  url :: string
  http_method :: string
  headers :: "(string \<times> string) list"
  body :: req_body

text \<open>
  The provider's envelope, \<open>interface CloudflareApiResponse<T>\<close>; \<open>T\<close> is \<open>any\<close> or an
  object type read field by field, hence \<open>jsval\<close>. A body that parses is taken to have
  this declared shape.
\<close>

record api_response =
  success :: bool
  errors :: "jsval list"
  messages :: "jsval list"
  result :: jsval

text \<open>
  A \<open>Response\<close>: its HTTP status and what \<open>await response.json()\<close> gives, a parsed envelope
  or the exception of a body that does not parse.
\<close>

record http_response =
  status :: nat
  json_body :: "thrown + api_response"

datatype fetch_outcome = Rejects thrown | Responds http_response

text \<open>
  The remote control plane is a parameter of every handler: it answers a request knowing
  the requests made before it. The world a handler runs in records every outbound call,
  every audit line (\<open>logDeploymentOperation\<close>), every audit row sent to the database and
  every remote procedure called on it;
  console diagnostics are not modelled.
\<close>

type_synonym remote = "request list \<Rightarrow> request \<Rightarrow> fetch_outcome"

record audit_entry =
  operation :: string
  workerName :: string
  userName :: string
  succeeded :: bool

record world =
  calls :: "request list"
  audit :: "audit_entry list"
  db_audit :: "(string \<times> string) list"
  queries :: "(string \<times> jsval) list"

type_synonym 'a prog = "world \<Rightarrow> (thrown + 'a) \<times> world"

definition ret :: "'a \<Rightarrow> 'a prog" where
  "ret x = (\<lambda>w. (Inr x, w))"

definition throw :: "thrown \<Rightarrow> 'a prog" where
  "throw e = (\<lambda>w. (Inl e, w))"

definition bindM :: "'a prog \<Rightarrow> ('a \<Rightarrow> 'b prog) \<Rightarrow> 'b prog" where
  "bindM m f = (\<lambda>w. case m w of (Inl e, w') \<Rightarrow> (Inl e, w') | (Inr x, w') \<Rightarrow> f x w')"

text \<open>\<open>try { m } catch (e) { h e }\<close>.\<close>

definition try_catch :: "'a prog \<Rightarrow> (thrown \<Rightarrow> 'a prog) \<Rightarrow> 'a prog" where
  "try_catch m h = (\<lambda>w. case m w of (Inl e, w') \<Rightarrow> h e w' | (Inr x, w') \<Rightarrow> (Inr x, w'))"

text \<open>
  A \<open>try\<close> block whose \<open>catch\<close> only inspects the exception: the outcome of \<open>m\<close> as a value.
\<close>

definition attempt :: "'a prog \<Rightarrow> (thrown + 'a) prog" where
  "attempt m = (\<lambda>w. case m w of (r, w') \<Rightarrow> (Inr r, w'))"

definition fetch :: "remote \<Rightarrow> request \<Rightarrow> http_response prog" where
  "fetch rem req = (\<lambda>w.
     (case rem (calls w) req of Rejects e \<Rightarrow> Inl e | Responds r \<Rightarrow> Inr r,
      w\<lparr>calls := calls w @ [req]\<rparr>))"

definition response_json :: "http_response \<Rightarrow> api_response prog" where
  "response_json r = (\<lambda>w. (json_body r, w))"

text \<open>\<open>logDeploymentOperation\<close>: one audit line; the detail payload is never read back.\<close>

definition logDeploymentOperation :: "string \<Rightarrow> string \<Rightarrow> string \<Rightarrow> bool \<Rightarrow> unit prog" where
  "logDeploymentOperation op wname uname ok = (\<lambda>w.
     (Inr (), w\<lparr>audit := audit w @
        [\<lparr>operation = op, workerName = wname, userName = uname, succeeded = ok\<rparr>]\<rparr>))"

text \<open>\<open>error instanceof Error ? error.message : fallback\<close>.\<close>

fun message_or :: "thrown \<Rightarrow> string \<Rightarrow> string" where
  "message_or (ErrorObj m) fallback = m"
| "message_or (NonError v) fallback = fallback"

text \<open>\<open>errors?.[0]?.message\<close>.\<close>

fun first_error_message :: "jsval list \<Rightarrow> jsval" where
  "first_error_message [] = JUndefined"
| "first_error_message (e # es) = opt_prop e ''message''"

section \<open>The remote control-plane client (class CloudflareAPI)\<close>

record cloudflare_api =
  accountId :: string
  apiToken :: string

definition baseUrl :: string where
  "baseUrl = ''https://api.cloudflare.com/client/v4''"

definition json_headers :: "cloudflare_api \<Rightarrow> (string \<times> string) list" where
  "json_headers cf =
     [(''Authorization'', ''Bearer '' @ apiToken cf), (''Content-Type'', ''application/json'')]"

text \<open>The request \<open>makeRequest\<close> builds; a body is sent only when given and not on GET.\<close>

definition make_request :: "cloudflare_api \<Rightarrow> string \<Rightarrow> string \<Rightarrow> jsval option \<Rightarrow> request" where
  "make_request cf endpoint meth b =
     \<lparr>url = baseUrl @ ''/accounts/'' @ accountId cf @ ''/workers/scripts'' @ endpoint,
      http_method = meth,
      headers = json_headers cf,
      body = (case b of None \<Rightarrow> NoBody
              | Some v \<Rightarrow> if truthy v \<and> meth \<noteq> ''GET'' then JsonBody v else NoBody)\<rparr>"

definition makeRequest ::
  "cloudflare_api \<Rightarrow> remote \<Rightarrow> string \<Rightarrow> string \<Rightarrow> jsval option \<Rightarrow> api_response prog" where
  "makeRequest cf rem endpoint meth b =
     bindM (fetch rem (make_request cf endpoint meth b)) response_json"

definition listWorkers :: "cloudflare_api \<Rightarrow> remote \<Rightarrow> api_response prog" where
  "listWorkers cf rem = makeRequest cf rem [] ''GET'' None"

definition deploy_metadata :: "jsval list option \<Rightarrow> jsval" where
  "deploy_metadata bindings = JObj (
     [(''main_module'', JStr ''worker.js''),
      (''compatibility_date'', JStr ''2025-03-10''),
      (''compatibility_flags'', JArr [JStr ''nodejs_compat''])] @
     (case bindings of None \<Rightarrow> [] | Some bs \<Rightarrow> if 0 < length bs then [(''bindings'', JArr bs)] else []))"

definition deploy_request :: "cloudflare_api \<Rightarrow> string \<Rightarrow> string \<Rightarrow> jsval list option \<Rightarrow> request" where
  "deploy_request cf name script bindings =
     \<lparr>url = baseUrl @ ''/accounts/'' @ accountId cf @ ''/workers/scripts/'' @ name,
      http_method = ''PUT'',
      headers = [(''Authorization'', ''Bearer '' @ apiToken cf)],
      body = FormData
        [(''worker.js'', ScriptText script, ''application/javascript+module''),
         (''metadata'', JsonText (deploy_metadata bindings), ''application/json'')]\<rparr>"

definition deployWorker ::
  "cloudflare_api \<Rightarrow> remote \<Rightarrow> string \<Rightarrow> string \<Rightarrow> jsval list option \<Rightarrow> api_response prog" where
  "deployWorker cf rem name script bindings =
     bindM (fetch rem (deploy_request cf name script bindings)) response_json"

definition deleteWorker :: "cloudflare_api \<Rightarrow> remote \<Rightarrow> string \<Rightarrow> api_response prog" where
  "deleteWorker cf rem name = makeRequest cf rem (''/'' @ name) ''DELETE'' None"

definition getWorkerLogs :: "cloudflare_api \<Rightarrow> remote \<Rightarrow> string \<Rightarrow> api_response prog" where
  "getWorkerLogs cf rem name = makeRequest cf rem (''/'' @ name) ''GET'' None"

definition secret_data :: "string \<Rightarrow> string \<Rightarrow> jsval" where
  "secret_data secretName secretValue =
     JObj [(''name'', JStr secretName), (''text'', JStr secretValue), (''type'', JStr ''secret_text'')]"

definition setWorkerSecret ::
  "cloudflare_api \<Rightarrow> remote \<Rightarrow> string \<Rightarrow> string \<Rightarrow> string \<Rightarrow> api_response prog" where
  "setWorkerSecret cf rem wname secretName secretValue =
     makeRequest cf rem (''/'' @ wname @ ''/secrets'') ''PUT'' (Some (secret_data secretName secretValue))"

definition kv_request :: "cloudflare_api \<Rightarrow> string \<Rightarrow> request" where
  "kv_request cf title =
     \<lparr>url = baseUrl @ ''/accounts/'' @ accountId cf @ ''/storage/kv/namespaces'',
      http_method = ''POST'',
      headers = json_headers cf,
      body = JsonBody (JObj [(''title'', JStr title)])\<rparr>"

definition createKVNamespace :: "cloudflare_api \<Rightarrow> remote \<Rightarrow> string \<Rightarrow> api_response prog" where
  "createKVNamespace cf rem title = bindM (fetch rem (kv_request cf title)) response_json"

definition settings_request :: "cloudflare_api \<Rightarrow> string \<Rightarrow> request" where
  "settings_request cf name =
     \<lparr>url = baseUrl @ ''/accounts/'' @ accountId cf @ ''/workers/scripts/'' @ name @ ''/settings'',
      http_method = ''GET'',
      headers = json_headers cf,
      body = NoBody\<rparr>"

definition domains_request :: "cloudflare_api \<Rightarrow> request" where
  "domains_request cf =
     \<lparr>url = baseUrl @ ''/accounts/'' @ accountId cf @ ''/workers/domains'',
      http_method = ''GET'',
      headers = json_headers cf,
      body = NoBody\<rparr>"

text \<open>
  The clock of one invocation: \<open>new Date().toISOString()\<close>, \<open>new Date().getTime()\<close> and the
  engine's date parser \<open>new Date(v).getTime()\<close> (\<open>None\<close> is \<open>NaN\<close>).
\<close>

record clock =
  now_iso :: string
  now_ms :: int
  date_ms :: "jsval \<Rightarrow> int option"

text \<open>
  \<open>getWorker\<close>: the settings endpoint first; on status 404 the domains listing is fetched
  and a synthetic envelope returned; any exception inside ends in another synthetic
  envelope, also with \<open>success: true\<close>.
\<close>

definition getWorker :: "cloudflare_api \<Rightarrow> remote \<Rightarrow> clock \<Rightarrow> string \<Rightarrow> api_response prog" where
  "getWorker cf rem clk name =
     try_catch
       (bindM (fetch rem (settings_request cf name)) (\<lambda>response.
          if status response = 404 then
            bindM (fetch rem (domains_request cf)) (\<lambda>subdomainResponse.
            bindM (response_json subdomainResponse) (\<lambda>subdomainData.
              ret \<lparr>success = True, errors = [], messages = [],
                   result = JObj
                     [(''id'', JStr name), (''name'', JStr name),
                      (''created_on'', JStr (now_iso clk)),
                      (''modified_on'', JStr (now_iso clk)),
                      (''usage_model'', JStr ''bundled''),
                      (''environment'', JStr ''production'')]\<rparr>))
          else
            bindM (response_json response) (\<lambda>data.
              if success data \<and> truthy (result data) then
                ret \<lparr>success = True, errors = [], messages = [],
                     result = JObj
                       [(''id'', JStr name), (''name'', JStr name),
                        (''created_on'', js_or (opt_prop (result data) ''created_on'') (JStr (now_iso clk))),
                        (''modified_on'', js_or (opt_prop (result data) ''modified_on'') (JStr (now_iso clk))),
                        (''usage_model'', js_or (opt_prop (result data) ''usage_model'') (JStr ''bundled'')),
                        (''compatibility_date'', opt_prop (result data) ''compatibility_date''),
                        (''environment'', JStr ''production'')]\<rparr>
              else ret data)))
       (\<lambda>error.
          ret \<lparr>success = True, errors = [],
               messages = [JStr ''Worker status retrieved with limited information''],
               result = JObj
                 [(''id'', JStr name), (''name'', JStr name),
                  (''created_on'', JStr (now_iso clk)),
                  (''modified_on'', JStr (now_iso clk)),
                  (''environment'', JStr ''production'')]\<rparr>)"

section \<open>The tool surface\<close>

text \<open>
  A handler returns \<open>{content: [{type: "text", text}]}\<close>. The text is a template literal:
  its literal stretches (with the strings interpolated into them) and the documents it
  prints, kept as values: \<open>Json\<close> for \<open>JSON.stringify(doc, null, 2)\<close>, \<open>JsonLine\<close> for
  \<open>JSON.stringify(doc)\<close>.
\<close>

datatype piece = Lit string | Json jsval | JsonLine jsval

datatype tool_response = TextContent (text_of: "piece list")

text \<open>The text starts with the given characters.\<close>

fun text_prefixed :: "string \<Rightarrow> piece list \<Rightarrow> bool" where
  "text_prefixed p (Lit s # rest) = prefix p s"
| "text_prefixed p other = False"

text \<open>The given characters occur in a literal stretch of the text.\<close>

fun text_contains :: "string \<Rightarrow> piece list \<Rightarrow> bool" where
  "text_contains p [] = False"
| "text_contains p (Lit s # rest) = (sublist p s \<or> text_contains p rest)"
| "text_contains p (Json v # rest) = text_contains p rest"
| "text_contains p (JsonLine v # rest) = text_contains p rest"

record env =
  CLOUDFLARE_ACCOUNT_ID :: "string option"
  CLOUDFLARE_API_TOKEN :: "string option"
  SUPABASE_URL :: "string option"
  SUPABASE_ANON_KEY :: "string option"

record props =
  login :: string
  full_name :: string
  email :: string
  accessToken :: "string option"

text \<open>
  \<open>!accountId || !apiToken\<close> fails for a variable that is unset or empty; otherwise the
  client is built from the two values.
\<close>

definition credentials :: "env \<Rightarrow> cloudflare_api option" where
  "credentials e =
     (case (CLOUDFLARE_ACCOUNT_ID e, CLOUDFLARE_API_TOKEN e) of
        (Some a, Some t) \<Rightarrow> if a = [] \<or> t = [] then None else Some \<lparr>accountId = a, apiToken = t\<rparr>
      | _ \<Rightarrow> None)"

definition missing_credentials_doc :: jsval where
  "missing_credentials_doc =
     JObj [(''missing'', JStr ''CLOUDFLARE_ACCOUNT_ID and CLOUDFLARE_API_TOKEN environment variables'')]"

definition credentials_error_details :: tool_response where
  "credentials_error_details = TextContent
     [Lit ''**Error**\<newline>\<newline>Cloudflare credentials not configured\<newline>\<newline>**Details:**\<newline>```json\<newline>'',
      Json missing_credentials_doc,
      Lit ''\<newline>```'']"

definition credentials_error_plain :: tool_response where
  "credentials_error_plain = TextContent
     [Lit ''**Error**\<newline>\<newline>Cloudflare credentials not configured. Please set CLOUDFLARE_ACCOUNT_ID and CLOUDFLARE_API_TOKEN environment variables.'']"

text \<open>The engine's stack trace text is not modelled: \<open>error.stack\<close> shows the message.\<close>

fun stack_of :: "thrown \<Rightarrow> jsval" where
  "stack_of (ErrorObj m) = JStr m"
| "stack_of (NonError v) = JUndefined"

text \<open>A name between single quotes, as the templates print it.\<close>

definition quoted :: "string \<Rightarrow> string" where
  "quoted s = [CHR 0x27] @ s @ [CHR 0x27]"

definition unexpected_error :: "string \<Rightarrow> thrown \<Rightarrow> tool_response" where
  "unexpected_error headline e = TextContent
     [Lit (''**Error**\<newline>\<newline>'' @ headline @ ''\<newline>\<newline>**Details:**\<newline>```json\<newline>''),
      Json (JObj [(''error'', JStr (message_or e ''Unknown error'')), (''details'', stack_of e)]),
      Lit ''\<newline>```'']"

section \<open>The secret batch tool (setWorkerSecrets)\<close>

record secret =
  secret_name :: string
  secret_value :: string

record secrets_args =
  sw_workerName :: string
  sw_secrets :: "secret list"
  sw_environment :: "string option"

text \<open>One entry of the handler's \<open>results\<close> array.\<close>

datatype settled =
    Fulfilled string
  | Rejected thrown string
  | Pending string string

text \<open>
  The first \<open>try\<close> block: one secret-set call for \<open>secrets[0]\<close>. With an empty list
  \<open>firstSecret\<close> is undefined and reading its name throws, in the block and again in its
  \<open>catch\<close>.
\<close>

fun process_first :: "cloudflare_api \<Rightarrow> remote \<Rightarrow> string \<Rightarrow> secret list \<Rightarrow> settled prog" where
  "process_first cf rem wname [] =
     throw (type_error (''Cannot read properties of undefined (reading '' @ quoted ''name'' @ '')''))"
| "process_first cf rem wname (firstSecret # others) =
     bindM (attempt (setWorkerSecret cf rem wname (secret_name firstSecret) (secret_value firstSecret)))
       (\<lambda>r. case r of
          Inl e \<Rightarrow> ret (Rejected e (secret_name firstSecret))
        | Inr res \<Rightarrow>
            if \<not> success res then
              ret (Rejected
                (ErrorObj (to_string (js_or (first_error_message (errors res))
                   (JStr (''Failed to set secret '' @ secret_name firstSecret)))))
                (secret_name firstSecret))
            else ret (Fulfilled (secret_name firstSecret)))"

text \<open>The entries pushed for \<open>i = 1 .. secrets.length - 1\<close>.\<close>

definition pending_results :: "secret list \<Rightarrow> settled list" where
  "pending_results secrets =
     map (\<lambda>s. Pending (secret_name s) ''Call setWorkerSecrets again for this secret'') (tl secrets)"

text \<open>\<open>a || b\<close> on strings.\<close>

definition str_or :: "string \<Rightarrow> string \<Rightarrow> string" where
  "str_or a b = (if a \<noteq> [] then a else b)"

text \<open>\<open>result.reason?.message || 'Unknown error'\<close>.\<close>

fun reason_message :: "thrown \<Rightarrow> jsval" where
  "reason_message (ErrorObj m) = JStr (str_or m ''Unknown error'')"
| "reason_message (NonError v) = js_or (opt_prop v ''message'') (JStr ''Unknown error'')"

text \<open>The \<open>forEach\<close> that sorts the results into three lists, entry by entry.\<close>

fun successful_of :: "settled \<Rightarrow> string list" where
  "successful_of (Fulfilled v) = (if v \<noteq> [] then [v] else [])"
| "successful_of other = []"

fun error_of :: "settled \<Rightarrow> secret \<Rightarrow> (string \<times> jsval) list" where
  "error_of (Rejected reason sname) s = [(str_or sname (secret_name s), reason_message reason)]"
| "error_of other s = []"

fun pending_of :: "settled \<Rightarrow> secret \<Rightarrow> string list" where
  "pending_of (Pending sname note) s = [str_or sname (secret_name s)]"
| "pending_of other s = []"

definition successfulSecrets_of :: "settled list \<Rightarrow> string list" where
  "successfulSecrets_of results = concat (map successful_of results)"

definition errors_of :: "settled list \<Rightarrow> secret list \<Rightarrow> (string \<times> jsval) list" where
  "errors_of results secrets = concat (map (\<lambda>(r, s). error_of r s) (zip results secrets))"

definition pendings_of :: "settled list \<Rightarrow> secret list \<Rightarrow> string list" where
  "pendings_of results secrets = concat (map (\<lambda>(r, s). pending_of r s) (zip results secrets))"

text \<open>
  \<open>const status = errors.length === 0 ? 'SUCCESS' : successfulSecrets.length === 0 ? 'FAILURE' : 'PARTIAL'\<close>.
\<close>

definition batch_status :: "string list \<Rightarrow> (string \<times> jsval) list \<Rightarrow> string" where
  "batch_status successfulSecrets errs =
     (if length errs = 0 then ''SUCCESS''
      else if length successfulSecrets = 0 then ''FAILURE'' else ''PARTIAL'')"

definition error_doc :: "string \<times> jsval \<Rightarrow> jsval" where
  "error_doc e = JObj [(''secret'', JStr (fst e)), (''error'', snd e)]"

definition batch_instructions ::
  "string \<Rightarrow> nat \<Rightarrow> string list \<Rightarrow> (string \<times> jsval) list \<Rightarrow> string list \<Rightarrow> string \<Rightarrow> string" where
  "batch_instructions wname n_total successfulSecrets errs pending st =
     (if 0 < length pending then
        ''Processed 1 of '' @ show_nat n_total @ '' secrets. Call setWorkerSecrets again for remaining ''
          @ show_nat (length pending) @ '' secrets.''
      else if st = ''SUCCESS'' then
        ''All '' @ show_nat n_total @ '' secrets successfully configured for '' @ quoted wname
      else if st = ''PARTIAL'' then
        show_nat (length successfulSecrets) @ '' of '' @ show_nat n_total @ '' secrets configured. ''
          @ show_nat (length errs) @ '' failed.''
      else ''Failed to set secrets for '' @ quoted wname)"

text \<open>
  The \<open>result\<close> object literal of the handler; its \<open>status\<close> is
  \<open>pending.length > 0 ? 'PARTIAL' : status\<close>.
\<close>

definition batch_result ::
  "secrets_args \<Rightarrow> string list \<Rightarrow> (string \<times> jsval) list \<Rightarrow> string list \<Rightarrow> string \<Rightarrow> jsval" where
  "batch_result args successfulSecrets errs pending st = JObj
     [(''workerName'', JStr (sw_workerName args)),
      (''environment'', JStr (case sw_environment args of None \<Rightarrow> ''production''
                               | Some ev \<Rightarrow> str_or ev ''production'')),
      (''totalSecrets'', JNum (int (length (sw_secrets args)))),
      (''successfulSecrets'', JArr (map JStr successfulSecrets)),
      (''failedSecrets'', if 0 < length errs then JArr (map error_doc errs) else JUndefined),
      (''pendingSecrets'', if 0 < length pending then JArr (map JStr pending) else JUndefined),
      (''status'', JStr (if 0 < length pending then ''PARTIAL'' else st)),
      (''wranglerEquivalent'',
         JArr (map (\<lambda>n. JStr (''wrangler secret put '' @ n @ '' --name '' @ sw_workerName args))
                 successfulSecrets)),
      (''instructions'',
         JStr (batch_instructions (sw_workerName args) (length (sw_secrets args))
                 successfulSecrets errs pending st))]"

text \<open>The response built from the sorted results: the \<open>FAILURE\<close> branch or the final return.\<close>

definition batch_response :: "secrets_args \<Rightarrow> settled list \<Rightarrow> tool_response" where
  "batch_response args results =
     (let successfulSecrets = successfulSecrets_of results;
          errs = errors_of results (sw_secrets args);
          pending = pendings_of results (sw_secrets args);
          st = batch_status successfulSecrets errs;
          res = batch_result args successfulSecrets errs pending st
      in
        if st = ''FAILURE'' then
          TextContent
            [Lit (''**Error**\<newline>\<newline>Failed to set secrets for '' @ quoted (sw_workerName args)
                  @ ''\<newline>\<newline>**Details:**\<newline>```json\<newline>''),
             Json res,
             Lit ''\<newline>```'']
        else
          TextContent
            [Lit (''**'' @ (if st = ''SUCCESS'' then ''Success'' else ''Partial Success'')
                  @ ''**\<newline>\<newline>''
                  @ batch_instructions (sw_workerName args) (length (sw_secrets args))
                      successfulSecrets errs pending st
                  @ ''\<newline>\<newline>**Result:**\<newline>```json\<newline>''),
             Json res,
             Lit ''\<newline>```''])"

definition setWorkerSecrets_body :: "env \<Rightarrow> props \<Rightarrow> remote \<Rightarrow> secrets_args \<Rightarrow> tool_response prog" where
  "setWorkerSecrets_body e p rem args =
     (case credentials e of
        None \<Rightarrow>
          bindM (logDeploymentOperation ''set_worker_secrets'' (sw_workerName args) (login p) False)
            (\<lambda>_. ret credentials_error_details)
      | Some cfApi \<Rightarrow>
          bindM (process_first cfApi rem (sw_workerName args) (sw_secrets args)) (\<lambda>firstResult.
            let results = firstResult # pending_results (sw_secrets args) in
            bindM (logDeploymentOperation ''set_worker_secrets'' (sw_workerName args) (login p)
                     (batch_status (successfulSecrets_of results)
                        (errors_of results (sw_secrets args)) = ''SUCCESS''))
              (\<lambda>_. ret (batch_response args results))))"

definition setWorkerSecrets_handler :: "env \<Rightarrow> props \<Rightarrow> remote \<Rightarrow> secrets_args \<Rightarrow> tool_response prog" where
  "setWorkerSecrets_handler e p rem args =
     try_catch (setWorkerSecrets_body e p rem args)
       (\<lambda>error.
          bindM (logDeploymentOperation ''set_worker_secrets'' (sw_workerName args) (login p) False)
            (\<lambda>_. ret (unexpected_error ''Unexpected error setting worker secrets'' error)))"

section \<open>Code validation (validateWorkerCode)\<close>

text \<open>
  The validator tests the payload against a list of regular expressions. Payloads are
  strings of 8-bit characters. A pattern is a regular expression, possibly preceded by
  the word-boundary assertion \<open>\b\<close>; \<open>RegExp.prototype.test\<close> asks whether some substring
  matches, which for these patterns (no groups, no back-references) is membership of a
  regular language. The matcher works by derivatives.
\<close>

datatype rx =
    Zero
  | Eps
  | Cls "char \<Rightarrow> bool"
  | Alt rx rx
  | Seq rx rx
  | Star rx

primrec nullable :: "rx \<Rightarrow> bool" where
  "nullable Zero = False"
| "nullable Eps = True"
| "nullable (Cls P) = False"
| "nullable (Alt r s) = (nullable r \<or> nullable s)"
| "nullable (Seq r s) = (nullable r \<and> nullable s)"
| "nullable (Star r) = True"

primrec deriv :: "char \<Rightarrow> rx \<Rightarrow> rx" where
  "deriv c Zero = Zero"
| "deriv c Eps = Zero"
| "deriv c (Cls P) = (if P c then Eps else Zero)"
| "deriv c (Alt r s) = Alt (deriv c r) (deriv c s)"
| "deriv c (Seq r s) =
     (if nullable r then Alt (Seq (deriv c r) s) (deriv c s) else Seq (deriv c r) s)"
| "deriv c (Star r) = Seq (deriv c r) (Star r)"

text \<open>Some prefix of the string matches the expression.\<close>

fun accepts_prefix :: "rx \<Rightarrow> string \<Rightarrow> bool" where
  "accepts_prefix r [] = nullable r"
| "accepts_prefix r (c # cs) = (nullable r \<or> accepts_prefix (deriv c r) cs)"

text \<open>\<open>\w\<close>, \<open>\s\<close> (which is also what \<open>trim\<close> strips), \<open>.\<close> and a letter under the \<open>i\<close> flag.\<close>

definition is_word :: "char \<Rightarrow> bool" where
  "is_word c = (let n = of_char c :: nat in
     (48 \<le> n \<and> n \<le> 57) \<or> (65 \<le> n \<and> n \<le> 90) \<or> n = 95 \<or> (97 \<le> n \<and> n \<le> 122))"

definition is_space :: "char \<Rightarrow> bool" where
  "is_space c = (let n = of_char c :: nat in (9 \<le> n \<and> n \<le> 13) \<or> n = 32 \<or> n = 160)"

definition is_line_terminator :: "char \<Rightarrow> bool" where
  "is_line_terminator c = (of_char c = (10 :: nat) \<or> of_char c = (13 :: nat))"

definition lower :: "char \<Rightarrow> char" where
  "lower c = (let n = of_char c :: nat in if 65 \<le> n \<and> n \<le> 90 then char_of (n + 32) else c)"

definition dot :: rx where
  "dot = Cls (\<lambda>c. \<not> is_line_terminator c)"

definition ws :: rx where
  "ws = Cls is_space"

definition chr :: "char \<Rightarrow> rx" where
  "chr c = Cls (\<lambda>d. d = c)"

definition chr_i :: "char \<Rightarrow> rx" where
  "chr_i c = Cls (\<lambda>d. lower d = lower c)"

text \<open>The character class of the three quote characters.\<close>

definition quote_cls :: rx where
  "quote_cls = Cls (\<lambda>d. d = CHR 0x27 \<or> d = CHR 0x22 \<or> d = CHR 0x60)"

definition rx_plus :: "rx \<Rightarrow> rx" where
  "rx_plus r = Seq r (Star r)"

fun seqs :: "rx list \<Rightarrow> rx" where
  "seqs [] = Eps"
| "seqs [r] = r"
| "seqs (r # rs) = Seq r (seqs rs)"

text \<open>A literal stretch of a pattern under the \<open>i\<close> flag.\<close>

definition lit_i :: "string \<Rightarrow> rx" where
  "lit_i s = seqs (map chr_i s)"

record pattern =
  word_boundary :: bool
  expr :: rx

text \<open>
  \<open>\b\<close> between the character before the position (none at the start) and the rest of the
  string: exactly one side is a word character.
\<close>

definition at_boundary :: "char option \<Rightarrow> string \<Rightarrow> bool" where
  "at_boundary prev s =
     ((case prev of None \<Rightarrow> False | Some c \<Rightarrow> is_word c)
        \<noteq> (case s of [] \<Rightarrow> False | c # cs \<Rightarrow> is_word c))"

text \<open>A match starts at this position or at a later one.\<close>

fun search_from :: "bool \<Rightarrow> rx \<Rightarrow> char option \<Rightarrow> string \<Rightarrow> bool" where
  "search_from b r prev [] = ((if b then at_boundary prev [] else True) \<and> nullable r)"
| "search_from b r prev (c # cs) =
     (((if b then at_boundary prev (c # cs) else True) \<and> accepts_prefix r (c # cs))
      \<or> search_from b r (Some c) cs)"

text \<open>\<open>pattern.test(code)\<close>.\<close>

definition test :: "pattern \<Rightarrow> string \<Rightarrow> bool" where
  "test p s = search_from (word_boundary p) (expr p) None s"

text \<open>\<open>require\s*\(\s*['"`]MODULE['"`]\s*\)\<close> and \<open>import\s+.*\s+from\s+['"`]MODULE['"`]\<close>.\<close>

definition require_of :: "string \<Rightarrow> pattern" where
  "require_of m = \<lparr>word_boundary = False,
     expr = seqs [lit_i ''require'', Star ws, chr CHR ''('', Star ws, quote_cls, lit_i m, quote_cls,
                  Star ws, chr CHR '')'']\<rparr>"

definition import_from :: "string \<Rightarrow> pattern" where
  "import_from m = \<lparr>word_boundary = False,
     expr = seqs [lit_i ''import'', rx_plus ws, Star dot, rx_plus ws, lit_i ''from'', rx_plus ws,
                  quote_cls, lit_i m, quote_cls]\<rparr>"

definition plain :: "rx \<Rightarrow> pattern" where
  "plain r = \<lparr>word_boundary = False, expr = r\<rparr>"

text \<open>The template-literal pattern \<open>/\$\{.*\}/\<close>, the only one without the \<open>i\<close> flag.\<close>

definition template_literal :: pattern where
  "template_literal = plain (seqs [chr CHR ''$'', chr CHR ''{'', Star dot, chr CHR ''}''])"

definition dangerousPatterns :: "pattern list" where
  "dangerousPatterns =
     [\<lparr>word_boundary = True, expr = seqs [lit_i ''eval'', Star ws, chr CHR ''('']\<rparr>,
      \<lparr>word_boundary = True, expr = seqs [lit_i ''Function'', Star ws, chr CHR ''('']\<rparr>,
      plain (lit_i ''process.exit''),
      plain (lit_i ''process.kill''),
      plain (lit_i ''child_process''),
      require_of ''fs'',
      require_of ''path'',
      require_of ''os'',
      require_of ''crypto'',
      import_from ''fs'',
      import_from ''path'',
      import_from ''os'',
      plain (seqs [lit_i ''.exec'', Star ws, chr CHR ''('']),
      plain (seqs [lit_i ''.spawn'', Star ws, chr CHR ''('']),
      plain (seqs [lit_i ''new'', rx_plus ws, lit_i ''Function'', Star ws, chr CHR ''('']),
      plain (lit_i ''document.write''),
      plain (lit_i ''document.writeln''),
      plain (seqs [lit_i ''innerHTML'', Star ws, chr CHR ''='']),
      plain (seqs [lit_i ''outerHTML'', Star ws, chr CHR ''='']),
      template_literal,
      plain (lit_i ''javascript:''),
      plain (lit_i ''vbscript:''),
      plain (seqs [lit_i ''data:'', Star ws, lit_i ''text/html''])]"

text \<open>\<open>code.trim()\<close>.\<close>

definition trim :: "string \<Rightarrow> string" where
  "trim s = rev (dropWhile is_space (rev (dropWhile is_space s)))"

record validation =
  isValid :: bool
  error :: "string option"

definition validateWorkerCode :: "string \<Rightarrow> validation" where
  "validateWorkerCode code =
     (if trim code = [] then
        \<lparr>isValid = False, error = Some ''Worker code cannot be empty''\<rparr>
      else if list_ex (\<lambda>p. test p code) dangerousPatterns then
        \<lparr>isValid = False, error = Some ''Code contains potentially dangerous patterns''\<rparr>
      else if length code > 1024 * 1024 then
        \<lparr>isValid = False, error = Some ''Code is too large (maximum 1MB allowed)''\<rparr>
      else \<lparr>isValid = True, error = None\<rparr>)"

section \<open>The deployWorker tool\<close>

record deploy_args =
  dw_name :: string
  dw_code :: string
  dw_description :: "string option"

text \<open>\<open>v === undefined ? undefined : string\<close> for an optional string parameter.\<close>

fun opt_str :: "string option \<Rightarrow> jsval" where
  "opt_str None = JUndefined"
| "opt_str (Some s) = JStr s"

text \<open>\<open>`${Math.round(code.length / 1024)}KB`\<close>.\<close>

definition code_size :: "string \<Rightarrow> string" where
  "code_size code = show_nat ((length code + 512) div 1024) @ ''KB''"

definition deployed_by :: "props \<Rightarrow> string" where
  "deployed_by p = login p @ '' ('' @ full_name p @ '')''"

definition deployWorker_body :: "env \<Rightarrow> props \<Rightarrow> remote \<Rightarrow> deploy_args \<Rightarrow> tool_response prog" where
  "deployWorker_body e p rem args =
     (let validation = validateWorkerCode (dw_code args) in
      if \<not> isValid validation then
        bindM (logDeploymentOperation ''deploy'' (dw_name args) (login p) False)
          (\<lambda>_. ret (TextContent
             [Lit (''**Error**\<newline>\<newline>Code validation failed: ''
                   @ (case error validation of None \<Rightarrow> ''undefined'' | Some m \<Rightarrow> m))]))
      else
        case credentials e of
          None \<Rightarrow>
            bindM (logDeploymentOperation ''deploy'' (dw_name args) (login p) False)
              (\<lambda>_. ret credentials_error_plain)
        | Some cfApi \<Rightarrow>
            bindM (deployWorker cfApi rem (dw_name args) (dw_code args) None) (\<lambda>res.
              if \<not> success res then
                bindM (logDeploymentOperation ''deploy'' (dw_name args) (login p) False)
                  (\<lambda>_. ret (TextContent
                     [Lit (''**Error**\<newline>\<newline>Deployment failed: ''
                           @ to_string (js_or (first_error_message (errors res))
                                          (JStr ''Unknown deployment error'')))]))
              else
                bindM (logDeploymentOperation ''deploy'' (dw_name args) (login p) True)
                  (\<lambda>_. ret (TextContent
                     [Lit (''**Success**\<newline>\<newline>Worker '' @ quoted (dw_name args)
                           @ '' deployed successfully\<newline>\<newline>**Result:**\<newline>```json\<newline>''),
                      Json (JObj
                        [(''workerName'', JStr (dw_name args)),
                         (''workerId'', opt_prop (result res) ''id''),
                         (''createdOn'', opt_prop (result res) ''created_on''),
                         (''modifiedOn'', opt_prop (result res) ''modified_on''),
                         (''description'', opt_str (dw_description args)),
                         (''deployedBy'', JStr (deployed_by p)),
                         (''codeSize'', JStr (code_size (dw_code args)))]),
                      Lit ''\<newline>```'']))))"

definition deployWorker_handler :: "env \<Rightarrow> props \<Rightarrow> remote \<Rightarrow> deploy_args \<Rightarrow> tool_response prog" where
  "deployWorker_handler e p rem args =
     try_catch (deployWorker_body e p rem args)
       (\<lambda>err.
          bindM (logDeploymentOperation ''deploy'' (dw_name args) (login p) False)
            (\<lambda>_. ret (TextContent
               [Lit (''**Error**\<newline>\<newline>Deployment error: '' @ message_or err ''Unknown error'')])))"

section \<open>The deleteWorker, listWorkers and getWorkerStatus tools\<close>

text \<open>\<open>v.key\<close>: reading a property of \<open>null\<close> or \<open>undefined\<close> throws a \<open>TypeError\<close>.\<close>

definition get_prop :: "jsval \<Rightarrow> string \<Rightarrow> jsval prog" where
  "get_prop v k =
     (if nullish v then throw (type_error (''Cannot read properties of '' @ to_string v
                                             @ '' (reading '' @ quoted k @ '')''))
      else ret (opt_prop v k))"

record delete_args =
  del_name :: string
  del_confirm :: bool

definition not_found_response :: "string \<Rightarrow> tool_response" where
  "not_found_response wname = TextContent
     [Lit (''**Error**\<newline>\<newline>Worker '' @ quoted wname
           @ '' not found. Use '' @ quoted ''listWorkers'' @ '' to see available workers.'')]"

definition deleteWorker_body ::
  "env \<Rightarrow> props \<Rightarrow> remote \<Rightarrow> clock \<Rightarrow> delete_args \<Rightarrow> tool_response prog" where
  "deleteWorker_body e p rem clk args =
     (if \<not> del_confirm args then
        ret (TextContent
          [Lit (''**Error**\<newline>\<newline>Deletion requires explicit confirmation. Set ''
                @ quoted ''confirm: true'' @ '' to delete worker '' @ quoted (del_name args)
                @ ''. **WARNING: This action cannot be undone.**'')])
      else
        case credentials e of
          None \<Rightarrow>
            bindM (logDeploymentOperation ''delete'' (del_name args) (login p) False)
              (\<lambda>_. ret credentials_error_plain)
        | Some cfApi \<Rightarrow>
            bindM (getWorker cfApi rem clk (del_name args)) (\<lambda>checkResult.
              if \<not> success checkResult then
                bindM (logDeploymentOperation ''delete'' (del_name args) (login p) False)
                  (\<lambda>_. ret (not_found_response (del_name args)))
              else
                let worker = result checkResult in
                bindM (deleteWorker cfApi rem (del_name args)) (\<lambda>deleteResult.
                  if \<not> success deleteResult then
                    bindM (logDeploymentOperation ''delete'' (del_name args) (login p) False)
                      (\<lambda>_. ret (TextContent
                         [Lit (''**Error**\<newline>\<newline>Failed to delete worker: ''
                               @ to_string (js_or (first_error_message (errors deleteResult))
                                              (JStr ''Unknown deletion error'')))]))
                  else
                    bindM (get_prop worker ''id'') (\<lambda>workerId.
                    bindM (logDeploymentOperation ''delete'' (del_name args) (login p) True)
                      (\<lambda>_. ret (TextContent
                         [Lit (''**Success**\<newline>\<newline>Worker '' @ quoted (del_name args)
                               @ '' has been permanently deleted\<newline>\<newline>**Result:**\<newline>```json\<newline>''),
                          Json (JObj
                            [(''deletedWorker'', JObj
                               [(''name'', opt_prop worker ''name''),
                                (''id'', workerId),
                                (''wasCreated'', opt_prop worker ''created_on''),
                                (''lastModified'', opt_prop worker ''modified_on'')]),
                             (''deletedBy'', JStr (deployed_by p)),
                             (''deletedAt'', JStr (now_iso clk)),
                             (''warning'', JStr ''This action cannot be undone'')]),
                          Lit ''\<newline>```'']))))))"

definition deleteWorker_handler ::
  "env \<Rightarrow> props \<Rightarrow> remote \<Rightarrow> clock \<Rightarrow> delete_args \<Rightarrow> tool_response prog" where
  "deleteWorker_handler e p rem clk args =
     try_catch (deleteWorker_body e p rem clk args)
       (\<lambda>err.
          bindM (logDeploymentOperation ''delete'' (del_name args) (login p) False)
            (\<lambda>_. ret (TextContent
               [Lit (''**Error**\<newline>\<newline>Error deleting worker: '' @ message_or err ''Unknown error'')])))"

text \<open>
  \<open>workers.length\<close> and \<open>workers.map(f)\<close> on whatever \<open>result.result || []\<close> is: only an
  array has a \<open>map\<close> method; on any other value the call throws.
\<close>

fun js_length :: "jsval \<Rightarrow> jsval" where
  "js_length (JArr xs) = JNum (int (length xs))"
| "js_length (JStr s) = JNum (int (length s))"
| "js_length v = opt_prop v ''length''"

fun mapM :: "('a \<Rightarrow> 'b prog) \<Rightarrow> 'a list \<Rightarrow> 'b list prog" where
  "mapM f [] = ret []"
| "mapM f (x # xs) = bindM (f x) (\<lambda>y. bindM (mapM f xs) (\<lambda>ys. ret (y # ys)))"

fun js_map :: "(jsval \<Rightarrow> jsval prog) \<Rightarrow> jsval \<Rightarrow> jsval list prog" where
  "js_map f (JArr xs) = mapM f xs"
| "js_map f v = throw (type_error ''workers.map is not a function'')"

definition worker_info :: "jsval \<Rightarrow> jsval prog" where
  "worker_info worker =
     bindM (get_prop worker ''name'') (\<lambda>wname.
       ret (JObj
         [(''name'', wname),
          (''id'', opt_prop worker ''id''),
          (''created'', opt_prop worker ''created_on''),
          (''modified'', opt_prop worker ''modified_on''),
          (''environment'', js_or (opt_prop worker ''environment'') (JStr ''production'')),
          (''usageModel'', js_or (opt_prop worker ''usage_model'') (JStr ''bundled''))]))"

definition listWorkers_body :: "env \<Rightarrow> props \<Rightarrow> remote \<Rightarrow> tool_response prog" where
  "listWorkers_body e p rem =
     (case credentials e of
        None \<Rightarrow>
          bindM (logDeploymentOperation ''list'' ''all'' (login p) False)
            (\<lambda>_. ret credentials_error_plain)
      | Some cfApi \<Rightarrow>
          bindM (listWorkers cfApi rem) (\<lambda>res.
            if \<not> success res then
              bindM (logDeploymentOperation ''list'' ''all'' (login p) False)
                (\<lambda>_. ret (TextContent
                   [Lit (''**Error**\<newline>\<newline>Failed to list workers: ''
                         @ to_string (js_or (first_error_message (errors res))
                                        (JStr ''Unknown error listing workers'')))]))
            else
              let workers = js_or (result res) (JArr []) in
              bindM (logDeploymentOperation ''list'' ''all'' (login p) True) (\<lambda>_.
                if js_length workers = JNum 0 then
                  ret (TextContent
                    [Lit ''**No Workers Found**\<newline>\<newline>No Cloudflare Workers are currently deployed in your account.\<newline>\<newline>Use the `deployWorker` tool to deploy your first worker.''])
                else
                  bindM (js_map worker_info workers) (\<lambda>workersInfo.
                    ret (TextContent
                      [Lit (''**Deployed Workers ('' @ to_string (js_length workers) @ '')**\<newline>\<newline>''),
                       Json (JArr workersInfo),
                       Lit (''\<newline>\<newline>**Total workers:** '' @ to_string (js_length workers)
                            @ ''\<newline>\<newline>**Note:** Use `getWorkerStatus` to check individual worker health, or `deleteWorker` to remove a worker.'')])))))"

definition listWorkers_handler :: "env \<Rightarrow> props \<Rightarrow> remote \<Rightarrow> tool_response prog" where
  "listWorkers_handler e p rem =
     try_catch (listWorkers_body e p rem)
       (\<lambda>err.
          bindM (logDeploymentOperation ''list'' ''all'' (login p) False)
            (\<lambda>_. ret (TextContent
               [Lit (''**Error**\<newline>\<newline>Error listing workers: '' @ message_or err ''Unknown error'')])))"

text \<open>\<open>errors?.[0]?.code\<close>.\<close>

fun first_error_code :: "jsval list \<Rightarrow> jsval" where
  "first_error_code [] = JUndefined"
| "first_error_code (x # xs) = opt_prop x ''code''"

text \<open>
  \<open>Math.floor((now.getTime() - new Date(v).getTime()) / (1000 * 60 * 60 * 24))\<close>; \<open>None\<close> is
  \<open>NaN\<close>, which \<open>JSON.stringify\<close> prints as \<open>null\<close> and a template literal as \<open>NaN\<close>.
\<close>

definition days_since :: "clock \<Rightarrow> jsval \<Rightarrow> int option" where
  "days_since clk v =
     (case date_ms clk v of None \<Rightarrow> None | Some t \<Rightarrow> Some ((now_ms clk - t) div (1000 * 60 * 60 * 24)))"

fun days_json :: "int option \<Rightarrow> jsval" where
  "days_json None = JNull"
| "days_json (Some d) = JNum d"

fun days_text :: "int option \<Rightarrow> string" where
  "days_text None = ''NaN''"
| "days_text (Some d) = show_int d"

definition getWorkerStatus_body ::
  "env \<Rightarrow> props \<Rightarrow> remote \<Rightarrow> clock \<Rightarrow> string \<Rightarrow> tool_response prog" where
  "getWorkerStatus_body e p rem clk wname =
     (case credentials e of
        None \<Rightarrow>
          bindM (logDeploymentOperation ''status'' wname (login p) False)
            (\<lambda>_. ret credentials_error_plain)
      | Some cfApi \<Rightarrow>
          bindM (getWorker cfApi rem clk wname) (\<lambda>res.
            if \<not> success res then
              bindM (logDeploymentOperation ''status'' wname (login p) False) (\<lambda>_.
                if first_error_code (errors res) = JNum 10007 then ret (not_found_response wname)
                else
                  ret (TextContent
                    [Lit (''**Error**\<newline>\<newline>Failed to get worker status: ''
                          @ to_string (js_or (first_error_message (errors res))
                                         (JStr ''Worker not found'')))]))
            else
              let worker = result res in
              bindM (logDeploymentOperation ''status'' wname (login p) True) (\<lambda>_.
              bindM (get_prop worker ''created_on'') (\<lambda>created.
                let uptimeDays = days_since clk created;
                    daysSinceUpdate = days_since clk (opt_prop worker ''modified_on'')
                in
                ret (TextContent
                  [Lit (''**Worker Status: '' @ wname @ ''**\<newline>\<newline>''),
                   Json (JObj
                     [(''name'', opt_prop worker ''name''),
                      (''id'', opt_prop worker ''id''),
                      (''status'', JStr ''Running''),
                      (''environment'', js_or (opt_prop worker ''environment'') (JStr ''production'')),
                      (''usageModel'', js_or (opt_prop worker ''usage_model'') (JStr ''bundled'')),
                      (''compatibilityDate'', opt_prop worker ''compatibility_date''),
                      (''created'', created),
                      (''lastModified'', opt_prop worker ''modified_on''),
                      (''uptimeDays'', days_json uptimeDays),
                      (''daysSinceLastUpdate'', days_json daysSinceUpdate),
                      (''url'', JStr (''https://'' @ to_string (opt_prop worker ''name'') @ ''.''
                                       @ take 8 (accountId cfApi) @ ''.workers.dev''))]),
                   Lit (''\<newline>\<newline>**Health:** Running\<newline>**Uptime:** '' @ days_text uptimeDays
                        @ '' days\<newline>**Last Updated:** '' @ days_text daysSinceUpdate
                        @ '' days ago\<newline>\<newline>**Note:** Worker appears to be deployed and accessible. Use the worker URL to test functionality.'')])))))"

definition getWorkerStatus_handler ::
  "env \<Rightarrow> props \<Rightarrow> remote \<Rightarrow> clock \<Rightarrow> string \<Rightarrow> tool_response prog" where
  "getWorkerStatus_handler e p rem clk wname =
     try_catch (getWorkerStatus_body e p rem clk wname)
       (\<lambda>err.
          bindM (logDeploymentOperation ''status'' wname (login p) False)
            (\<lambda>_. ret (TextContent
               [Lit (''**Error**\<newline>\<newline>Error checking worker status: ''
                     @ message_or err ''Unknown error'')])))"

section \<open>The createKVNamespace and manageDurableObjects tools\<close>

text \<open>
  The audit row written to the database when both Supabase variables are set. The insert
  sits in a \<open>try\<close> of its own whose \<open>catch\<close> only logs, so it never fails the handler.
\<close>

definition truthy_str :: "string option \<Rightarrow> bool" where
  "truthy_str v = (case v of None \<Rightarrow> False | Some s \<Rightarrow> s \<noteq> [])"

definition audit_insert :: "env \<Rightarrow> string \<Rightarrow> string \<Rightarrow> unit prog" where
  "audit_insert e op resource = (\<lambda>w.
     (Inr (),
      if truthy_str (SUPABASE_URL e) \<and> truthy_str (SUPABASE_ANON_KEY e)
      then w\<lparr>db_audit := db_audit w @ [(op, resource)]\<rparr> else w))"

record kv_args =
  kv_name :: string
  kv_title :: string
  kv_workerName :: "string option"

definition createKVNamespace_body :: "env \<Rightarrow> props \<Rightarrow> remote \<Rightarrow> kv_args \<Rightarrow> tool_response prog" where
  "createKVNamespace_body e p rem args =
     (case credentials e of
        None \<Rightarrow>
          bindM (logDeploymentOperation ''create_kv_namespace'' (kv_name args) (login p) False)
            (\<lambda>_. ret credentials_error_details)
      | Some cf \<Rightarrow>
          bindM (fetch rem (kv_request cf (kv_title args))) (\<lambda>response.
          bindM (response_json response) (\<lambda>data.
            if \<not> success data then
              bindM (logDeploymentOperation ''create_kv_namespace'' (kv_name args) (login p) False)
                (\<lambda>_. ret (TextContent
                   [Lit (''**Error**\<newline>\<newline>Failed to create KV namespace: ''
                         @ to_string (js_or (first_error_message (errors data))
                                        (JStr ''Unknown error creating KV namespace''))
                         @ ''\<newline>\<newline>**Details:**\<newline>```json\<newline>''),
                    Json (JArr (errors data)),
                    Lit ''\<newline>```'']))
            else
              bindM (get_prop (result data) ''id'') (\<lambda>namespaceId.
              bindM (logDeploymentOperation ''create_kv_namespace'' (kv_name args) (login p) True) (\<lambda>_.
              bindM (audit_insert e ''CREATE_KV_NAMESPACE'' (kv_name args)) (\<lambda>_.
                ret (TextContent
                  [Lit (''**Success**\<newline>\<newline>KV namespace '' @ quoted (kv_name args)
                        @ '' created successfully\<newline>\<newline>**Result:**\<newline>```json\<newline>''),
                   Json (JObj
                     [(''id'', namespaceId),
                      (''name'', JStr (kv_name args)),
                      (''title'', opt_prop (result data) ''title''),
                      (''created'', JBool True),
                      (''bindingConfig'', JObj
                         [(''binding'', JStr (kv_name args)),
                          (''id'', namespaceId),
                          (''comment'', JStr ''Add this to your wrangler.jsonc kv_namespaces array'')]),
                      (''wranglerConfig'', JObj
                         [(''kv_namespaces'', JArr
                            [JObj [(''binding'', JStr (kv_name args)), (''id'', namespaceId)]])]),
                      (''instructions'', JStr
                         (if truthy_str (kv_workerName args) then
                            ''KV namespace created successfully. To bind it to worker ''
                              @ quoted (case kv_workerName args of None \<Rightarrow> [] | Some n \<Rightarrow> n)
                              @ '', add the binding config to wrangler.jsonc''
                          else
                            ''KV namespace created successfully. Add the binding config to your wrangler.jsonc file.''))]),
                   Lit ''\<newline>```''])))))))"

definition createKVNamespace_handler :: "env \<Rightarrow> props \<Rightarrow> remote \<Rightarrow> kv_args \<Rightarrow> tool_response prog" where
  "createKVNamespace_handler e p rem args =
     try_catch (createKVNamespace_body e p rem args)
       (\<lambda>err.
          bindM (logDeploymentOperation ''create_kv_namespace'' (kv_name args) (login p) False)
            (\<lambda>_. ret (unexpected_error ''Unexpected error creating KV namespace'' err)))"

text \<open>
  \<open>toUpperCase\<close> and \<open>toLowerCase\<close> on a class name, which the schema keeps to ASCII letters
  and digits.
\<close>

definition upper :: "char \<Rightarrow> char" where
  "upper c = (let n = of_char c :: nat in if 97 \<le> n \<and> n \<le> 122 then char_of (n - 32) else c)"

record migration_args =
  mig_tag :: string
  mig_new_classes :: "string list option"

record do_args =
  do_workerName :: string
  do_className :: string
  do_scriptName :: "string option"
  do_environment :: "string option"
  do_migrations :: "migration_args option"

definition manageDurableObjects_body ::
  "env \<Rightarrow> props \<Rightarrow> clock \<Rightarrow> do_args \<Rightarrow> tool_response prog" where
  "manageDurableObjects_body e p clk args =
     (case credentials e of
        None \<Rightarrow>
          bindM (logDeploymentOperation ''manage_durable_objects'' (do_workerName args) (login p) False)
            (\<lambda>_. ret credentials_error_details)
      | Some cf \<Rightarrow>
          let bindingName = map upper (do_className args) @ ''_OBJECT'';
              scriptNameToUse = (if truthy_str (do_scriptName args)
                                 then (case do_scriptName args of None \<Rightarrow> [] | Some n \<Rightarrow> n)
                                 else do_workerName args);
              environmentToUse = (if truthy_str (do_environment args)
                                  then (case do_environment args of None \<Rightarrow> [] | Some n \<Rightarrow> n)
                                  else ''production'');
              namespaceId = ''do_'' @ map lower (do_className args) @ ''_'' @ show_int (now_ms clk);
              migration = (case do_migrations args of
                             None \<Rightarrow> JNull
                           | Some m \<Rightarrow> JObj
                               [(''tag'', JStr (mig_tag m)),
                                (''status'', JStr ''configuration_needed''),
                                (''note'', JStr ''Add migration config to wrangler.toml and deploy with wrangler deploy'')])
          in
          bindM (logDeploymentOperation ''manage_durable_objects'' (do_workerName args) (login p) True) (\<lambda>_.
          bindM (audit_insert e ''MANAGE_DURABLE_OBJECTS'' (do_className args)) (\<lambda>_.
            ret (TextContent
              [Lit (''**Success**\<newline>\<newline>Durable Object '' @ quoted (do_className args)
                    @ '' configured for worker '' @ quoted (do_workerName args)
                    @ ''\<newline>\<newline>**Result:**\<newline>```json\<newline>''),
               Json (JObj
                 [(''configured'', JBool True),
                  (''className'', JStr (do_className args)),
                  (''bindingName'', JStr bindingName),
                  (''namespace_id'', JStr namespaceId),
                  (''script_name'', JStr scriptNameToUse),
                  (''environment'', JStr environmentToUse),
                  (''migration'', migration),
                  (''wranglerConfig'', JObj
                     [(''durable_objects'', JObj
                        [(''bindings'', JArr
                           [JObj ([(''name'', JStr bindingName),
                                   (''class_name'', JStr (do_className args))]
                                  @ (if truthy_str (do_scriptName args)
                                     then [(''script_name'', JStr scriptNameToUse)] else []))])])]),
                  (''instructions'', JStr (join ''\<newline>''
                     ([''1. Add the Durable Object class '' @ quoted (do_className args) @ '' to your worker code'',
                       ''2. Export the class from your worker: export { '' @ do_className args @ '' }'',
                       ''3. Add the binding configuration to your wrangler.jsonc file'',
                       ''4. Deploy with: wrangler publish''
                         @ (case do_migrations args of
                              None \<Rightarrow> []
                            | Some m \<Rightarrow> (case mig_new_classes m of
                                           None \<Rightarrow> []
                                         | Some cs \<Rightarrow> '' --new-class '' @ do_className args))]
                      @ (case do_migrations args of
                           None \<Rightarrow> []
                         | Some m \<Rightarrow> [''5. Migration '' @ quoted (mig_tag m) @ '' has been applied'']))))]),
               Lit ''\<newline>```'']))))"

definition manageDurableObjects_handler ::
  "env \<Rightarrow> props \<Rightarrow> clock \<Rightarrow> do_args \<Rightarrow> tool_response prog" where
  "manageDurableObjects_handler e p clk args =
     try_catch (manageDurableObjects_body e p clk args)
       (\<lambda>err.
          bindM (logDeploymentOperation ''manage_durable_objects'' (do_workerName args) (login p) False)
            (\<lambda>_. ret (unexpected_error ''Unexpected error configuring Durable Objects'' err)))"

section \<open>The deployment orchestrator (deployMCPServer)\<close>

record mcp_args =
  mcp_name :: string
  mcp_code :: string
  githubClientId :: string
  githubClientSecret :: string
  databaseUrl :: "string option"
  supabaseUrl :: "string option"
  supabaseAnonKey :: "string option"

text \<open>One entry of \<open>deploymentSteps\<close>, and the four of them.\<close>

record step =
  step_status :: string
  step_result :: jsval

record deployment_steps =
  kvNamespace :: step
  durableObjects :: step
  workerDeployment :: step
  secretsStep :: step

definition pending_step :: step where
  "pending_step = \<lparr>step_status = ''pending'', step_result = JNull\<rparr>"

definition step_json :: "step \<Rightarrow> jsval" where
  "step_json s = JObj [(''status'', JStr (step_status s)), (''result'', step_result s)]"

definition steps_json :: "deployment_steps \<Rightarrow> jsval" where
  "steps_json ds = JObj
     [(''kvNamespace'', step_json (kvNamespace ds)),
      (''durableObjects'', step_json (durableObjects ds)),
      (''workerDeployment'', step_json (workerDeployment ds)),
      (''secrets'', step_json (secretsStep ds))]"

text \<open>
  Step 1, from the outcome of the namespace call. Its \<open>try\<close> block throws when the call
  throws and when the envelope says \<open>success: false\<close>; it also throws after having stored
  status and result, at \<open>kvData.result.id\<close>, when the result is \<open>null\<close> or \<open>undefined\<close>. The
  \<open>catch\<close> sets the status to \<open>failed\<close> and the orchestrator goes on.
\<close>

definition kv_step :: "thrown + api_response \<Rightarrow> step" where
  "kv_step outcome =
     (case outcome of
        Inl kvError \<Rightarrow> \<lparr>step_status = ''failed'', step_result = JNull\<rparr>
      | Inr kvData \<Rightarrow>
          if \<not> success kvData then \<lparr>step_status = ''failed'', step_result = JNull\<rparr>
          else if nullish (result kvData) then \<lparr>step_status = ''failed'', step_result = result kvData\<rparr>
          else \<lparr>step_status = ''success'', step_result = result kvData\<rparr>)"

text \<open>
  Step 2, from the outcome of the deploy call: the exception its \<open>catch\<close> receives, or the
  deployed worker.
\<close>

definition deploy_step :: "thrown + api_response \<Rightarrow> thrown + jsval" where
  "deploy_step outcome =
     (case outcome of
        Inl deployError \<Rightarrow> Inl deployError
      | Inr deployResult \<Rightarrow>
          if \<not> success deployResult then
            Inl (ErrorObj (to_string (js_or (first_error_message (errors deployResult))
                                        (JStr ''Worker deployment failed''))))
          else Inr (result deployResult))"

definition durable_objects_step :: step where
  "durable_objects_step = \<lparr>step_status = ''success'',
     step_result = JObj
       [(''name'', JStr ''MCP_OBJECT''),
        (''className'', JStr ''MyMCP''),
        (''note'', JStr ''Configure in wrangler.toml for full functionality'')]\<rparr>"

text \<open>\<open>secretsToSet\<close>: the two OAuth values, then each optional value that is given.\<close>

definition optional_secret :: "string \<Rightarrow> string option \<Rightarrow> secret list" where
  "optional_secret n v =
     (case v of None \<Rightarrow> [] | Some s \<Rightarrow> if s \<noteq> [] then [\<lparr>secret_name = n, secret_value = s\<rparr>] else [])"

definition secretsToSet :: "mcp_args \<Rightarrow> secret list" where
  "secretsToSet args =
     [\<lparr>secret_name = ''GITHUB_CLIENT_ID'', secret_value = githubClientId args\<rparr>,
      \<lparr>secret_name = ''GITHUB_CLIENT_SECRET'', secret_value = githubClientSecret args\<rparr>]
     @ optional_secret ''DATABASE_URL'' (databaseUrl args)
     @ optional_secret ''SUPABASE_URL'' (supabaseUrl args)
     @ optional_secret ''SUPABASE_ANON_KEY'' (supabaseAnonKey args)"

record secret_result =
  sr_name :: string
  sr_status :: string
  sr_error :: jsval

definition secret_outcome :: "secret \<Rightarrow> thrown + api_response \<Rightarrow> secret_result" where
  "secret_outcome s outcome =
     (case outcome of
        Inl secretError \<Rightarrow>
          \<lparr>sr_name = secret_name s, sr_status = ''failed'',
           sr_error = JStr (message_or secretError ''Unknown error'')\<rparr>
      | Inr secretResult \<Rightarrow>
          if success secretResult then
            \<lparr>sr_name = secret_name s, sr_status = ''success'', sr_error = JUndefined\<rparr>
          else
            \<lparr>sr_name = secret_name s, sr_status = ''failed'',
             sr_error = first_error_message (errors secretResult)\<rparr>)"

text \<open>Step 4: the secrets one after the other, each in a \<open>try\<close> of its own.\<close>

fun set_secrets :: "cloudflare_api \<Rightarrow> remote \<Rightarrow> string \<Rightarrow> secret list \<Rightarrow> secret_result list prog" where
  "set_secrets cf rem wname [] = ret []"
| "set_secrets cf rem wname (s # ss) =
     bindM (attempt (setWorkerSecret cf rem wname (secret_name s) (secret_value s))) (\<lambda>outcome.
     bindM (set_secrets cf rem wname ss) (\<lambda>others.
       ret (secret_outcome s outcome # others)))"

definition secrets_status :: "secret_result list \<Rightarrow> string" where
  "secrets_status secretResults =
     (if list_all (\<lambda>r. sr_status r = ''success'') secretResults then ''success''
      else if list_ex (\<lambda>r. sr_status r = ''success'') secretResults then ''partial''
      else ''failed'')"

definition secret_result_json :: "secret_result \<Rightarrow> jsval" where
  "secret_result_json r =
     JObj [(''name'', JStr (sr_name r)), (''status'', JStr (sr_status r)), (''error'', sr_error r)]"

definition wranglerConfig :: "cloudflare_api \<Rightarrow> string \<Rightarrow> step \<Rightarrow> jsval" where
  "wranglerConfig cf wname kv = JObj
     [(''name'', JStr wname),
      (''main'', JStr ''src/index.ts''),
      (''compatibility_date'', JStr ''2023-10-30''),
      (''node_compat'', JBool True),
      (''kv_namespaces'',
         if truthy (step_result kv)
         then JArr [JObj [(''binding'', JStr ''OAUTH_KV''), (''id'', opt_prop (step_result kv) ''id'')]]
         else JArr []),
      (''durable_objects'', JObj
         [(''bindings'', JArr [JObj [(''name'', JStr ''MCP_OBJECT''), (''class_name'', JStr ''MyMCP'')]])]),
      (''migrations'', JArr [JObj [(''tag'', JStr ''v1''), (''new_classes'', JArr [JStr ''MyMCP''])]]),
      (''vars'', JObj [(''CLOUDFLARE_ACCOUNT_ID'', JStr (accountId cf))])]"

definition endpoint :: "props \<Rightarrow> string \<Rightarrow> string" where
  "endpoint p wname = ''https://'' @ wname @ ''.'' @ login p @ ''.workers.dev''"

definition deploymentResult ::
  "cloudflare_api \<Rightarrow> props \<Rightarrow> clock \<Rightarrow> string \<Rightarrow> deployment_steps \<Rightarrow> secret_result list \<Rightarrow> jsval" where
  "deploymentResult cf p clk wname ds secretResults = JObj
     [(''name'', JStr wname),
      (''status'', JStr ''deployed''),
      (''endpoints'', JObj
         [(''worker'', JStr (endpoint p wname)),
          (''oauth'', JStr (endpoint p wname @ ''/oauth/authorize'')),
          (''mcp'', JStr (endpoint p wname @ ''/mcp''))]),
      (''kvNamespace'', step_result (kvNamespace ds)),
      (''secrets'', JObj
         [(''configured'',
             JArr (map (\<lambda>r. JStr (sr_name r)) (filter (\<lambda>r. sr_status r = ''success'') secretResults))),
          (''failed'',
             JArr (map secret_result_json (filter (\<lambda>r. sr_status r = ''failed'') secretResults)))]),
      (''wranglerConfig'', wranglerConfig cf wname (kvNamespace ds)),
      (''deploymentSteps'', steps_json ds),
      (''deployedBy'', JStr (deployed_by p)),
      (''deployedAt'', JStr (now_iso clk))]"

text \<open>The response of the \<open>catch\<close> of step 2, with the steps as they stand at that point.\<close>

definition deploy_failed_response :: "thrown \<Rightarrow> deployment_steps \<Rightarrow> tool_response" where
  "deploy_failed_response deployError ds = TextContent
     [Lit ''**Error**\<newline>\<newline>Worker deployment failed\<newline>\<newline>**Details:**\<newline>```json\<newline>'',
      Json (JObj
        [(''error'', JStr (message_or deployError ''Unknown error'')),
         (''completedSteps'', steps_json ds)]),
      Lit ''\<newline>```'']"

definition deployed_response ::
  "cloudflare_api \<Rightarrow> props \<Rightarrow> clock \<Rightarrow> string \<Rightarrow> deployment_steps \<Rightarrow> secret_result list
     \<Rightarrow> tool_response" where
  "deployed_response cf p clk wname ds secretResults = TextContent
     [Lit (''**Success**\<newline>\<newline>MCP Server '' @ quoted wname
           @ '' deployed successfully!\<newline>\<newline>**Endpoints:**\<newline>- Worker: '' @ endpoint p wname
           @ ''\<newline>- OAuth: '' @ endpoint p wname @ ''/oauth/authorize''
           @ ''\<newline>- MCP: '' @ endpoint p wname @ ''/mcp''
           @ ''\<newline>\<newline>**Configuration:**\<newline>```json\<newline>''),
      Json (deploymentResult cf p clk wname ds secretResults),
      Lit ''\<newline>```\<newline>\<newline>**Wrangler Config:**\<newline>```jsonc\<newline>'',
      Json (wranglerConfig cf wname (kvNamespace ds)),
      Lit ''\<newline>```'']"

definition deployMCPServer_body ::
  "env \<Rightarrow> props \<Rightarrow> remote \<Rightarrow> clock \<Rightarrow> mcp_args \<Rightarrow> tool_response prog" where
  "deployMCPServer_body e p rem clk args =
     (case credentials e of
        None \<Rightarrow>
          bindM (logDeploymentOperation ''deploy_mcp_server'' (mcp_name args) (login p) False)
            (\<lambda>_. ret credentials_error_details)
      | Some cfApi \<Rightarrow>
          bindM (attempt (createKVNamespace cfApi rem (mcp_name args @ ''-oauth-kv''))) (\<lambda>kvOutcome.
          bindM (attempt (deployWorker cfApi rem (mcp_name args) (mcp_code args) None)) (\<lambda>deployOutcome.
            case deploy_step deployOutcome of
              Inl deployError \<Rightarrow>
                bindM (logDeploymentOperation ''deploy_mcp_server'' (mcp_name args) (login p) False)
                  (\<lambda>_. ret (deploy_failed_response deployError
                     \<lparr>kvNamespace = kv_step kvOutcome, durableObjects = pending_step,
                      workerDeployment = pending_step, secretsStep = pending_step\<rparr>))
            | Inr deployed \<Rightarrow>
                bindM (set_secrets cfApi rem (mcp_name args) (secretsToSet args)) (\<lambda>secretResults.
                  let ds = \<lparr>kvNamespace = kv_step kvOutcome,
                            durableObjects = durable_objects_step,
                            workerDeployment = \<lparr>step_status = ''success'', step_result = deployed\<rparr>,
                            secretsStep = \<lparr>step_status = secrets_status secretResults,
                                           step_result = JArr (map secret_result_json secretResults)\<rparr>\<rparr>
                  in
                  bindM (logDeploymentOperation ''deploy_mcp_server'' (mcp_name args) (login p) True)
                    (\<lambda>_. ret (deployed_response cfApi p clk (mcp_name args) ds secretResults))))))"

definition deployMCPServer_handler ::
  "env \<Rightarrow> props \<Rightarrow> remote \<Rightarrow> clock \<Rightarrow> mcp_args \<Rightarrow> tool_response prog" where
  "deployMCPServer_handler e p rem clk args =
     try_catch (deployMCPServer_body e p rem clk args)
       (\<lambda>err.
          bindM (logDeploymentOperation ''deploy_mcp_server'' (mcp_name args) (login p) False)
            (\<lambda>_. ret (unexpected_error ''Unexpected error deploying MCP server'' err)))"

section \<open>The database tools and whoami\<close>

text \<open>
  The SQL validator and the read/write classifier (module \<open>database/security\<close>) and the
  database client are outside the sources: they are parameters. Each may throw. A remote
  procedure call names the function and its arguments and resolves to \<open>{data, error}\<close>;
  \<open>None\<close> is the \<open>null\<close> error.
\<close>

record sql_security =
  validateSqlQuery :: "string \<Rightarrow> thrown + validation"
  isWriteOperation :: "string \<Rightarrow> thrown + bool"

record rpc_result =
  rpc_data :: jsval
  rpc_error :: "thrown option"

type_synonym database = "string \<Rightarrow> string \<Rightarrow> string \<Rightarrow> jsval \<Rightarrow> thrown + rpc_result"

definition lift :: "thrown + 'a \<Rightarrow> 'a prog" where
  "lift v = (\<lambda>w. (v, w))"

text \<open>\<open>createClient(url, key)\<close> and \<open>await supabase.rpc(fn, params)\<close>.\<close>

definition rpc :: "database \<Rightarrow> string \<Rightarrow> string \<Rightarrow> string \<Rightarrow> jsval \<Rightarrow> rpc_result prog" where
  "rpc db dbUrl dbKey fn params = (\<lambda>w.
     (db dbUrl dbKey fn params, w\<lparr>queries := queries w @ [(fn, params)]\<rparr>))"

text \<open>The response of the environment check, and \<open>if (error) throw error\<close>.\<close>

definition supabase_missing :: "env \<Rightarrow> tool_response" where
  "supabase_missing e = TextContent
     [Lit (''**Error**\<newline>\<newline>Supabase configuration missing. Please set the following environment variables: ''
           @ join '', '' ((if truthy_str (SUPABASE_URL e) then [] else [''SUPABASE_URL''])
                          @ (if truthy_str (SUPABASE_ANON_KEY e) then [] else [''SUPABASE_ANON_KEY''])))]"

definition checked :: "rpc_result \<Rightarrow> jsval prog" where
  "checked res = (case rpc_error res of Some err \<Rightarrow> throw err | None \<Rightarrow> ret (rpc_data res))"

definition str_of :: "string option \<Rightarrow> string" where
  "str_of v = (case v of None \<Rightarrow> [] | Some s \<Rightarrow> s)"

text \<open>
  The common \<open>catch\<close> of the three database handlers:
  \<open>error instanceof Error ? error.message : JSON.stringify(error)\<close>.
\<close>

fun database_error :: "string \<Rightarrow> thrown \<Rightarrow> tool_response" where
  "database_error headline (ErrorObj m) =
     TextContent [Lit (''**Error**\<newline>\<newline>'' @ headline @ '': '' @ m)]"
| "database_error headline (NonError v) =
     TextContent [Lit (''**Error**\<newline>\<newline>'' @ headline @ '': ''), JsonLine v]"

text \<open>
  Grouping the columns by table, in a \<open>Map\<close> keyed by \<open>col.table_name\<close>: primitive keys are
  equal when they are the same value, an object or array key is equal to itself only, and
  every column brings its own.
\<close>

fun same_key :: "jsval \<Rightarrow> jsval \<Rightarrow> bool" where
  "same_key (JArr xs) k = False"
| "same_key (JObj kvs) k = False"
| "same_key k' k = (k' = k)"

fun add_column :: "jsval \<Rightarrow> jsval \<Rightarrow> (jsval \<times> jsval list) list \<Rightarrow> (jsval \<times> jsval list) list" where
  "add_column k c [] = [(k, [c])]"
| "add_column k c ((k', cs) # rest) =
     (if same_key k' k then (k', cs @ [c]) # rest else (k', cs) # add_column k c rest)"

definition column_doc :: "jsval \<Rightarrow> jsval" where
  "column_doc col = JObj
     [(''name'', opt_prop col ''column_name''),
      (''type'', opt_prop col ''data_type''),
      (''nullable'', JBool (opt_prop col ''is_nullable'' = JStr ''YES'')),
      (''default'', opt_prop col ''column_default'')]"

fun group_columns :: "jsval list \<Rightarrow> (jsval \<times> jsval list) list \<Rightarrow> (jsval \<times> jsval list) list prog" where
  "group_columns [] tableMap = ret tableMap"
| "group_columns (col # cols) tableMap =
     bindM (get_prop col ''table_name'') (\<lambda>k.
       group_columns cols (add_column k (column_doc col) tableMap))"

definition table_doc :: "jsval \<times> jsval list \<Rightarrow> jsval" where
  "table_doc t = JObj [(''name'', fst t), (''schema'', JStr ''public''), (''columns'', JArr (snd t))]"

fun as_array :: "jsval \<Rightarrow> jsval list option" where
  "as_array (JArr xs) = Some xs"
| "as_array v = None"

definition listTables_body :: "env \<Rightarrow> database \<Rightarrow> tool_response prog" where
  "listTables_body e db =
     (if \<not> (truthy_str (SUPABASE_URL e) \<and> truthy_str (SUPABASE_ANON_KEY e)) then
        ret (supabase_missing e)
      else
        bindM (rpc db (str_of (SUPABASE_URL e)) (str_of (SUPABASE_ANON_KEY e))
                 ''get_table_columns'' JUndefined) (\<lambda>res.
        bindM (checked res) (\<lambda>columns.
          case as_array columns of
            None \<Rightarrow>
              ret (TextContent
                [Lit ''**Error**\<newline>\<newline>No table information available or unexpected response format.''])
          | Some cols \<Rightarrow>
              bindM (group_columns cols []) (\<lambda>tableMap.
                ret (TextContent
                  [Lit ''**Database Tables and Schema**\<newline>\<newline>'',
                   Json (JArr (map table_doc tableMap)),
                   Lit (''\<newline>\<newline>**Total tables found:** '' @ show_nat (length tableMap)
                        @ ''\<newline>\<newline>**Note:** Use the `queryDatabase` tool to run SELECT queries, or `executeDatabase` tool for write operations (if you have write access).'')])))))"

definition listTables_handler :: "env \<Rightarrow> database \<Rightarrow> tool_response prog" where
  "listTables_handler e db =
     try_catch (listTables_body e db)
       (\<lambda>err. ret (database_error ''Error retrieving database schema'' err))"

text \<open>\<open>Array.isArray(results) ? results.length : 1\<close>.\<close>

definition rows_returned :: "jsval \<Rightarrow> string" where
  "rows_returned results = (case as_array results of None \<Rightarrow> ''1'' | Some rows \<Rightarrow> show_nat (length rows))"

definition validation_error :: "validation \<Rightarrow> string" where
  "validation_error v = (case error v of None \<Rightarrow> ''undefined'' | Some m \<Rightarrow> m)"

definition queryDatabase_body :: "env \<Rightarrow> database \<Rightarrow> sql_security \<Rightarrow> string \<Rightarrow> tool_response prog" where
  "queryDatabase_body e db sec sql =
     bindM (lift (validateSqlQuery sec sql)) (\<lambda>validation.
       if \<not> isValid validation then
         ret (TextContent [Lit (''**Error**\<newline>\<newline>Invalid SQL query: '' @ validation_error validation)])
       else
         bindM (lift (isWriteOperation sec sql)) (\<lambda>isWrite.
           if isWrite then
             ret (TextContent
               [Lit ''**Error**\<newline>\<newline>Write operations are not allowed with this tool. Use the `executeDatabase` tool if you have write permissions (requires special GitHub username access).''])
           else if \<not> (truthy_str (SUPABASE_URL e) \<and> truthy_str (SUPABASE_ANON_KEY e)) then
             ret (supabase_missing e)
           else
             bindM (rpc db (str_of (SUPABASE_URL e)) (str_of (SUPABASE_ANON_KEY e))
                      ''execute_sql'' (JObj [(''query'', JStr sql)])) (\<lambda>res.
             bindM (checked res) (\<lambda>results.
               ret (TextContent
                 [Lit (''**Query Results**\<newline>```sql\<newline>'' @ sql
                       @ ''\<newline>```\<newline>\<newline>**Results:**\<newline>```json\<newline>''),
                  Json results,
                  Lit (''\<newline>```\<newline>\<newline>**Rows returned:** '' @ rows_returned results)])))))"

definition queryDatabase_handler :: "env \<Rightarrow> database \<Rightarrow> sql_security \<Rightarrow> string \<Rightarrow> tool_response prog" where
  "queryDatabase_handler e db sec sql =
     try_catch (queryDatabase_body e db sec sql)
       (\<lambda>err. ret (database_error ''Database query error'' err))"

text \<open>The warning sign of the write message, as the bytes of its UTF-8 encoding.\<close>

definition warning_sign :: string where
  "warning_sign = [CHR 0xE2, CHR 0x9A, CHR 0xA0, CHR 0xEF, CHR 0xB8, CHR 0x8F]"

definition executeDatabase_body ::
  "env \<Rightarrow> props \<Rightarrow> database \<Rightarrow> sql_security \<Rightarrow> string \<Rightarrow> tool_response prog" where
  "executeDatabase_body e p db sec sql =
     bindM (lift (validateSqlQuery sec sql)) (\<lambda>validation.
       if \<not> isValid validation then
         ret (TextContent [Lit (''**Error**\<newline>\<newline>Invalid SQL statement: '' @ validation_error validation)])
       else if \<not> (truthy_str (SUPABASE_URL e) \<and> truthy_str (SUPABASE_ANON_KEY e)) then
         ret (supabase_missing e)
       else
         bindM (rpc db (str_of (SUPABASE_URL e)) (str_of (SUPABASE_ANON_KEY e))
                  ''execute_sql'' (JObj [(''query'', JStr sql)])) (\<lambda>res.
         bindM (checked res) (\<lambda>results.
         bindM (lift (isWriteOperation sec sql)) (\<lambda>isWrite.
           ret (TextContent
             [Lit (''**'' @ (if isWrite then ''Write Operation'' else ''Read Operation'')
                   @ '' Executed Successfully**\<newline>```sql\<newline>'' @ sql
                   @ ''\<newline>```\<newline>\<newline>**Results:**\<newline>```json\<newline>''),
              Json results,
              Lit (''\<newline>```\<newline>\<newline>''
                   @ (if isWrite then ''**'' @ warning_sign @ '' Database was modified**''
                      else ''**Rows returned:** '' @ rows_returned results)
                   @ ''\<newline>\<newline>**Executed by:** '' @ deployed_by p)])))))"

definition executeDatabase_handler ::
  "env \<Rightarrow> props \<Rightarrow> database \<Rightarrow> sql_security \<Rightarrow> string \<Rightarrow> tool_response prog" where
  "executeDatabase_handler e p db sec sql =
     try_catch (executeDatabase_body e p db sec sql)
       (\<lambda>err. ret (database_error ''Database execution error'' err))"

text \<open>\<open>whoami\<close> has no \<open>try\<close>: it only formats the caller's identity.\<close>

definition whoami_handler :: "props \<Rightarrow> tool_response prog" where
  "whoami_handler p =
     ret (TextContent
       [Lit (''**Current User Information**\<newline>\<newline>**Login:** '' @ login p
             @ ''\<newline>**Name:** '' @ full_name p
             @ ''\<newline>**Email:** '' @ email p
             @ ''\<newline>\<newline>**OAuth Access Token:** ''
             @ (if truthy_str (accessToken p) then ''Present'' else ''Missing'')
             @ ''\<newline>\<newline>**Debug Info:** This shows the user context passed through OAuth authentication.'')])"

section \<open>The registered tools (registerAllTools)\<close>

text \<open>
  One invocation of a registered tool: its name with its parameters. The runtime holds
  what the handlers close over and what they reach outside.
\<close>

datatype tool_call =
    Whoami
  | ListTables
  | QueryDatabase string
  | ExecuteDatabase string
  | DeployWorker deploy_args
  | ListWorkers
  | GetWorkerStatus string
  | DeleteWorker delete_args
  | CreateKVNamespace kv_args
  | ManageDurableObjects do_args
  | SetWorkerSecrets secrets_args
  | DeployMCPServer mcp_args

record runtime =
  rt_env :: env
  rt_props :: props
  rt_remote :: remote
  rt_clock :: clock
  rt_database :: database
  rt_security :: sql_security

text \<open>The handler of each tool.\<close>

fun invoke :: "runtime \<Rightarrow> tool_call \<Rightarrow> tool_response prog" where
  "invoke rt Whoami = whoami_handler (rt_props rt)"
| "invoke rt ListTables = listTables_handler (rt_env rt) (rt_database rt)"
| "invoke rt (QueryDatabase sql) =
     queryDatabase_handler (rt_env rt) (rt_database rt) (rt_security rt) sql"
| "invoke rt (ExecuteDatabase sql) =
     executeDatabase_handler (rt_env rt) (rt_props rt) (rt_database rt) (rt_security rt) sql"
| "invoke rt (DeployWorker args) = deployWorker_handler (rt_env rt) (rt_props rt) (rt_remote rt) args"
| "invoke rt ListWorkers = listWorkers_handler (rt_env rt) (rt_props rt) (rt_remote rt)"
| "invoke rt (GetWorkerStatus wname) =
     getWorkerStatus_handler (rt_env rt) (rt_props rt) (rt_remote rt) (rt_clock rt) wname"
| "invoke rt (DeleteWorker args) =
     deleteWorker_handler (rt_env rt) (rt_props rt) (rt_remote rt) (rt_clock rt) args"
| "invoke rt (CreateKVNamespace args) =
     createKVNamespace_handler (rt_env rt) (rt_props rt) (rt_remote rt) args"
| "invoke rt (ManageDurableObjects args) =
     manageDurableObjects_handler (rt_env rt) (rt_props rt) (rt_clock rt) args"
| "invoke rt (SetWorkerSecrets args) =
     setWorkerSecrets_handler (rt_env rt) (rt_props rt) (rt_remote rt) args"
| "invoke rt (DeployMCPServer args) =
     deployMCPServer_handler (rt_env rt) (rt_props rt) (rt_remote rt) (rt_clock rt) args"

text \<open>The \<open>try\<close> block of each handler (for \<open>whoami\<close>, its whole body).\<close>

fun try_block :: "runtime \<Rightarrow> tool_call \<Rightarrow> tool_response prog" where
  "try_block rt Whoami = whoami_handler (rt_props rt)"
| "try_block rt ListTables = listTables_body (rt_env rt) (rt_database rt)"
| "try_block rt (QueryDatabase sql) =
     queryDatabase_body (rt_env rt) (rt_database rt) (rt_security rt) sql"
| "try_block rt (ExecuteDatabase sql) =
     executeDatabase_body (rt_env rt) (rt_props rt) (rt_database rt) (rt_security rt) sql"
| "try_block rt (DeployWorker args) = deployWorker_body (rt_env rt) (rt_props rt) (rt_remote rt) args"
| "try_block rt ListWorkers = listWorkers_body (rt_env rt) (rt_props rt) (rt_remote rt)"
| "try_block rt (GetWorkerStatus wname) =
     getWorkerStatus_body (rt_env rt) (rt_props rt) (rt_remote rt) (rt_clock rt) wname"
| "try_block rt (DeleteWorker args) =
     deleteWorker_body (rt_env rt) (rt_props rt) (rt_remote rt) (rt_clock rt) args"
| "try_block rt (CreateKVNamespace args) =
     createKVNamespace_body (rt_env rt) (rt_props rt) (rt_remote rt) args"
| "try_block rt (ManageDurableObjects args) =
     manageDurableObjects_body (rt_env rt) (rt_props rt) (rt_clock rt) args"
| "try_block rt (SetWorkerSecrets args) =
     setWorkerSecrets_body (rt_env rt) (rt_props rt) (rt_remote rt) args"
| "try_block rt (DeployMCPServer args) =
     deployMCPServer_body (rt_env rt) (rt_props rt) (rt_remote rt) (rt_clock rt) args"

section \<open>Vocabulary of the properties\<close>

text \<open>
  What a client method that makes one call returns or throws, given the remote's answer:
  the rejection of \<open>fetch\<close>, or what \<open>response.json()\<close> gives.
\<close>

definition api_outcome :: "fetch_outcome \<Rightarrow> thrown + api_response" where
  "api_outcome out = (case out of Rejects e \<Rightarrow> Inl e | Responds r \<Rightarrow> json_body r)"

text \<open>The call fails for its caller: it throws, or the envelope says \<open>success: false\<close>.\<close>

definition call_failed :: "fetch_outcome \<Rightarrow> bool" where
  "call_failed out = (case api_outcome out of Inl e \<Rightarrow> True | Inr res \<Rightarrow> \<not> success res)"

text \<open>The request of \<open>setWorkerSecret\<close>.\<close>

definition secret_request :: "cloudflare_api \<Rightarrow> string \<Rightarrow> secret \<Rightarrow> request" where
  "secret_request cf wname s =
     make_request cf (''/'' @ wname @ ''/secrets'') ''PUT''
       (Some (secret_data (secret_name s) (secret_value s)))"

text \<open>The first document a response prints (\<open>undefined\<close> when it prints none).\<close>

fun first_doc :: "piece list \<Rightarrow> jsval" where
  "first_doc [] = JUndefined"
| "first_doc (Json v # rest) = v"
| "first_doc (Lit s # rest) = first_doc rest"
| "first_doc (JsonLine v # rest) = first_doc rest"

text \<open>The two requests the orchestrator starts with.\<close>

definition mcp_kv_request :: "cloudflare_api \<Rightarrow> mcp_args \<Rightarrow> request" where
  "mcp_kv_request cf args = kv_request cf (mcp_name args @ ''-oauth-kv'')"

definition mcp_deploy_request :: "cloudflare_api \<Rightarrow> mcp_args \<Rightarrow> request" where
  "mcp_deploy_request cf args = deploy_request cf (mcp_name args) (mcp_code args) None"


text \<open>The requests of \<open>listWorkers\<close>, \<open>deleteWorker\<close> and \<open>getWorkerLogs\<close>.\<close>

definition list_request :: "cloudflare_api \<Rightarrow> request" where
  "list_request cf = make_request cf [] ''GET'' None"

definition delete_request :: "cloudflare_api \<Rightarrow> string \<Rightarrow> request" where
  "delete_request cf wname = make_request cf (''/'' @ wname) ''DELETE'' None"

definition logs_request :: "cloudflare_api \<Rightarrow> string \<Rightarrow> request" where
  "logs_request cf wname = make_request cf (''/'' @ wname) ''GET'' None"

text \<open>The primary lookup of \<open>getWorker\<close> throws, or answers with status 404.\<close>

definition lookup_unconfirmed :: "fetch_outcome \<Rightarrow> bool" where
  "lookup_unconfirmed out = (case out of Rejects e \<Rightarrow> True | Responds r \<Rightarrow> status r = 404)"

text \<open>The calls \<open>getWorker\<close> makes in that case: the fallback call only after a 404.\<close>

definition lookup_calls :: "cloudflare_api \<Rightarrow> string \<Rightarrow> fetch_outcome \<Rightarrow> request list" where
  "lookup_calls cf wname out =
     (case out of Rejects e \<Rightarrow> [settings_request cf wname]
      | Responds r \<Rightarrow> [settings_request cf wname, domains_request cf])"

text \<open>
  The account identifier or the API token is absent: unset or empty, the two cases
  \<open>!accountId || !apiToken\<close> catches.
\<close>

definition credentials_absent :: "env \<Rightarrow> bool" where
  "credentials_absent e =
     (\<not> (truthy_str (CLOUDFLARE_ACCOUNT_ID e) \<and> truthy_str (CLOUDFLARE_API_TOKEN e)))"

text \<open>
  A run that answers with an \<open>**Error**\<close> response and has made no outbound call, and one
  that moreover names the missing credentials.
\<close>

definition refused_without_calls :: "tool_response prog \<Rightarrow> world \<Rightarrow> bool" where
  "refused_without_calls m w =
     (case m w of
        (Inl e, w') \<Rightarrow> False
      | (Inr r, w') \<Rightarrow> calls w' = calls w \<and> text_prefixed ''**Error**'' (text_of r))"

definition refused_unconfigured :: "tool_response prog \<Rightarrow> world \<Rightarrow> bool" where
  "refused_unconfigured m w =
     (case m w of
        (Inl e, w') \<Rightarrow> False
      | (Inr r, w') \<Rightarrow> calls w' = calls w \<and> text_prefixed ''**Error**'' (text_of r)
                        \<and> text_contains ''Cloudflare credentials not configured'' (text_of r))"

text \<open>The last audit line an invocation wrote records a failure.\<close>

definition failure_recorded :: "world \<Rightarrow> world \<Rightarrow> bool" where
  "failure_recorded w w' = (audit w' \<noteq> audit w \<and> \<not> succeeded (last (audit w')))"

text \<open>The run of a block ends in an exception.\<close>

definition raises :: "'a prog \<Rightarrow> world \<Rightarrow> bool" where
  "raises m w = (case m w of (Inl e, w') \<Rightarrow> True | (Inr x, w') \<Rightarrow> False)"

text \<open>
  What the guards of the database tools test: a database setting is unset or empty
  (\<open>!supabaseUrl || !supabaseKey\<close>), the validator finds the statement invalid, the
  classifier finds it a write operation.
\<close>

definition supabase_absent :: "env \<Rightarrow> bool" where
  "supabase_absent e = (\<not> (truthy_str (SUPABASE_URL e) \<and> truthy_str (SUPABASE_ANON_KEY e)))"

definition sql_invalid :: "sql_security \<Rightarrow> string \<Rightarrow> bool" where
  "sql_invalid sec sql = (case validateSqlQuery sec sql of Inl e \<Rightarrow> False | Inr v \<Rightarrow> \<not> isValid v)"

definition sql_writes :: "sql_security \<Rightarrow> string \<Rightarrow> bool" where
  "sql_writes sec sql = (case isWriteOperation sec sql of Inl e \<Rightarrow> False | Inr b \<Rightarrow> b)"

text \<open>A guard of the handler refuses the request, tool by tool.\<close>

fun guard_refuses :: "runtime \<Rightarrow> tool_call \<Rightarrow> bool" where
  "guard_refuses rt Whoami = False"
| "guard_refuses rt ListTables = supabase_absent (rt_env rt)"
| "guard_refuses rt (QueryDatabase sql) =
     (sql_invalid (rt_security rt) sql \<or> sql_writes (rt_security rt) sql \<or> supabase_absent (rt_env rt))"
| "guard_refuses rt (ExecuteDatabase sql) =
     (sql_invalid (rt_security rt) sql \<or> supabase_absent (rt_env rt))"
| "guard_refuses rt (DeployWorker args) =
     (\<not> isValid (validateWorkerCode (dw_code args)) \<or> credentials_absent (rt_env rt))"
| "guard_refuses rt ListWorkers = credentials_absent (rt_env rt)"
| "guard_refuses rt (GetWorkerStatus wname) = credentials_absent (rt_env rt)"
| "guard_refuses rt (DeleteWorker args) = (\<not> del_confirm args \<or> credentials_absent (rt_env rt))"
| "guard_refuses rt (CreateKVNamespace args) = credentials_absent (rt_env rt)"
| "guard_refuses rt (ManageDurableObjects args) = credentials_absent (rt_env rt)"
| "guard_refuses rt (SetWorkerSecrets args) = credentials_absent (rt_env rt)"
| "guard_refuses rt (DeployMCPServer args) = credentials_absent (rt_env rt)"

text \<open>
  The provider answers the operation of the tool with a failure: the call the tool is
  there for fails for its caller and, for the two tools that look the worker up first,
  \<open>getWorker\<close> returns an envelope with \<open>success: false\<close>. The deletion call is judged in the
  world the lookup leaves.
\<close>

definition lookup_failed :: "(thrown + api_response) \<times> world \<Rightarrow> bool" where
  "lookup_failed run = (case fst run of Inl e \<Rightarrow> True | Inr res \<Rightarrow> \<not> success res)"

fun provider_failed :: "cloudflare_api \<Rightarrow> runtime \<Rightarrow> tool_call \<Rightarrow> world \<Rightarrow> bool" where
  "provider_failed cf rt (DeployWorker args) w =
     call_failed (rt_remote rt (calls w) (deploy_request cf (dw_name args) (dw_code args) None))"
| "provider_failed cf rt ListWorkers w = call_failed (rt_remote rt (calls w) (list_request cf))"
| "provider_failed cf rt (GetWorkerStatus wname) w =
     lookup_failed (getWorker cf (rt_remote rt) (rt_clock rt) wname w)"
| "provider_failed cf rt (DeleteWorker args) w =
     (lookup_failed (getWorker cf (rt_remote rt) (rt_clock rt) (del_name args) w)
      \<or> call_failed (rt_remote rt (calls (snd (getWorker cf (rt_remote rt) (rt_clock rt) (del_name args) w)))
                       (delete_request cf (del_name args))))"
| "provider_failed cf rt (CreateKVNamespace args) w =
     call_failed (rt_remote rt (calls w) (kv_request cf (kv_title args)))"
| "provider_failed cf rt (SetWorkerSecrets args) w =
     (case sw_secrets args of
        [] \<Rightarrow> False
      | s # rest \<Rightarrow> call_failed (rt_remote rt (calls w) (secret_request cf (sw_workerName args) s)))"
| "provider_failed cf rt (DeployMCPServer args) w =
     call_failed (rt_remote rt (calls w @ [mcp_kv_request cf args]) (mcp_deploy_request cf args))"
| "provider_failed cf rt other w = False"

text \<open>
  The database answers the remote procedure of the tool with a failure: the call throws
  or resolves to an error, or the columns it gives are not an array.
\<close>

definition rpc_failed :: "thrown + rpc_result \<Rightarrow> bool" where
  "rpc_failed out = (case out of Inl e \<Rightarrow> True | Inr res \<Rightarrow> rpc_error res \<noteq> None)"

definition no_table_information :: "thrown + rpc_result \<Rightarrow> bool" where
  "no_table_information out = (case out of Inl e \<Rightarrow> False | Inr res \<Rightarrow> as_array (rpc_data res) = None)"

definition rpc_outcome :: "runtime \<Rightarrow> string \<Rightarrow> jsval \<Rightarrow> thrown + rpc_result" where
  "rpc_outcome rt fn params =
     rt_database rt (str_of (SUPABASE_URL (rt_env rt))) (str_of (SUPABASE_ANON_KEY (rt_env rt))) fn params"

fun database_failed :: "runtime \<Rightarrow> tool_call \<Rightarrow> bool" where
  "database_failed rt ListTables =
     (rpc_failed (rpc_outcome rt ''get_table_columns'' JUndefined)
      \<or> no_table_information (rpc_outcome rt ''get_table_columns'' JUndefined))"
| "database_failed rt (QueryDatabase sql) =
     rpc_failed (rpc_outcome rt ''execute_sql'' (JObj [(''query'', JStr sql)]))"
| "database_failed rt (ExecuteDatabase sql) =
     rpc_failed (rpc_outcome rt ''execute_sql'' (JObj [(''query'', JStr sql)]))"
| "database_failed rt other = False"

text \<open>
  An error outcome of an invocation: the \<open>try\<close> block of the handler throws, a guard
  refuses the request, or the provider or the database answers with a failure.
\<close>

definition error_outcome :: "runtime \<Rightarrow> tool_call \<Rightarrow> world \<Rightarrow> bool" where
  "error_outcome rt c w =
     (raises (try_block rt c) w
      \<or> guard_refuses rt c
      \<or> (case credentials (rt_env rt) of None \<Rightarrow> False | Some cf \<Rightarrow> provider_failed cf rt c w)
      \<or> database_failed rt c)"

text \<open>
  The language of a regular expression, the reference the matcher is proved against.
\<close>

inductive_set star :: "string set \<Rightarrow> string set" for L :: "string set" where
  star_nil: "[] \<in> star L"
| star_step: "u \<in> L \<Longrightarrow> v \<in> star L \<Longrightarrow> u @ v \<in> star L"

fun lang :: "rx \<Rightarrow> string set" where
  "lang Zero = {}"
| "lang Eps = {[]}"
| "lang (Cls P) = {[c] | c. P c}"
| "lang (Alt r s) = lang r \<union> lang s"
| "lang (Seq r s) = {u @ v | u v. u \<in> lang r \<and> v \<in> lang s}"
| "lang (Star r) = star (lang r)"

section \<open>Concrete inputs\<close>

text \<open>A configured environment, an operator, remotes that always answer alike, a fresh world.\<close>

definition sample_api :: cloudflare_api where
  "sample_api = \<lparr>accountId = ''acct'', apiToken = ''token''\<rparr>"

definition sample_env :: env where
  "sample_env = \<lparr>CLOUDFLARE_ACCOUNT_ID = Some ''acct'', CLOUDFLARE_API_TOKEN = Some ''token'',
     SUPABASE_URL = None, SUPABASE_ANON_KEY = None\<rparr>"

definition bare_env :: env where
  "bare_env = \<lparr>CLOUDFLARE_ACCOUNT_ID = None, CLOUDFLARE_API_TOKEN = Some ''token'',
     SUPABASE_URL = None, SUPABASE_ANON_KEY = None\<rparr>"

definition sample_props :: props where
  "sample_props = \<lparr>login = ''aboundTechOlogy'', full_name = ''Operator'', email = ''op@example.org'',
     accessToken = Some ''gho_token''\<rparr>"

definition fresh_world :: world where
  "fresh_world = \<lparr>calls = [], audit = [], db_audit = [], queries = []\<rparr>"

definition ok_envelope :: api_response where
  "ok_envelope = \<lparr>success = True, errors = [], messages = [], result = JObj [(''id'', JStr ''r1'')]\<rparr>"

definition failed_envelope :: api_response where
  "failed_envelope = \<lparr>success = False, errors = [JObj [(''code'', JNum 10000), (''message'', JStr ''denied'')]],
     messages = [], result = JNull\<rparr>"

definition remote_ok :: remote where
  "remote_ok = (\<lambda>history req. Responds \<lparr>status = 200, json_body = Inr ok_envelope\<rparr>)"

definition remote_refusing :: remote where
  "remote_refusing = (\<lambda>history req. Responds \<lparr>status = 403, json_body = Inr failed_envelope\<rparr>)"

definition remote_down :: remote where
  "remote_down = (\<lambda>history req. Rejects (ErrorObj ''fetch failed''))"

definition secret_A :: secret where
  "secret_A = \<lparr>secret_name = ''GITHUB_CLIENT_ID'', secret_value = ''id-1''\<rparr>"

definition secret_B :: secret where
  "secret_B = \<lparr>secret_name = ''GITHUB_CLIENT_SECRET'', secret_value = ''s3cr3t''\<rparr>"

definition two_secrets :: secrets_args where
  "two_secrets = \<lparr>sw_workerName = ''w'', sw_secrets = [secret_A, secret_B], sw_environment = None\<rparr>"

text \<open>A deployment whose code holds a template literal.\<close>

definition templated_code :: deploy_args where
  "templated_code = \<lparr>dw_name = ''w'', dw_code = ''const greeting = `hello ${name}`;'',
     dw_description = None\<rparr>"

text \<open>A clock, a deployment request, and a remote that refuses namespace creation only.\<close>

definition sample_clock :: clock where
  "sample_clock = \<lparr>now_iso = ''2025-01-01T00:00:00.000Z'', now_ms = 1735689600000,
     date_ms = (\<lambda>v. None)\<rparr>"

definition sample_mcp :: mcp_args where
  "sample_mcp = \<lparr>mcp_name = ''srv'', mcp_code = ''export default {}'',
     githubClientId = ''id-1'', githubClientSecret = ''s3cr3t'',
     databaseUrl = None, supabaseUrl = None, supabaseAnonKey = None\<rparr>"

definition remote_without_kv :: remote where
  "remote_without_kv = (\<lambda>history req.
     if http_method req = ''POST'' then Responds \<lparr>status = 403, json_body = Inr failed_envelope\<rparr>
     else Responds \<lparr>status = 200, json_body = Inr ok_envelope\<rparr>)"

text \<open>A remote that answers every lookup with status 404, and two deletion requests.\<close>

definition remote_404 :: remote where
  "remote_404 = (\<lambda>history req.
     if http_method req = ''GET''
     then Responds \<lparr>status = 404, json_body = Inr failed_envelope\<rparr>
     else Responds \<lparr>status = 200, json_body = Inr ok_envelope\<rparr>)"

definition confirmed_delete :: delete_args where
  "confirmed_delete = \<lparr>del_name = ''ghost'', del_confirm = True\<rparr>"

definition unconfirmed_delete :: delete_args where
  "unconfirmed_delete = \<lparr>del_name = ''ghost'', del_confirm = False\<rparr>"

text \<open>A runtime whose remote is unreachable and whose database rejects every call.\<close>

definition strict_security :: sql_security where
  "strict_security = \<lparr>validateSqlQuery = (\<lambda>sql. Inr \<lparr>isValid = True, error = None\<rparr>),
     isWriteOperation = (\<lambda>sql. Inr False)\<rparr>"

definition broken_runtime :: runtime where
  "broken_runtime = \<lparr>rt_env = sample_env, rt_props = sample_props, rt_remote = remote_down,
     rt_clock = sample_clock,
     rt_database = (\<lambda>u k fn params. Inl (ErrorObj ''connection refused'')),
     rt_security = strict_security\<rparr>"

section \<open>Properties of the secret batch tool\<close>

lemma makeRequest_run:
  "makeRequest cf rem ep m b w =
     (api_outcome (rem (calls w) (make_request cf ep m b)),
      w\<lparr>calls := calls w @ [make_request cf ep m b]\<rparr>)"
  by (simp add: makeRequest_def bindM_def fetch_def response_json_def api_outcome_def
      split: fetch_outcome.splits sum.splits)

lemma setWorkerSecret_run:
  "setWorkerSecret cf rem wn (secret_name s) (secret_value s) w =
     (api_outcome (rem (calls w) (secret_request cf wn s)),
      w\<lparr>calls := calls w @ [secret_request cf wn s]\<rparr>)"
  by (simp add: setWorkerSecret_def secret_request_def makeRequest_run)

lemma process_first_run:
  "\<exists>fr. process_first cf rem wn (s # rest) w =
          (Inr fr, w\<lparr>calls := calls w @ [secret_request cf wn s]\<rparr>)
        \<and> (fr = Fulfilled (secret_name s) \<and> \<not> call_failed (rem (calls w) (secret_request cf wn s))
           \<or> (\<exists>e. fr = Rejected e (secret_name s)) \<and> call_failed (rem (calls w) (secret_request cf wn s)))"
  by (simp add: bindM_def attempt_def ret_def setWorkerSecret_run call_failed_def split: sum.splits)

lemma pendings_of_rest:
  "concat (map (\<lambda>(r, s). pending_of r s)
      (zip (map (\<lambda>s. Pending (secret_name s) n) rest) rest)) = map secret_name rest"
  by (induction rest) (simp_all add: str_or_def)

lemma pendings_first:
  "fr = Fulfilled a \<or> (\<exists>e. fr = Rejected e a) \<Longrightarrow>
   pendings_of (fr # pending_results (s # rest)) (s # rest) = map secret_name rest"
  by (auto simp: pendings_of_def pending_results_def pendings_of_rest)

lemma first_doc_batch_response:
  "first_doc (text_of (batch_response args results)) =
     batch_result args (successfulSecrets_of results) (errors_of results (sw_secrets args))
       (pendings_of results (sw_secrets args))
       (batch_status (successfulSecrets_of results) (errors_of results (sw_secrets args)))"
  by (simp add: batch_response_def Let_def)

lemma batch_result_pending:
  "opt_prop (batch_result args ss es ps st) ''pendingSecrets'' =
     (if 0 < length ps then JArr (map JStr ps) else JUndefined)"
  by (simp add: batch_result_def)

lemma batch_result_instructions:
  "opt_prop (batch_result args ss es ps st) ''instructions'' =
     JStr (batch_instructions (sw_workerName args) (length (sw_secrets args)) ss es ps st)"
  by (simp add: batch_result_def)

lemma batch_result_status:
  "opt_prop (batch_result args ss es ps st) ''status'' =
     JStr (if 0 < length ps then ''PARTIAL'' else st)"
  by (simp add: batch_result_def)

lemma errors_of_rest:
  "concat (map (\<lambda>(r, s). error_of r s)
      (zip (map (\<lambda>s. Pending (secret_name s) n) rest) rest)) = []"
  by (induction rest) simp_all

lemma successful_of_rest:
  "concat (map successful_of (map (\<lambda>s. Pending (secret_name s) n) rest)) = []"
  by (induction rest) simp_all

lemma errors_first:
  "errors_of (fr # pending_results (s # rest)) (s # rest) = error_of fr s"
  by (simp add: errors_of_def pending_results_def errors_of_rest)

lemma successful_first:
  "successfulSecrets_of (fr # pending_results (s # rest)) = successful_of fr"
  by (simp add: successfulSecrets_of_def pending_results_def successful_of_rest)

lemma status_fulfilled:
  "batch_status (successfulSecrets_of (Fulfilled a # pending_results (s # rest)))
     (errors_of (Fulfilled a # pending_results (s # rest)) (s # rest)) = ''SUCCESS''"
  by (simp add: errors_first batch_status_def)

lemma status_rejected:
  "batch_status (successfulSecrets_of (Rejected e a # pending_results (s # rest)))
     (errors_of (Rejected e a # pending_results (s # rest)) (s # rest)) = ''FAILURE''"
  by (simp add: errors_first successful_first batch_status_def)

lemma handler_run:
  assumes "credentials e = Some cf" and "sw_secrets args = s # rest"
  shows "\<exists>fr. setWorkerSecrets_handler e p rem args w =
           (Inr (batch_response args (fr # pending_results (s # rest))),
            w\<lparr>calls := calls w @ [secret_request cf (sw_workerName args) s],
              audit := audit w @ [\<lparr>operation = ''set_worker_secrets'', workerName = sw_workerName args,
                 userName = login p,
                 succeeded = \<not> call_failed (rem (calls w) (secret_request cf (sw_workerName args) s))\<rparr>]\<rparr>)
        \<and> (fr = Fulfilled (secret_name s) \<and> \<not> call_failed (rem (calls w) (secret_request cf (sw_workerName args) s))
           \<or> (\<exists>e. fr = Rejected e (secret_name s)) \<and> call_failed (rem (calls w) (secret_request cf (sw_workerName args) s)))"
proof -
  obtain fr where fr: "process_first cf rem (sw_workerName args) (s # rest) w =
          (Inr fr, w\<lparr>calls := calls w @ [secret_request cf (sw_workerName args) s]\<rparr>)"
     and cases: "fr = Fulfilled (secret_name s) \<and> \<not> call_failed (rem (calls w) (secret_request cf (sw_workerName args) s))
           \<or> (\<exists>e. fr = Rejected e (secret_name s)) \<and> call_failed (rem (calls w) (secret_request cf (sw_workerName args) s))"
    using process_first_run by blast
  from cases have st: "(batch_status (successfulSecrets_of (fr # pending_results (s # rest)))
     (errors_of (fr # pending_results (s # rest)) (s # rest)) = ''SUCCESS'')
       = (\<not> call_failed (rem (calls w) (secret_request cf (sw_workerName args) s)))"
    by (auto simp: status_fulfilled status_rejected)
  have "setWorkerSecrets_handler e p rem args w =
           (Inr (batch_response args (fr # pending_results (s # rest))),
            w\<lparr>calls := calls w @ [secret_request cf (sw_workerName args) s],
              audit := audit w @ [\<lparr>operation = ''set_worker_secrets'', workerName = sw_workerName args,
                 userName = login p,
                 succeeded = \<not> call_failed (rem (calls w) (secret_request cf (sw_workerName args) s))\<rparr>]\<rparr>)"
    unfolding setWorkerSecrets_handler_def setWorkerSecrets_body_def
    using assms fr st
    by (simp add: try_catch_def bindM_def logDeploymentOperation_def ret_def Let_def del: process_first.simps)
  with cases show ?thesis by blast
qed

lemma sample_credentials: "credentials sample_env = Some sample_api"
  by (simp add: credentials_def sample_env_def sample_api_def)

lemma text_prefixed_batch_response:
  assumes "fr = Fulfilled a \<or> (\<exists>e. fr = Rejected e a)" and "sw_secrets args = s # rest"
  shows "text_prefixed ''**Error**'' (text_of (batch_response args (fr # pending_results (s # rest))))
         = (\<exists>e. fr = Rejected e a)"
  using assms
  by (auto simp: batch_response_def Let_def status_fulfilled status_rejected)

text \<open>
  Claim C3. In a configured environment, an invocation of \<open>setWorkerSecrets\<close> with a non-empty
  list of \<open>N\<close> secrets returns a response, issues exactly one outbound call, the secret-set
  request of the first secret, and reports the names of the other \<open>N - 1\<close> secrets under
  \<open>pendingSecrets\<close> (the field is absent when none remain); when some remain, the
  instructions tell the caller to call the tool again for them.
\<close>

theorem C3_one_call_rest_pending:
  assumes "credentials e = Some cf" and "sw_secrets args = s # rest"
  shows "\<exists>r w'. setWorkerSecrets_handler e p rem args w = (Inr r, w')
     \<and> calls w' = calls w @ [secret_request cf (sw_workerName args) s]
     \<and> opt_prop (first_doc (text_of r)) ''pendingSecrets'' =
         (if rest = [] then JUndefined else JArr (map (\<lambda>x. JStr (secret_name x)) rest))
     \<and> (rest \<noteq> [] \<longrightarrow> opt_prop (first_doc (text_of r)) ''instructions'' =
           JStr (''Processed 1 of '' @ show_nat (Suc (length rest))
                 @ '' secrets. Call setWorkerSecrets again for remaining ''
                 @ show_nat (length rest) @ '' secrets.''))"
proof -
  obtain fr where run: "setWorkerSecrets_handler e p rem args w =
           (Inr (batch_response args (fr # pending_results (s # rest))),
            w\<lparr>calls := calls w @ [secret_request cf (sw_workerName args) s],
              audit := audit w @ [\<lparr>operation = ''set_worker_secrets'', workerName = sw_workerName args,
                 userName = login p,
                 succeeded = \<not> call_failed (rem (calls w) (secret_request cf (sw_workerName args) s))\<rparr>]\<rparr>)"
    and fr: "fr = Fulfilled (secret_name s) \<or> (\<exists>e. fr = Rejected e (secret_name s))"
    using handler_run [OF assms, of p rem w] by blast
  have pend: "pendings_of (fr # pending_results (s # rest)) (s # rest) = map secret_name rest"
    using fr by (simp add: pendings_first)
  have doc1: "opt_prop (first_doc (text_of (batch_response args (fr # pending_results (s # rest)))))
           ''pendingSecrets'' =
         (if rest = [] then JUndefined else JArr (map (\<lambda>x. JStr (secret_name x)) rest))"
    by (simp add: first_doc_batch_response batch_result_pending assms(2) pend comp_def)
  have doc2: "rest \<noteq> [] \<longrightarrow>
      opt_prop (first_doc (text_of (batch_response args (fr # pending_results (s # rest)))))
           ''instructions'' =
           JStr (''Processed 1 of '' @ show_nat (Suc (length rest))
                 @ '' secrets. Call setWorkerSecrets again for remaining ''
                 @ show_nat (length rest) @ '' secrets.'')"
    by (simp add: first_doc_batch_response batch_result_instructions pend batch_instructions_def assms(2))
  show ?thesis
    using run doc1 doc2 by simp
qed

text \<open>Witness of C3: two secrets, a remote that accepts every call.\<close>

theorem C3_witness:
  "\<exists>r w'. setWorkerSecrets_handler sample_env sample_props remote_ok two_secrets fresh_world = (Inr r, w')
     \<and> calls w' = [secret_request sample_api ''w'' secret_A]
     \<and> opt_prop (first_doc (text_of r)) ''pendingSecrets'' = JArr [JStr ''GITHUB_CLIENT_SECRET'']
     \<and> opt_prop (first_doc (text_of r)) ''instructions'' =
           JStr ''Processed 1 of 2 secrets. Call setWorkerSecrets again for remaining 1 secrets.''"
proof -
  have n2: "show_nat (Suc (length [secret_B])) = ''2''" by code_simp
  have n1: "show_nat (length [secret_B]) = ''1''" by code_simp
  show ?thesis
    using C3_one_call_rest_pending [of sample_env sample_api two_secrets secret_A "[secret_B]"
      sample_props remote_ok fresh_world] n1 n2
    by (simp add: sample_credentials two_secrets_def fresh_world_def secret_B_def)
qed

lemma handler_calls:
  assumes "credentials e = Some cf" and "sw_secrets args = s # rest"
  shows "calls (snd (setWorkerSecrets_handler e p rem args w)) =
           calls w @ [secret_request cf (sw_workerName args) s]"
  using handler_run [OF assms, of p rem w] by auto

text \<open>
  Claim C4 says that a second invocation with the same, unchanged list processes the second
  secret. The handler keeps nothing between invocations and always takes \<open>secrets[0]\<close>:
  called twice with the list of \<open>secret_A\<close> and \<open>secret_B\<close>, it issues the request of
  \<open>secret_A\<close> twice, and that request is not the one of \<open>secret_B\<close>.
\<close>

theorem C4_counterexample:
  "calls (snd (setWorkerSecrets_handler sample_env sample_props remote_ok two_secrets
            (snd (setWorkerSecrets_handler sample_env sample_props remote_ok two_secrets fresh_world))))
     = [secret_request sample_api ''w'' secret_A, secret_request sample_api ''w'' secret_A]
   \<and> secret_request sample_api ''w'' secret_A \<noteq> secret_request sample_api ''w'' secret_B"
proof -
  have s: "sw_secrets two_secrets = secret_A # [secret_B]" "sw_workerName two_secrets = ''w''"
    by (simp_all add: two_secrets_def)
  have "calls (snd (setWorkerSecrets_handler sample_env sample_props remote_ok two_secrets
            (snd (setWorkerSecrets_handler sample_env sample_props remote_ok two_secrets fresh_world))))
     = [secret_request sample_api ''w'' secret_A, secret_request sample_api ''w'' secret_A]"
    by (simp add: handler_calls [OF sample_credentials s(1)] s(2) fresh_world_def)
  moreover have "secret_request sample_api ''w'' secret_A \<noteq> secret_request sample_api ''w'' secret_B"
    by (simp add: secret_request_def make_request_def secret_data_def secret_A_def secret_B_def)
  ultimately show ?thesis by simp
qed

text \<open>
  Claim C4 as amended. In a configured environment and for a list of at least two secrets,
  a second invocation with the same list issues the secret-set call of the first secret
  again; the second secret is processed by an invocation whose list starts with it (the
  list of the secrets reported pending).
\<close>

theorem C4_same_list_repeats_first:
  assumes "credentials e = Some cf" and "sw_secrets args = s # s2 # rest"
  shows "calls (snd (setWorkerSecrets_handler e p rem args
                  (snd (setWorkerSecrets_handler e p rem args w))))
           = calls w @ [secret_request cf (sw_workerName args) s, secret_request cf (sw_workerName args) s]
       \<and> calls (snd (setWorkerSecrets_handler e p rem (args\<lparr>sw_secrets := s2 # rest\<rparr>)
                  (snd (setWorkerSecrets_handler e p rem args w))))
           = calls w @ [secret_request cf (sw_workerName args) s, secret_request cf (sw_workerName args) s2]"
proof -
  have tl: "sw_secrets (args\<lparr>sw_secrets := s2 # rest\<rparr>) = s2 # rest" by simp
  show ?thesis
    using handler_calls [OF assms(1) assms(2)] handler_calls [OF assms(1) tl]
    by simp
qed

text \<open>
  Witness of the amended C4: the list of \<open>secret_A\<close> and \<open>secret_B\<close>, then the list of \<open>secret_B\<close>.
\<close>

theorem C4_witness:
  "calls (snd (setWorkerSecrets_handler sample_env sample_props remote_ok two_secrets
                  (snd (setWorkerSecrets_handler sample_env sample_props remote_ok two_secrets fresh_world))))
           = [secret_request sample_api ''w'' secret_A, secret_request sample_api ''w'' secret_A]
       \<and> calls (snd (setWorkerSecrets_handler sample_env sample_props remote_ok
                        (two_secrets\<lparr>sw_secrets := [secret_B]\<rparr>)
                  (snd (setWorkerSecrets_handler sample_env sample_props remote_ok two_secrets fresh_world))))
           = [secret_request sample_api ''w'' secret_A, secret_request sample_api ''w'' secret_B]"
  using C4_same_list_repeats_first [of sample_env sample_api two_secrets secret_A secret_B "[]"
      sample_props remote_ok fresh_world]
  by (simp add: sample_credentials two_secrets_def fresh_world_def)

lemma failed_first_of_many:
  assumes "credentials e = Some cf" and "sw_secrets args = s # s2 # rest"
    and "call_failed (rem (calls w) (secret_request cf (sw_workerName args) s))"
  shows "\<exists>r w'. setWorkerSecrets_handler e p rem args w = (Inr r, w')
     \<and> opt_prop (first_doc (text_of r)) ''status'' = JStr ''PARTIAL''"
proof -
  obtain fr where run: "setWorkerSecrets_handler e p rem args w =
           (Inr (batch_response args (fr # pending_results (s # s2 # rest))),
            w\<lparr>calls := calls w @ [secret_request cf (sw_workerName args) s],
              audit := audit w @ [\<lparr>operation = ''set_worker_secrets'', workerName = sw_workerName args,
                 userName = login p,
                 succeeded = \<not> call_failed (rem (calls w) (secret_request cf (sw_workerName args) s))\<rparr>]\<rparr>)"
    and kinds: "fr = Fulfilled (secret_name s) \<or> (\<exists>e. fr = Rejected e (secret_name s))"
    using handler_run [OF assms(1,2), of p rem w] by blast
  have "pendings_of (fr # pending_results (s # s2 # rest)) (s # s2 # rest) = map secret_name (s2 # rest)"
    using kinds by (simp add: pendings_first)
  then have "opt_prop (first_doc (text_of (batch_response args (fr # pending_results (s # s2 # rest)))))
        ''status'' = JStr ''PARTIAL''"
    by (simp add: first_doc_batch_response batch_result_status assms(2))
  with run show ?thesis by simp
qed

text \<open>
  Claim C5 says that the reported status is \<open>FAILURE\<close> when the first secret of a list of
  more than one fails. With two secrets and a remote that refuses the call, the \<open>status\<close>
  field of the response document is \<open>PARTIAL\<close>.
\<close>

theorem C5_counterexample:
  "\<exists>r w'. setWorkerSecrets_handler sample_env sample_props remote_refusing two_secrets fresh_world = (Inr r, w')
     \<and> call_failed (remote_refusing [] (secret_request sample_api ''w'' secret_A))
     \<and> opt_prop (first_doc (text_of r)) ''status'' = JStr ''PARTIAL''
     \<and> opt_prop (first_doc (text_of r)) ''status'' \<noteq> JStr ''FAILURE''"
proof -
  have f: "call_failed (remote_refusing [] (secret_request sample_api ''w'' secret_A))"
    by (simp add: call_failed_def api_outcome_def remote_refusing_def failed_envelope_def)
  show ?thesis
    using failed_first_of_many [where e=sample_env and cf=sample_api and args=two_secrets
        and s=secret_A and ?s2.0=secret_B and rest="[]" and w=fresh_world and rem=remote_refusing
        and p=sample_props] f
    by (auto simp: sample_credentials two_secrets_def fresh_world_def)
qed

text \<open>
  Claim C5 as amended. In a configured environment, the \<open>status\<close> field of the response
  document is \<open>PARTIAL\<close> whenever other secrets remain pending, whether the processed secret
  succeeded or failed; with no secret remaining it is \<open>SUCCESS\<close> when the processed secret
  succeeded and \<open>FAILURE\<close> when it failed. The response text is prefixed \<open>**Error**\<close>
  exactly when the processed secret failed.
\<close>

theorem C5_status_reported:
  assumes "credentials e = Some cf" and "sw_secrets args = s # rest"
  shows "\<exists>r w'. setWorkerSecrets_handler e p rem args w = (Inr r, w')
     \<and> opt_prop (first_doc (text_of r)) ''status'' =
         JStr (if rest \<noteq> [] then ''PARTIAL''
               else if call_failed (rem (calls w) (secret_request cf (sw_workerName args) s))
               then ''FAILURE'' else ''SUCCESS'')
     \<and> text_prefixed ''**Error**'' (text_of r)
         = call_failed (rem (calls w) (secret_request cf (sw_workerName args) s))"
proof -
  let ?failed = "call_failed (rem (calls w) (secret_request cf (sw_workerName args) s))"
  obtain fr where run: "setWorkerSecrets_handler e p rem args w =
           (Inr (batch_response args (fr # pending_results (s # rest))),
            w\<lparr>calls := calls w @ [secret_request cf (sw_workerName args) s],
              audit := audit w @ [\<lparr>operation = ''set_worker_secrets'', workerName = sw_workerName args,
                 userName = login p, succeeded = \<not> ?failed\<rparr>]\<rparr>)"
    and fr: "fr = Fulfilled (secret_name s) \<and> \<not> ?failed
              \<or> (\<exists>e. fr = Rejected e (secret_name s)) \<and> ?failed"
    using handler_run [OF assms, of p rem w] by blast
  from fr have kinds: "fr = Fulfilled (secret_name s) \<or> (\<exists>e. fr = Rejected e (secret_name s))"
    by blast
  have pending: "pendings_of (fr # pending_results (s # rest)) (s # rest) = map secret_name rest"
    using kinds by (simp add: pendings_first)
  have inner: "batch_status (successfulSecrets_of (fr # pending_results (s # rest)))
     (errors_of (fr # pending_results (s # rest)) (s # rest)) = (if ?failed then ''FAILURE'' else ''SUCCESS'')"
    using fr by (auto simp: status_fulfilled status_rejected)
  have field: "opt_prop (first_doc (text_of (batch_response args (fr # pending_results (s # rest)))))
        ''status'' =
      JStr (if rest \<noteq> [] then ''PARTIAL'' else if ?failed then ''FAILURE'' else ''SUCCESS'')"
    by (simp add: first_doc_batch_response batch_result_status assms(2) pending inner)
  have header: "text_prefixed ''**Error**''
        (text_of (batch_response args (fr # pending_results (s # rest)))) = ?failed"
    using text_prefixed_batch_response [OF kinds assms(2)] fr by auto
  show ?thesis using run field header by simp
qed

text \<open>
  Witness of the amended C5: a single secret that the remote refuses.
\<close>

theorem C5_witness:
  "\<exists>r w'. setWorkerSecrets_handler sample_env sample_props remote_refusing
              (two_secrets\<lparr>sw_secrets := [secret_A]\<rparr>) fresh_world = (Inr r, w')
     \<and> opt_prop (first_doc (text_of r)) ''status'' = JStr ''FAILURE''
     \<and> text_prefixed ''**Error**'' (text_of r)"
proof -
  have f: "call_failed (remote_refusing [] (secret_request sample_api ''w'' secret_A))"
    by (simp add: call_failed_def api_outcome_def remote_refusing_def failed_envelope_def)
  show ?thesis
    using C5_status_reported [of sample_env sample_api "two_secrets\<lparr>sw_secrets := [secret_A]\<rparr>" secret_A "[]"
      sample_props remote_refusing fresh_world] f
    by (simp add: sample_credentials two_secrets_def fresh_world_def)
qed

section \<open>Properties of the code validator\<close>

lemma nullable_lang: "[] \<in> lang r \<Longrightarrow> nullable r"
  by (induction r) auto

lemma star_cons:
  assumes "x \<in> star L" and "x = c # w"
  shows "\<exists>u v. w = u @ v \<and> c # u \<in> L \<and> v \<in> star L"
  using assms
proof (induction arbitrary: w rule: star.induct)
  case star_nil
  then show ?case by simp
next
  case (star_step u v)
  show ?case
  proof (cases u)
    case Nil
    with star_step show ?thesis by simp
  next
    case (Cons a u')
    with star_step.prems have "a = c" and "w = u' @ v" by simp_all
    with Cons star_step.hyps show ?thesis by blast
  qed
qed

lemma deriv_lang: "c # w \<in> lang r \<Longrightarrow> w \<in> lang (deriv c r)"
proof (induction r arbitrary: w)
  case (Seq r s)
  from Seq.prems obtain u v where uv: "c # w = u @ v" "u \<in> lang r" "v \<in> lang s"
    by auto
  show ?case
  proof (cases u)
    case Nil
    with uv have "nullable r" and "w \<in> lang (deriv c s)"
      using nullable_lang Seq.IH(2) by auto
    then show ?thesis by simp
  next
    case (Cons a u')
    with uv have "w = u' @ v" and "u' \<in> lang (deriv c r)"
      using Seq.IH(1) by auto
    with uv(3) show ?thesis by auto
  qed
next
  case (Star r)
  then obtain u v where "w = u @ v" "c # u \<in> lang r" "v \<in> star (lang r)"
    using star_cons [of "c # w" "lang r" c w] by auto
  with Star.IH show ?case by auto
qed auto

lemma accepts_prefix_nullable: "nullable r \<Longrightarrow> accepts_prefix r s"
  by (cases s) simp_all

lemma accepts_prefix_complete: "u \<in> lang r \<Longrightarrow> accepts_prefix r (u @ v)"
proof (induction u arbitrary: r)
  case Nil
  then show ?case by (simp add: nullable_lang accepts_prefix_nullable)
next
  case (Cons c u)
  then show ?case by (simp add: deriv_lang)
qed

lemma search_from_here: "accepts_prefix r s \<Longrightarrow> search_from False r prev s"
  by (cases s) simp_all

lemma search_from_later: "accepts_prefix r s \<Longrightarrow> search_from False r prev (pre @ s)"
  by (induction pre arbitrary: prev) (simp_all add: search_from_here)

lemma star_dot: "list_all (\<lambda>c. \<not> is_line_terminator c) mid \<Longrightarrow> mid \<in> star (lang dot)"
proof (induction mid)
  case Nil
  show ?case by (rule star_nil)
next
  case (Cons c mid)
  then have "[c] \<in> lang dot" and "mid \<in> star (lang dot)"
    by (simp_all add: dot_def)
  then have "[c] @ mid \<in> star (lang dot)" by (rule star_step)
  then show ?case by simp
qed

lemma template_in_lang:
  assumes "list_all (\<lambda>c. \<not> is_line_terminator c) mid"
  shows "''${'' @ mid @ ''}'' \<in> lang (expr template_literal)"
proof -
  have "mid \<in> lang (Star dot)" using assms by (simp add: star_dot)
  then have "mid @ ''}'' \<in> lang (Seq (Star dot) (chr CHR ''}''))"
    by (auto simp: chr_def)
  then have "''{'' @ mid @ ''}'' \<in> lang (Seq (chr CHR ''{'') (Seq (Star dot) (chr CHR ''}'')))"
    by (fastforce simp: chr_def)
  then have "''$'' @ ''{'' @ mid @ ''}''
      \<in> lang (Seq (chr CHR ''$'') (Seq (chr CHR ''{'') (Seq (Star dot) (chr CHR ''}''))))"
    by (fastforce simp: chr_def)
  then show ?thesis by (simp add: template_literal_def plain_def)
qed

lemma test_template:
  assumes "list_all (\<lambda>c. \<not> is_line_terminator c) mid"
  shows "test template_literal (pre @ ''${'' @ mid @ ''}'' @ post)"
proof -
  have "accepts_prefix (expr template_literal) ((''${'' @ mid @ ''}'') @ post)"
    using template_in_lang [OF assms] by (rule accepts_prefix_complete)
  then have "search_from False (expr template_literal) None (pre @ (''${'' @ mid @ ''}'') @ post)"
    by (rule search_from_later)
  then show ?thesis by (simp add: test_def template_literal_def plain_def)
qed

lemma template_is_dangerous: "template_literal \<in> set dangerousPatterns"
  by (simp add: dangerousPatterns_def)

lemma trim_not_empty:
  assumes "c \<in> set s" and "\<not> is_space c"
  shows "trim s \<noteq> []"
proof -
  have ne: "dropWhile is_space s \<noteq> []"
    using assms by (auto simp: dropWhile_eq_Nil_conv)
  then have "\<not> is_space (hd (dropWhile is_space s))" by (rule hd_dropWhile)
  moreover have "hd (dropWhile is_space s) \<in> set (rev (dropWhile is_space s))"
    using ne by simp
  ultimately have "dropWhile is_space (rev (dropWhile is_space s)) \<noteq> []"
    by (auto simp: dropWhile_eq_Nil_conv)
  then show ?thesis by (simp add: trim_def)
qed

lemma validate_template:
  assumes "list_all (\<lambda>c. \<not> is_line_terminator c) mid"
  shows "validateWorkerCode (pre @ ''${'' @ mid @ ''}'' @ post) =
     \<lparr>isValid = False, error = Some ''Code contains potentially dangerous patterns''\<rparr>"
proof -
  let ?code = "pre @ ''${'' @ mid @ ''}'' @ post"
  have "CHR ''$'' \<in> set ?code" by simp
  moreover have "\<not> is_space CHR ''$''" by (simp add: is_space_def)
  ultimately have t: "trim ?code \<noteq> []" by (rule trim_not_empty)
  have "list_ex (\<lambda>p. test p ?code) dangerousPatterns"
    unfolding list_ex_iff using template_is_dangerous test_template [OF assms] by blast
  with t show ?thesis by (simp add: validateWorkerCode_def)
qed

text \<open>
  Claim C10. A code payload that contains \<open>${\<close>, then any characters of one line, then \<open>}\<close>
  is rejected by the validator with the error \<open>Code contains potentially dangerous patterns\<close>;
  the \<open>deployWorker\<close> handler then answers with the validation error, records the failure
  and makes no outbound call, whatever the environment and the remote.
\<close>

theorem C10_template_literal_rejected:
  assumes "list_all (\<lambda>c. \<not> is_line_terminator c) mid"
    and "dw_code args = pre @ ''${'' @ mid @ ''}'' @ post"
  shows "validateWorkerCode (dw_code args) =
           \<lparr>isValid = False, error = Some ''Code contains potentially dangerous patterns''\<rparr>
       \<and> deployWorker_handler e p rem args w =
           (Inr (TextContent
              [Lit ''**Error**\<newline>\<newline>Code validation failed: Code contains potentially dangerous patterns'']),
            w\<lparr>audit := audit w @
               [\<lparr>operation = ''deploy'', workerName = dw_name args, userName = login p,
                 succeeded = False\<rparr>]\<rparr>)
       \<and> calls (snd (deployWorker_handler e p rem args w)) = calls w"
proof -
  have v: "validateWorkerCode (dw_code args) =
           \<lparr>isValid = False, error = Some ''Code contains potentially dangerous patterns''\<rparr>"
    using validate_template [OF assms(1)] assms(2) by simp
  have h: "deployWorker_handler e p rem args w =
           (Inr (TextContent
              [Lit ''**Error**\<newline>\<newline>Code validation failed: Code contains potentially dangerous patterns'']),
            w\<lparr>audit := audit w @
               [\<lparr>operation = ''deploy'', workerName = dw_name args, userName = login p,
                 succeeded = False\<rparr>]\<rparr>)"
    by (simp add: deployWorker_handler_def deployWorker_body_def v try_catch_def bindM_def
        logDeploymentOperation_def ret_def)
  show ?thesis using v h by simp
qed

text \<open>Witness of C10: a payload with one template literal.\<close>

theorem C10_witness:
  "list_all (\<lambda>c. \<not> is_line_terminator c) ''name''
   \<and> validateWorkerCode (dw_code templated_code) =
           \<lparr>isValid = False, error = Some ''Code contains potentially dangerous patterns''\<rparr>
   \<and> calls (snd (deployWorker_handler sample_env sample_props remote_ok templated_code fresh_world)) = []"
proof -
  have a: "list_all (\<lambda>c. \<not> is_line_terminator c) ''name''"
    by (simp add: is_line_terminator_def)
  have b: "dw_code templated_code = ''const greeting = `hello '' @ ''${'' @ ''name'' @ ''}'' @ ''`;''"
    by (simp add: templated_code_def)
  show ?thesis
    using C10_template_literal_rejected [OF a b, of sample_env sample_props remote_ok fresh_world] a
    by (simp add: fresh_world_def)
qed

section \<open>Properties of the deployment orchestrator\<close>

lemma createKVNamespace_run:
  "createKVNamespace cf rem t w =
     (api_outcome (rem (calls w) (kv_request cf t)), w\<lparr>calls := calls w @ [kv_request cf t]\<rparr>)"
  by (simp add: createKVNamespace_def bindM_def fetch_def response_json_def api_outcome_def
      split: fetch_outcome.splits sum.splits)

lemma deployWorker_run:
  "deployWorker cf rem n c b w =
     (api_outcome (rem (calls w) (deploy_request cf n c b)),
      w\<lparr>calls := calls w @ [deploy_request cf n c b]\<rparr>)"
  by (simp add: deployWorker_def bindM_def fetch_def response_json_def api_outcome_def
      split: fetch_outcome.splits sum.splits)

lemma deploy_step_failed:
  "call_failed out \<Longrightarrow> \<exists>err. deploy_step (api_outcome out) = Inl err"
  by (auto simp: call_failed_def deploy_step_def split: sum.splits)

lemma deploy_step_ok:
  "\<not> call_failed out \<Longrightarrow> \<exists>deployed. deploy_step (api_outcome out) = Inr deployed"
  by (auto simp: call_failed_def deploy_step_def split: sum.splits)

lemma set_secrets_run:
  "\<exists>rs w'. set_secrets cf rem n ss w = (Inr rs, w')
      \<and> calls w' = calls w @ map (secret_request cf n) ss
      \<and> audit w' = audit w \<and> db_audit w' = db_audit w \<and> queries w' = queries w"
proof (induction ss arbitrary: w)
  case Nil
  show ?case by (simp add: ret_def)
next
  case (Cons s ss)
  obtain rs w' where "set_secrets cf rem n ss (w\<lparr>calls := calls w @ [secret_request cf n s]\<rparr>) = (Inr rs, w')"
    and "calls w' = calls (w\<lparr>calls := calls w @ [secret_request cf n s]\<rparr>) @ map (secret_request cf n) ss"
    and "audit w' = audit w" and "db_audit w' = db_audit w" and "queries w' = queries w"
    using Cons.IH [of "w\<lparr>calls := calls w @ [secret_request cf n s]\<rparr>"] by auto
  then show ?case
    by (simp add: bindM_def attempt_def ret_def setWorkerSecret_run)
qed

lemma mcp_failed_run:
  assumes "credentials e = Some cf"
    and "call_failed (rem (calls w @ [mcp_kv_request cf args]) (mcp_deploy_request cf args))"
  shows "\<exists>deployError. deployMCPServer_handler e p rem clk args w =
     (Inr (deploy_failed_response deployError
        \<lparr>kvNamespace = kv_step (api_outcome (rem (calls w) (mcp_kv_request cf args))),
         durableObjects = pending_step, workerDeployment = pending_step, secretsStep = pending_step\<rparr>),
      w\<lparr>calls := calls w @ [mcp_kv_request cf args, mcp_deploy_request cf args],
        audit := audit w @ [\<lparr>operation = ''deploy_mcp_server'', workerName = mcp_name args,
                              userName = login p, succeeded = False\<rparr>]\<rparr>)"
proof -
  obtain err where err: "deploy_step (api_outcome
      (rem (calls w @ [mcp_kv_request cf args]) (mcp_deploy_request cf args))) = Inl err"
    using deploy_step_failed [OF assms(2)] by blast
  have "deployMCPServer_handler e p rem clk args w =
     (Inr (deploy_failed_response err
        \<lparr>kvNamespace = kv_step (api_outcome (rem (calls w) (mcp_kv_request cf args))),
         durableObjects = pending_step, workerDeployment = pending_step, secretsStep = pending_step\<rparr>),
      w\<lparr>calls := calls w @ [mcp_kv_request cf args, mcp_deploy_request cf args],
        audit := audit w @ [\<lparr>operation = ''deploy_mcp_server'', workerName = mcp_name args,
                              userName = login p, succeeded = False\<rparr>]\<rparr>)"
    using assms(1) err
    by (simp add: deployMCPServer_handler_def deployMCPServer_body_def try_catch_def bindM_def
        attempt_def createKVNamespace_run deployWorker_run logDeploymentOperation_def ret_def
        mcp_kv_request_def mcp_deploy_request_def)
  then show ?thesis by blast
qed

lemma mcp_deployed_run:
  assumes "credentials e = Some cf"
    and "\<not> call_failed (rem (calls w @ [mcp_kv_request cf args]) (mcp_deploy_request cf args))"
  shows "\<exists>deployed secretResults ss. deployMCPServer_handler e p rem clk args w =
     (Inr (deployed_response cf p clk (mcp_name args)
        \<lparr>kvNamespace = kv_step (api_outcome (rem (calls w) (mcp_kv_request cf args))),
         durableObjects = durable_objects_step,
         workerDeployment = \<lparr>step_status = ''success'', step_result = deployed\<rparr>,
         secretsStep = ss\<rparr> secretResults),
      w\<lparr>calls := calls w @ [mcp_kv_request cf args, mcp_deploy_request cf args]
                  @ map (secret_request cf (mcp_name args)) (secretsToSet args),
        audit := audit w @ [\<lparr>operation = ''deploy_mcp_server'', workerName = mcp_name args,
                              userName = login p, succeeded = True\<rparr>]\<rparr>)"
proof -
  let ?w2 = "w\<lparr>calls := calls w @ [mcp_kv_request cf args, mcp_deploy_request cf args]\<rparr>"
  obtain deployed where res: "deploy_step (api_outcome
      (rem (calls w @ [mcp_kv_request cf args]) (mcp_deploy_request cf args))) = Inr deployed"
    using deploy_step_ok [OF assms(2)] by blast
  obtain rs w' where rs: "set_secrets cf rem (mcp_name args) (secretsToSet args) ?w2 = (Inr rs, w')"
    and c: "calls w' = calls ?w2 @ map (secret_request cf (mcp_name args)) (secretsToSet args)"
    and a: "audit w' = audit ?w2" and d: "db_audit w' = db_audit ?w2"
    and q: "queries w' = queries ?w2"
    using set_secrets_run [of cf rem "mcp_name args" "secretsToSet args" ?w2] by blast
  have w': "w' = w\<lparr>calls := calls w @ [mcp_kv_request cf args, mcp_deploy_request cf args]
                  @ map (secret_request cf (mcp_name args)) (secretsToSet args)\<rparr>"
    using c a d q by (cases w', cases w) simp
  have "deployMCPServer_handler e p rem clk args w =
     (Inr (deployed_response cf p clk (mcp_name args)
        \<lparr>kvNamespace = kv_step (api_outcome (rem (calls w) (mcp_kv_request cf args))),
         durableObjects = durable_objects_step,
         workerDeployment = \<lparr>step_status = ''success'', step_result = deployed\<rparr>,
         secretsStep = \<lparr>step_status = secrets_status rs,
                         step_result = JArr (map secret_result_json rs)\<rparr>\<rparr> rs),
      w\<lparr>calls := calls w @ [mcp_kv_request cf args, mcp_deploy_request cf args]
                  @ map (secret_request cf (mcp_name args)) (secretsToSet args),
        audit := audit w @ [\<lparr>operation = ''deploy_mcp_server'', workerName = mcp_name args,
                              userName = login p, succeeded = True\<rparr>]\<rparr>)"
    using assms(1) res rs w'
    by (simp add: deployMCPServer_handler_def deployMCPServer_body_def try_catch_def bindM_def
        attempt_def createKVNamespace_run deployWorker_run logDeploymentOperation_def ret_def
        mcp_kv_request_def mcp_deploy_request_def Let_def)
  then show ?thesis by blast
qed

lemma deploy_failed_response_facts:
  "text_prefixed ''**Error**'' (text_of (deploy_failed_response err ds))
   \<and> opt_prop (first_doc (text_of (deploy_failed_response err ds))) ''completedSteps'' = steps_json ds"
  by (simp add: deploy_failed_response_def)

lemma deployed_response_facts:
  "text_prefixed ''**Success**'' (text_of (deployed_response cf p clk n ds rs))
   \<and> \<not> text_prefixed ''**Error**'' (text_of (deployed_response cf p clk n ds rs))
   \<and> opt_prop (first_doc (text_of (deployed_response cf p clk n ds rs))) ''status'' = JStr ''deployed''
   \<and> opt_prop (opt_prop (first_doc (text_of (deployed_response cf p clk n ds rs))) ''deploymentSteps'')
        ''kvNamespace'' = step_json (kvNamespace ds)"
  by (simp add: deployed_response_def deploymentResult_def steps_json_def)

lemma kv_step_failed: "call_failed out \<Longrightarrow> step_status (kv_step (api_outcome out)) = ''failed''"
  by (auto simp: call_failed_def kv_step_def split: sum.splits)





lemma without_kv_outcomes:
  "call_failed (remote_without_kv h (mcp_kv_request sample_api sample_mcp))"
  "\<not> call_failed (remote_without_kv h (mcp_deploy_request sample_api sample_mcp))"
  by (simp_all add: call_failed_def api_outcome_def remote_without_kv_def failed_envelope_def
      ok_envelope_def mcp_kv_request_def mcp_deploy_request_def kv_request_def deploy_request_def)

text \<open>
  Claim C1 says that the outcome is \<open>PARTIAL\<close> when namespace creation fails and code
  deployment succeeds. With a remote that refuses namespace creation and accepts every other
  call, the response is the \<open>**Success**\<close> response and the status of its document is
  \<open>deployed\<close>: the orchestrator has no overall \<open>PARTIAL\<close> status.
\<close>

theorem C1_counterexample:
  "\<exists>r w'. deployMCPServer_handler sample_env sample_props remote_without_kv sample_clock sample_mcp
        fresh_world = (Inr r, w')
     \<and> call_failed (remote_without_kv [] (mcp_kv_request sample_api sample_mcp))
     \<and> \<not> call_failed (remote_without_kv [mcp_kv_request sample_api sample_mcp]
                          (mcp_deploy_request sample_api sample_mcp))
     \<and> text_prefixed ''**Success**'' (text_of r)
     \<and> opt_prop (first_doc (text_of r)) ''status'' = JStr ''deployed''
     \<and> opt_prop (first_doc (text_of r)) ''status'' \<noteq> JStr ''PARTIAL''"
proof -
  obtain r w' where "deployMCPServer_handler sample_env sample_props remote_without_kv sample_clock
      sample_mcp fresh_world = (Inr r, w')"
    and "text_prefixed ''**Success**'' (text_of r)"
    and "opt_prop (first_doc (text_of r)) ''status'' = JStr ''deployed''"
    using mcp_deployed_run [where e=sample_env and cf=sample_api and rem=remote_without_kv
        and w=fresh_world and args=sample_mcp and p=sample_props and clk=sample_clock]
      sample_credentials without_kv_outcomes(2) deployed_response_facts
    by (auto simp: fresh_world_def)
  then show ?thesis
    using without_kv_outcomes by auto
qed

text \<open>
  Claim C1 as amended. In a configured environment every deployment request gets a
  response, and that response is the failure response (prefixed \<open>**Error**\<close>, with the
  completed steps) exactly when the deploy call of the CodeDeploy phase failed; otherwise
  it is the \<open>**Success**\<close> response whose document has status \<open>deployed\<close>, whatever the
  outcomes of namespace creation and of the secrets. A failed namespace creation shows only
  in the itemised steps, as status \<open>failed\<close> of the \<open>kvNamespace\<close> step.
\<close>

theorem C1_status_by_code_deploy:
  assumes "credentials e = Some cf"
  shows "\<exists>r w'. deployMCPServer_handler e p rem clk args w = (Inr r, w')
     \<and> (if call_failed (rem (calls w @ [mcp_kv_request cf args]) (mcp_deploy_request cf args))
        then text_prefixed ''**Error**'' (text_of r)
           \<and> opt_prop (first_doc (text_of r)) ''completedSteps'' = steps_json
                \<lparr>kvNamespace = kv_step (api_outcome (rem (calls w) (mcp_kv_request cf args))),
                 durableObjects = pending_step, workerDeployment = pending_step,
                 secretsStep = pending_step\<rparr>
        else text_prefixed ''**Success**'' (text_of r)
           \<and> opt_prop (first_doc (text_of r)) ''status'' = JStr ''deployed''
           \<and> opt_prop (opt_prop (first_doc (text_of r)) ''deploymentSteps'') ''kvNamespace''
               = step_json (kv_step (api_outcome (rem (calls w) (mcp_kv_request cf args)))))
     \<and> (call_failed (rem (calls w) (mcp_kv_request cf args)) \<longrightarrow>
          step_status (kv_step (api_outcome (rem (calls w) (mcp_kv_request cf args)))) = ''failed'')"
proof (cases "call_failed (rem (calls w @ [mcp_kv_request cf args]) (mcp_deploy_request cf args))")
  case True
  then show ?thesis
    using mcp_failed_run [where e=e and cf=cf and rem=rem and w=w and args=args and p=p and clk=clk]
      assms deploy_failed_response_facts kv_step_failed
    by auto
next
  case False
  then obtain deployed secretResults ss where "deployMCPServer_handler e p rem clk args w =
     (Inr (deployed_response cf p clk (mcp_name args)
        \<lparr>kvNamespace = kv_step (api_outcome (rem (calls w) (mcp_kv_request cf args))),
         durableObjects = durable_objects_step,
         workerDeployment = \<lparr>step_status = ''success'', step_result = deployed\<rparr>,
         secretsStep = ss\<rparr> secretResults),
      w\<lparr>calls := calls w @ [mcp_kv_request cf args, mcp_deploy_request cf args]
                  @ map (secret_request cf (mcp_name args)) (secretsToSet args),
        audit := audit w @ [\<lparr>operation = ''deploy_mcp_server'', workerName = mcp_name args,
                              userName = login p, succeeded = True\<rparr>]\<rparr>)"
    using mcp_deployed_run [where e=e and cf=cf and rem=rem and w=w and args=args and p=p and clk=clk]
      assms by blast
  with False show ?thesis
    using deployed_response_facts kv_step_failed by auto
qed

text \<open>
  Witness of the amended C1: namespace creation refused, code deployment accepted.
\<close>

theorem C1_witness:
  "\<exists>r w'. deployMCPServer_handler sample_env sample_props remote_without_kv sample_clock sample_mcp
        fresh_world = (Inr r, w')
     \<and> text_prefixed ''**Success**'' (text_of r)
     \<and> opt_prop (opt_prop (first_doc (text_of r)) ''deploymentSteps'') ''kvNamespace''
         = JObj [(''status'', JStr ''failed''), (''result'', JNull)]"
proof -
  have k: "kv_step (api_outcome (remote_without_kv [] (mcp_kv_request sample_api sample_mcp)))
      = \<lparr>step_status = ''failed'', step_result = JNull\<rparr>"
    by (simp add: kv_step_def api_outcome_def remote_without_kv_def failed_envelope_def
        mcp_kv_request_def kv_request_def)
  show ?thesis
    using C1_status_by_code_deploy [where e=sample_env and cf=sample_api and rem=remote_without_kv
        and w=fresh_world and args=sample_mcp and p=sample_props and clk=sample_clock]
      sample_credentials without_kv_outcomes k
    by (auto simp: fresh_world_def step_json_def)
qed

section \<open>Properties of the client and of deleteWorker\<close>

lemma getWorker_rejected:
  assumes "rem (calls w) (settings_request cf n) = Rejects e"
  shows "\<exists>res. getWorker cf rem clk n w = (Inr res, w\<lparr>calls := calls w @ [settings_request cf n]\<rparr>)
     \<and> success res \<and> \<not> nullish (result res) \<and> opt_prop (result res) ''name'' = JStr n"
  using assms by (simp add: getWorker_def try_catch_def bindM_def fetch_def ret_def)

lemma getWorker_404:
  assumes "rem (calls w) (settings_request cf n) = Responds r" and "status r = 404"
  shows "\<exists>res. getWorker cf rem clk n w =
       (Inr res, w\<lparr>calls := calls w @ [settings_request cf n, domains_request cf]\<rparr>)
     \<and> success res \<and> \<not> nullish (result res) \<and> opt_prop (result res) ''name'' = JStr n"
  using assms
  by (simp add: getWorker_def try_catch_def bindM_def fetch_def ret_def response_json_def
      split: fetch_outcome.splits sum.splits)

lemma getWorker_unconfirmed:
  assumes "lookup_unconfirmed (rem (calls w) (settings_request cf n))"
  shows "\<exists>res. getWorker cf rem clk n w =
       (Inr res, w\<lparr>calls := calls w @ lookup_calls cf n (rem (calls w) (settings_request cf n))\<rparr>)
     \<and> success res \<and> \<not> nullish (result res) \<and> opt_prop (result res) ''name'' = JStr n"
proof (cases "rem (calls w) (settings_request cf n)")
  case (Rejects e)
  then show ?thesis
    using getWorker_rejected [where rem=rem and w=w and cf=cf and n=n and e=e and clk=clk]
    by (simp add: lookup_calls_def)
next
  case (Responds r)
  with assms have "status r = 404" by (simp add: lookup_unconfirmed_def)
  then show ?thesis
    using getWorker_404 [where rem=rem and w=w and cf=cf and n=n and r=r and clk=clk] Responds
    by (simp add: lookup_calls_def)
qed

lemma one_call_each:
  "calls (snd (listWorkers cf rem w)) = calls w @ [list_request cf]"
  "calls (snd (deployWorker cf rem n c b w)) = calls w @ [deploy_request cf n c b]"
  "calls (snd (deleteWorker cf rem n w)) = calls w @ [delete_request cf n]"
  "calls (snd (getWorkerLogs cf rem n w)) = calls w @ [logs_request cf n]"
  "calls (snd (setWorkerSecret cf rem n (secret_name s) (secret_value s) w)) = calls w @ [secret_request cf n s]"
  "calls (snd (createKVNamespace cf rem t w)) = calls w @ [kv_request cf t]"
  by (simp_all add: listWorkers_def deleteWorker_def getWorkerLogs_def makeRequest_run
      deployWorker_run setWorkerSecret_run createKVNamespace_run list_request_def
      delete_request_def logs_request_def)

lemma getWorker_fallback:
  assumes "rem (calls w) (settings_request cf n) = Responds r" and "status r = 404"
  shows "\<exists>res w'. getWorker cf rem clk n w = (Inr res, w')
            \<and> calls w' = calls w @ [settings_request cf n, domains_request cf]
            \<and> success res
            \<and> opt_prop (result res) ''id'' = JStr n \<and> opt_prop (result res) ''name'' = JStr n
            \<and> opt_prop (result res) ''created_on'' = JStr (now_iso clk)
            \<and> opt_prop (result res) ''modified_on'' = JStr (now_iso clk)
            \<and> opt_prop (result res) ''environment'' = JStr ''production''"
  using assms
  by (simp add: getWorker_def try_catch_def bindM_def fetch_def ret_def response_json_def
      split: fetch_outcome.splits sum.splits)

lemma client_requests:
  "settings_request cf n =
     \<lparr>url = ''https://api.cloudflare.com/client/v4/accounts/'' @ accountId cf
              @ ''/workers/scripts/'' @ n @ ''/settings'',
      http_method = ''GET'',
      headers = [(''Authorization'', ''Bearer '' @ apiToken cf), (''Content-Type'', ''application/json'')],
      body = NoBody\<rparr>"
  "domains_request cf =
     \<lparr>url = ''https://api.cloudflare.com/client/v4/accounts/'' @ accountId cf @ ''/workers/domains'',
      http_method = ''GET'',
      headers = [(''Authorization'', ''Bearer '' @ apiToken cf), (''Content-Type'', ''application/json'')],
      body = NoBody\<rparr>"
  "list_request cf =
     \<lparr>url = ''https://api.cloudflare.com/client/v4/accounts/'' @ accountId cf @ ''/workers/scripts'',
      http_method = ''GET'',
      headers = [(''Authorization'', ''Bearer '' @ apiToken cf), (''Content-Type'', ''application/json'')],
      body = NoBody\<rparr>"
  "deploy_request cf n c b =
     \<lparr>url = ''https://api.cloudflare.com/client/v4/accounts/'' @ accountId cf
              @ ''/workers/scripts/'' @ n,
      http_method = ''PUT'',
      headers = [(''Authorization'', ''Bearer '' @ apiToken cf)],
      body = FormData
        [(''worker.js'', ScriptText c, ''application/javascript+module''),
         (''metadata'', JsonText (deploy_metadata b), ''application/json'')]\<rparr>"
  "delete_request cf n =
     \<lparr>url = ''https://api.cloudflare.com/client/v4/accounts/'' @ accountId cf
              @ ''/workers/scripts/'' @ n,
      http_method = ''DELETE'',
      headers = [(''Authorization'', ''Bearer '' @ apiToken cf), (''Content-Type'', ''application/json'')],
      body = NoBody\<rparr>"
  "logs_request cf n =
     \<lparr>url = ''https://api.cloudflare.com/client/v4/accounts/'' @ accountId cf
              @ ''/workers/scripts/'' @ n,
      http_method = ''GET'',
      headers = [(''Authorization'', ''Bearer '' @ apiToken cf), (''Content-Type'', ''application/json'')],
      body = NoBody\<rparr>"
  "secret_request cf n s =
     \<lparr>url = ''https://api.cloudflare.com/client/v4/accounts/'' @ accountId cf
              @ ''/workers/scripts/'' @ n @ ''/secrets'',
      http_method = ''PUT'',
      headers = [(''Authorization'', ''Bearer '' @ apiToken cf), (''Content-Type'', ''application/json'')],
      body = JsonBody (JObj [(''name'', JStr (secret_name s)), (''text'', JStr (secret_value s)),
                             (''type'', JStr ''secret_text'')])\<rparr>"
  "kv_request cf t =
     \<lparr>url = ''https://api.cloudflare.com/client/v4/accounts/'' @ accountId cf
              @ ''/storage/kv/namespaces'',
      http_method = ''POST'',
      headers = [(''Authorization'', ''Bearer '' @ apiToken cf), (''Content-Type'', ''application/json'')],
      body = JsonBody (JObj [(''title'', JStr t)])\<rparr>"
  by (simp_all add: settings_request_def domains_request_def list_request_def deploy_request_def
      delete_request_def logs_request_def secret_request_def kv_request_def make_request_def
      baseUrl_def json_headers_def secret_data_def)

text \<open>
  Claim C7. When the settings endpoint answers \<open>getWorker\<close> with status 404, the client
  calls the domains listing next and returns a synthetic envelope with \<open>success: true\<close> and
  best-effort metadata (the worker's name as identifier and name, the current time as
  creation and modification dates, the production environment), whatever that second
  call gives. Every other client method makes exactly one outbound call per invocation,
  whatever the remote answers; each request is given with its address and method.
\<close>

theorem C7_fallback_and_single_calls:
  "(rem (calls w)
      \<lparr>url = ''https://api.cloudflare.com/client/v4/accounts/'' @ accountId cf
               @ ''/workers/scripts/'' @ n @ ''/settings'',
       http_method = ''GET'',
       headers = [(''Authorization'', ''Bearer '' @ apiToken cf), (''Content-Type'', ''application/json'')],
       body = NoBody\<rparr> = Responds r \<and> status r = 404
    \<longrightarrow> (\<exists>res w'. getWorker cf rem clk n w = (Inr res, w')
            \<and> calls w' = calls w @
                 [\<lparr>url = ''https://api.cloudflare.com/client/v4/accounts/'' @ accountId cf
                          @ ''/workers/scripts/'' @ n @ ''/settings'',
                    http_method = ''GET'',
                    headers = [(''Authorization'', ''Bearer '' @ apiToken cf),
                               (''Content-Type'', ''application/json'')],
                    body = NoBody\<rparr>,
                  \<lparr>url = ''https://api.cloudflare.com/client/v4/accounts/'' @ accountId cf
                          @ ''/workers/domains'',
                    http_method = ''GET'',
                    headers = [(''Authorization'', ''Bearer '' @ apiToken cf),
                               (''Content-Type'', ''application/json'')],
                    body = NoBody\<rparr>]
            \<and> success res
            \<and> opt_prop (result res) ''id'' = JStr n \<and> opt_prop (result res) ''name'' = JStr n
            \<and> opt_prop (result res) ''created_on'' = JStr (now_iso clk)
            \<and> opt_prop (result res) ''modified_on'' = JStr (now_iso clk)
            \<and> opt_prop (result res) ''environment'' = JStr ''production''))
   \<and> calls (snd (listWorkers cf rem w)) = calls w @
        [\<lparr>url = ''https://api.cloudflare.com/client/v4/accounts/'' @ accountId cf @ ''/workers/scripts'',
           http_method = ''GET'',
           headers = [(''Authorization'', ''Bearer '' @ apiToken cf), (''Content-Type'', ''application/json'')],
           body = NoBody\<rparr>]
   \<and> calls (snd (deployWorker cf rem n c b w)) = calls w @
        [\<lparr>url = ''https://api.cloudflare.com/client/v4/accounts/'' @ accountId cf
                 @ ''/workers/scripts/'' @ n,
           http_method = ''PUT'',
           headers = [(''Authorization'', ''Bearer '' @ apiToken cf)],
           body = FormData
             [(''worker.js'', ScriptText c, ''application/javascript+module''),
              (''metadata'', JsonText (deploy_metadata b), ''application/json'')]\<rparr>]
   \<and> calls (snd (deleteWorker cf rem n w)) = calls w @
        [\<lparr>url = ''https://api.cloudflare.com/client/v4/accounts/'' @ accountId cf
                 @ ''/workers/scripts/'' @ n,
           http_method = ''DELETE'',
           headers = [(''Authorization'', ''Bearer '' @ apiToken cf), (''Content-Type'', ''application/json'')],
           body = NoBody\<rparr>]
   \<and> calls (snd (getWorkerLogs cf rem n w)) = calls w @
        [\<lparr>url = ''https://api.cloudflare.com/client/v4/accounts/'' @ accountId cf
                 @ ''/workers/scripts/'' @ n,
           http_method = ''GET'',
           headers = [(''Authorization'', ''Bearer '' @ apiToken cf), (''Content-Type'', ''application/json'')],
           body = NoBody\<rparr>]
   \<and> calls (snd (setWorkerSecret cf rem n sn sv w)) = calls w @
        [\<lparr>url = ''https://api.cloudflare.com/client/v4/accounts/'' @ accountId cf
                 @ ''/workers/scripts/'' @ n @ ''/secrets'',
           http_method = ''PUT'',
           headers = [(''Authorization'', ''Bearer '' @ apiToken cf), (''Content-Type'', ''application/json'')],
           body = JsonBody (JObj [(''name'', JStr sn), (''text'', JStr sv),
                                  (''type'', JStr ''secret_text'')])\<rparr>]
   \<and> calls (snd (createKVNamespace cf rem t w)) = calls w @
        [\<lparr>url = ''https://api.cloudflare.com/client/v4/accounts/'' @ accountId cf
                 @ ''/storage/kv/namespaces'',
           http_method = ''POST'',
           headers = [(''Authorization'', ''Bearer '' @ apiToken cf), (''Content-Type'', ''application/json'')],
           body = JsonBody (JObj [(''title'', JStr t)])\<rparr>]"
  using getWorker_fallback [where rem=rem and w=w and cf=cf and n=n and r=r and clk=clk]
  by (simp add: one_call_each client_requests setWorkerSecret_def makeRequest_run
      make_request_def baseUrl_def json_headers_def secret_data_def)

text \<open>
  Witness of C7: a remote that answers every \<open>GET\<close> with status 404.
\<close>

theorem C7_witness:
  "(\<exists>res w'. getWorker sample_api remote_404 sample_clock ''ghost'' fresh_world = (Inr res, w')
      \<and> map url (calls w') =
           [''https://api.cloudflare.com/client/v4/accounts/acct/workers/scripts/ghost/settings'',
            ''https://api.cloudflare.com/client/v4/accounts/acct/workers/domains'']
      \<and> success res \<and> opt_prop (result res) ''name'' = JStr ''ghost'')
   \<and> map url (calls (snd (listWorkers sample_api remote_404 fresh_world))) =
        [''https://api.cloudflare.com/client/v4/accounts/acct/workers/scripts'']"
  using C7_fallback_and_single_calls [where rem=remote_404 and w=fresh_world and cf=sample_api
      and n="''ghost''" and clk=sample_clock and c="[]" and b=None and sn="[]" and sv="[]" and t="[]"
      and r="\<lparr>status = 404, json_body = Inr failed_envelope\<rparr>"]
  by (auto simp: fresh_world_def remote_404_def sample_api_def)

lemma remote_404_lookup:
  "remote_404 h (settings_request cf n) = Responds \<lparr>status = 404, json_body = Inr failed_envelope\<rparr>"
  by (simp add: remote_404_def settings_request_def)

lemma deleteWorker_run:
  "deleteWorker cf rem n w =
     (api_outcome (rem (calls w) (delete_request cf n)), w\<lparr>calls := calls w @ [delete_request cf n]\<rparr>)"
  by (simp add: deleteWorker_def makeRequest_run delete_request_def)

lemma delete_unconfirmed_run:
  assumes "credentials e = Some cf" and "del_confirm args"
    and "lookup_unconfirmed (rem (calls w) (settings_request cf (del_name args)))"
  shows "\<exists>r w'. deleteWorker_handler e p rem clk args w = (Inr r, w')
     \<and> calls w' = calls w @ lookup_calls cf (del_name args) (rem (calls w) (settings_request cf (del_name args)))
                  @ [delete_request cf (del_name args)]
     \<and> r \<noteq> not_found_response (del_name args)"
proof -
  let ?n = "del_name args"
  let ?w1 = "w\<lparr>calls := calls w @ lookup_calls cf ?n (rem (calls w) (settings_request cf ?n))\<rparr>"
  obtain res where g: "getWorker cf rem clk ?n w = (Inr res, ?w1)"
    and ok: "success res" and nn: "\<not> nullish (result res)"
    using getWorker_unconfirmed [where rem=rem and w=w and cf=cf and n="?n" and clk=clk] assms(3)
    by blast
  show ?thesis
  proof (cases "api_outcome (rem (calls ?w1) (delete_request cf ?n))")
    case (Inl err)
    then show ?thesis
      using assms(1,2) g ok
      by (simp add: deleteWorker_handler_def deleteWorker_body_def try_catch_def bindM_def
          deleteWorker_run logDeploymentOperation_def ret_def Let_def not_found_response_def)
  next
    case (Inr d)
    then show ?thesis
      using assms(1,2) g ok nn
      by (simp add: deleteWorker_handler_def deleteWorker_body_def try_catch_def bindM_def
          deleteWorker_run logDeploymentOperation_def ret_def Let_def get_prop_def
          not_found_response_def)
  qed
qed

text \<open>
  Claim C9. In a configured environment and with the deletion confirmed, when the primary
  settings lookup throws or answers with status 404, \<open>getWorker\<close> still returns an envelope
  with \<open>success: true\<close>; so the handler does not answer with the worker-not-found response:
  after the lookup calls it issues the delete call for the worker.
\<close>

theorem C9_delete_proceeds_unconfirmed:
  assumes "credentials e = Some cf" and "del_confirm args"
    and "lookup_unconfirmed (rem (calls w) (settings_request cf (del_name args)))"
  shows "(\<exists>res w1. getWorker cf rem clk (del_name args) w = (Inr res, w1) \<and> success res)
     \<and> (\<exists>r w'. deleteWorker_handler e p rem clk args w = (Inr r, w')
          \<and> r \<noteq> not_found_response (del_name args)
          \<and> calls w' = calls w
               @ lookup_calls cf (del_name args) (rem (calls w) (settings_request cf (del_name args)))
               @ [delete_request cf (del_name args)])"
proof -
  have "\<exists>res w1. getWorker cf rem clk (del_name args) w = (Inr res, w1) \<and> success res"
    using getWorker_unconfirmed [where rem=rem and w=w and cf=cf and n="del_name args" and clk=clk]
      assms(3) by blast
  moreover have "\<exists>r w'. deleteWorker_handler e p rem clk args w = (Inr r, w')
          \<and> r \<noteq> not_found_response (del_name args)
          \<and> calls w' = calls w
               @ lookup_calls cf (del_name args) (rem (calls w) (settings_request cf (del_name args)))
               @ [delete_request cf (del_name args)]"
    using delete_unconfirmed_run [where rem=rem and w=w and cf=cf and args=args and clk=clk
        and e=e and p=p] assms by blast
  ultimately show ?thesis by blast
qed

text \<open>
  Witness of C9: deleting a worker that the remote answers with status 404.
\<close>

theorem C9_witness:
  "\<exists>r w'. deleteWorker_handler sample_env sample_props remote_404 sample_clock confirmed_delete
        fresh_world = (Inr r, w')
     \<and> r \<noteq> not_found_response ''ghost''
     \<and> calls w' = [settings_request sample_api ''ghost'', domains_request sample_api,
                    delete_request sample_api ''ghost'']"
proof -
  have l: "lookup_unconfirmed (remote_404 (calls fresh_world)
      (settings_request sample_api (del_name confirmed_delete)))"
    by (simp add: remote_404_lookup lookup_unconfirmed_def)
  have c: "del_confirm confirmed_delete" by (simp add: confirmed_delete_def)
  show ?thesis
    using C9_delete_proceeds_unconfirmed [where rem=remote_404 and w=fresh_world and cf=sample_api
        and args=confirmed_delete and clk=sample_clock and e=sample_env and p=sample_props]
      sample_credentials l c
    by (auto simp: fresh_world_def confirmed_delete_def lookup_calls_def remote_404_lookup)
qed

section \<open>Properties of the credentials check\<close>

lemma credentials_absent_None: "credentials_absent e \<Longrightarrow> credentials e = None"
  by (auto simp: credentials_absent_def credentials_def truthy_str_def split: option.splits)

lemma credentials_texts:
  "text_prefixed ''**Error**'' (text_of credentials_error_details)"
  "text_contains ''Cloudflare credentials not configured'' (text_of credentials_error_details)"
  "text_prefixed ''**Error**'' (text_of credentials_error_plain)"
  "text_contains ''Cloudflare credentials not configured'' (text_of credentials_error_plain)"
  by (simp_all add: credentials_error_details_def credentials_error_plain_def
      sublist_Cons_right)

lemma unconfigured_runs:
  assumes "credentials_absent e"
  shows "refused_unconfigured (deployMCPServer_handler e p rem clk a_mcp) w"
    and "refused_unconfigured (setWorkerSecrets_handler e p rem a_sec) w"
    and "refused_unconfigured (createKVNamespace_handler e p rem a_kv) w"
    and "refused_unconfigured (listWorkers_handler e p rem) w"
    and "refused_unconfigured (getWorkerStatus_handler e p rem clk n) w"
  using credentials_absent_None [OF assms]
  by (simp_all add: refused_unconfigured_def credentials_texts
      deployMCPServer_handler_def deployMCPServer_body_def
      setWorkerSecrets_handler_def setWorkerSecrets_body_def
      createKVNamespace_handler_def createKVNamespace_body_def
      listWorkers_handler_def listWorkers_body_def
      getWorkerStatus_handler_def getWorkerStatus_body_def
      try_catch_def bindM_def logDeploymentOperation_def ret_def)

lemma unconfigured_deployWorker:
  assumes "credentials_absent e"
  shows "if isValid (validateWorkerCode (dw_code a_dw))
         then refused_unconfigured (deployWorker_handler e p rem a_dw) w
         else refused_without_calls (deployWorker_handler e p rem a_dw) w"
  using credentials_absent_None [OF assms]
  by (simp add: refused_unconfigured_def refused_without_calls_def credentials_texts
      deployWorker_handler_def deployWorker_body_def Let_def
      try_catch_def bindM_def logDeploymentOperation_def ret_def)

lemma unconfigured_deleteWorker:
  assumes "credentials_absent e"
  shows "if del_confirm a_del
         then refused_unconfigured (deleteWorker_handler e p rem clk a_del) w
         else refused_without_calls (deleteWorker_handler e p rem clk a_del) w"
  using credentials_absent_None [OF assms]
  by (simp add: refused_unconfigured_def refused_without_calls_def credentials_texts
      deleteWorker_handler_def deleteWorker_body_def
      try_catch_def bindM_def logDeploymentOperation_def ret_def)

lemma bare_env_absent: "credentials_absent bare_env"
  by (simp add: credentials_absent_def bare_env_def truthy_str_def)

text \<open>
  Claim C6 says that every invocation without credentials answers with the text
  \<open>Cloudflare credentials not configured\<close>. \<open>deleteWorker\<close> checks the confirmation first
  (as \<open>deployWorker\<close> checks the code first): without credentials and without
  confirmation, its response does not contain that text.
\<close>

theorem C6_counterexample:
  "credentials_absent bare_env
   \<and> (\<exists>r w'. deleteWorker_handler bare_env sample_props remote_ok sample_clock unconfirmed_delete
          fresh_world = (Inr r, w')
        \<and> \<not> text_contains ''Cloudflare credentials not configured'' (text_of r))"
proof -
  have run: "deleteWorker_handler bare_env sample_props remote_ok sample_clock unconfirmed_delete
          fresh_world =
      (Inr (TextContent
          [Lit (''**Error**\<newline>\<newline>Deletion requires explicit confirmation. Set ''
                @ quoted ''confirm: true'' @ '' to delete worker '' @ quoted ''ghost''
                @ ''. **WARNING: This action cannot be undone.**'')]), fresh_world)"
    by (simp add: deleteWorker_handler_def deleteWorker_body_def unconfirmed_delete_def
        try_catch_def ret_def)
  have "\<not> text_contains ''Cloudflare credentials not configured''
      [Lit (''**Error**\<newline>\<newline>Deletion requires explicit confirmation. Set ''
                @ quoted ''confirm: true'' @ '' to delete worker '' @ quoted ''ghost''
                @ ''. **WARNING: This action cannot be undone.**'')]"
    by code_simp
  with run bare_env_absent show ?thesis by simp
qed

text \<open>
  Claim C6 as amended. When the account identifier or the API token is absent, each of the
  seven tools answers with an \<open>**Error**\<close> response and makes no outbound call. The text
  contains \<open>Cloudflare credentials not configured\<close> for \<open>deployMCPServer\<close>,
  \<open>setWorkerSecrets\<close>, \<open>createKVNamespace\<close>, \<open>listWorkers\<close> and \<open>getWorkerStatus\<close> always,
  for \<open>deployWorker\<close> when the code passes validation, and for \<open>deleteWorker\<close> when the
  deletion is confirmed; otherwise these two answer with their validation and confirmation
  errors.
\<close>

theorem C6_unconfigured_short_circuit:
  assumes "credentials_absent e"
  shows "refused_unconfigured (deployMCPServer_handler e p rem clk a_mcp) w
     \<and> refused_unconfigured (setWorkerSecrets_handler e p rem a_sec) w
     \<and> refused_unconfigured (createKVNamespace_handler e p rem a_kv) w
     \<and> refused_unconfigured (listWorkers_handler e p rem) w
     \<and> refused_unconfigured (getWorkerStatus_handler e p rem clk n) w
     \<and> (if isValid (validateWorkerCode (dw_code a_dw))
         then refused_unconfigured (deployWorker_handler e p rem a_dw) w
         else refused_without_calls (deployWorker_handler e p rem a_dw) w)
     \<and> (if del_confirm a_del
         then refused_unconfigured (deleteWorker_handler e p rem clk a_del) w
         else refused_without_calls (deleteWorker_handler e p rem clk a_del) w)"
proof -
  have orchestrator: "refused_unconfigured (deployMCPServer_handler e p rem clk a_mcp) w"
    by (rule unconfigured_runs(1) [OF assms])
  have batch: "refused_unconfigured (setWorkerSecrets_handler e p rem a_sec) w"
    by (rule unconfigured_runs(2) [OF assms])
  have namespace: "refused_unconfigured (createKVNamespace_handler e p rem a_kv) w"
    by (rule unconfigured_runs(3) [OF assms])
  have listing: "refused_unconfigured (listWorkers_handler e p rem) w"
    by (rule unconfigured_runs(4) [OF assms])
  have health: "refused_unconfigured (getWorkerStatus_handler e p rem clk n) w"
    by (rule unconfigured_runs(5) [OF assms])
  have deploy: "if isValid (validateWorkerCode (dw_code a_dw))
         then refused_unconfigured (deployWorker_handler e p rem a_dw) w
         else refused_without_calls (deployWorker_handler e p rem a_dw) w"
    by (rule unconfigured_deployWorker [OF assms])
  have removal: "if del_confirm a_del
         then refused_unconfigured (deleteWorker_handler e p rem clk a_del) w
         else refused_without_calls (deleteWorker_handler e p rem clk a_del) w"
    by (rule unconfigured_deleteWorker [OF assms])
  from orchestrator batch namespace listing health deploy removal show ?thesis
    by (intro conjI)
qed

text \<open>
  Witness of the amended C6: an environment with no account identifier.
\<close>

theorem C6_witness:
  "credentials_absent bare_env
   \<and> refused_unconfigured (deployMCPServer_handler bare_env sample_props remote_ok sample_clock sample_mcp)
        fresh_world
   \<and> refused_unconfigured (setWorkerSecrets_handler bare_env sample_props remote_ok two_secrets)
        fresh_world
   \<and> refused_unconfigured (listWorkers_handler bare_env sample_props remote_ok) fresh_world
   \<and> refused_unconfigured (deleteWorker_handler bare_env sample_props remote_ok sample_clock
        confirmed_delete) fresh_world
   \<and> refused_without_calls (deleteWorker_handler bare_env sample_props remote_ok sample_clock
        unconfirmed_delete) fresh_world"
  using C6_unconfigured_short_circuit [where e=bare_env and p=sample_props and rem=remote_ok
      and clk=sample_clock and a_mcp=sample_mcp and a_sec=two_secrets and w=fresh_world
      and a_del=confirmed_delete]
    C6_unconfigured_short_circuit [where e=bare_env and p=sample_props and rem=remote_ok
      and clk=sample_clock and a_mcp=sample_mcp and a_sec=two_secrets and w=fresh_world
      and a_del=unconfirmed_delete]
    bare_env_absent
  by (simp add: confirmed_delete_def unconfirmed_delete_def)

section \<open>Properties of the tool boundary\<close>

lemma try_catch_total:
  assumes "\<And>e w. \<exists>r w'. h e w = (Inr r, w') \<and> P r"
  shows "\<exists>r w'. try_catch m h w = (Inr r, w') \<and> (\<forall>e w1. m w = (Inl e, w1) \<longrightarrow> P r)"
proof (cases "m w")
  case (Pair out w1)
  show ?thesis
  proof (cases out)
    case (Inl e)
    with Pair assms [of e w1] show ?thesis by (auto simp: try_catch_def)
  next
    case (Inr x)
    with Pair show ?thesis by (simp add: try_catch_def)
  qed
qed

lemma logged_catch:
  "\<exists>r w'. bindM (logDeploymentOperation op n u ok) (\<lambda>_. ret x) w = (Inr r, w') \<and> r = x"
  by (simp add: bindM_def logDeploymentOperation_def ret_def)

lemma unexpected_error_prefixed: "text_prefixed ''**Error**'' (text_of (unexpected_error h e))"
  by (simp add: unexpected_error_def)

lemma database_error_prefixed: "text_prefixed ''**Error**'' (text_of (database_error h e))"
  by (cases e) simp_all

lemma deploy_tools_total:
  "\<exists>r w'. deployWorker_handler e p rem a1 w = (Inr r, w')
      \<and> (\<forall>err w1. deployWorker_body e p rem a1 w = (Inl err, w1) \<longrightarrow> text_prefixed ''**Error**'' (text_of r))"
  "\<exists>r w'. listWorkers_handler e p rem w = (Inr r, w')
      \<and> (\<forall>err w1. listWorkers_body e p rem w = (Inl err, w1) \<longrightarrow> text_prefixed ''**Error**'' (text_of r))"
  "\<exists>r w'. getWorkerStatus_handler e p rem clk n w = (Inr r, w')
      \<and> (\<forall>err w1. getWorkerStatus_body e p rem clk n w = (Inl err, w1) \<longrightarrow> text_prefixed ''**Error**'' (text_of r))"
  "\<exists>r w'. deleteWorker_handler e p rem clk a2 w = (Inr r, w')
      \<and> (\<forall>err w1. deleteWorker_body e p rem clk a2 w = (Inl err, w1) \<longrightarrow> text_prefixed ''**Error**'' (text_of r))"
  unfolding deployWorker_handler_def listWorkers_handler_def getWorkerStatus_handler_def
    deleteWorker_handler_def
  by (rule try_catch_total, simp add: bindM_def logDeploymentOperation_def ret_def)+

lemma infrastructure_tools_total:
  "\<exists>r w'. createKVNamespace_handler e p rem a3 w = (Inr r, w')
      \<and> (\<forall>err w1. createKVNamespace_body e p rem a3 w = (Inl err, w1) \<longrightarrow> text_prefixed ''**Error**'' (text_of r))"
  "\<exists>r w'. manageDurableObjects_handler e p clk a4 w = (Inr r, w')
      \<and> (\<forall>err w1. manageDurableObjects_body e p clk a4 w = (Inl err, w1) \<longrightarrow> text_prefixed ''**Error**'' (text_of r))"
  "\<exists>r w'. setWorkerSecrets_handler e p rem a5 w = (Inr r, w')
      \<and> (\<forall>err w1. setWorkerSecrets_body e p rem a5 w = (Inl err, w1) \<longrightarrow> text_prefixed ''**Error**'' (text_of r))"
  "\<exists>r w'. deployMCPServer_handler e p rem clk a6 w = (Inr r, w')
      \<and> (\<forall>err w1. deployMCPServer_body e p rem clk a6 w = (Inl err, w1) \<longrightarrow> text_prefixed ''**Error**'' (text_of r))"
  unfolding createKVNamespace_handler_def manageDurableObjects_handler_def
    setWorkerSecrets_handler_def deployMCPServer_handler_def
  by (rule try_catch_total,
      simp add: bindM_def logDeploymentOperation_def ret_def unexpected_error_prefixed)+

lemma database_tools_total:
  "\<exists>r w'. listTables_handler e db w = (Inr r, w')
      \<and> (\<forall>err w1. listTables_body e db w = (Inl err, w1) \<longrightarrow> text_prefixed ''**Error**'' (text_of r))"
  "\<exists>r w'. queryDatabase_handler e db sec sql w = (Inr r, w')
      \<and> (\<forall>err w1. queryDatabase_body e db sec sql w = (Inl err, w1) \<longrightarrow> text_prefixed ''**Error**'' (text_of r))"
  "\<exists>r w'. executeDatabase_handler e p db sec sql w = (Inr r, w')
      \<and> (\<forall>err w1. executeDatabase_body e p db sec sql w = (Inl err, w1) \<longrightarrow> text_prefixed ''**Error**'' (text_of r))"
  unfolding listTables_handler_def queryDatabase_handler_def executeDatabase_handler_def
  by (rule try_catch_total, simp add: ret_def database_error_prefixed)+

lemma whoami_total:
  "\<exists>r w'. whoami_handler p w = (Inr r, w')
      \<and> (\<forall>err w1. whoami_handler p w = (Inl err, w1) \<longrightarrow> text_prefixed ''**Error**'' (text_of r))"
  by (simp add: whoami_handler_def ret_def)

lemma getWorker_total:
  "\<exists>res w1. getWorker cf rem clk n w = (Inr res, w1) \<and> audit w1 = audit w"
  by (simp add: getWorker_def try_catch_def bindM_def fetch_def ret_def response_json_def
      split: fetch_outcome.splits sum.splits)

lemma deployWorker_failures:
  "deployWorker_handler e p rem a w = (Inr r, w') \<Longrightarrow> failure_recorded w w'
     \<Longrightarrow> text_prefixed ''**Error**'' (text_of r)"
  by (auto simp: deployWorker_handler_def deployWorker_body_def failure_recorded_def Let_def
      try_catch_def bindM_def deployWorker_run logDeploymentOperation_def ret_def
      credentials_texts
      split: if_splits option.splits sum.splits)

lemma worker_info_pure: "snd (worker_info v w) = w"
  by (simp add: worker_info_def get_prop_def bindM_def throw_def ret_def)

lemma mapM_worker_info_pure: "snd (mapM worker_info xs w) = w"
proof (induction xs)
  case Nil
  show ?case by (simp add: ret_def)
next
  case (Cons x xs)
  obtain o1 w1 where a: "worker_info x w = (o1, w1)" by (cases "worker_info x w")
  with worker_info_pure [of x w] have w1: "w1 = w" by simp
  obtain o2 w2 where b: "mapM worker_info xs w = (o2, w2)" by (cases "mapM worker_info xs w")
  with Cons have w2: "w2 = w" by simp
  show ?case using a b w1 w2 by (simp add: bindM_def ret_def split: sum.splits)
qed

lemma js_map_worker_info_pure: "js_map worker_info v w = (out, w') \<Longrightarrow> w' = w"
proof (cases v)
  case (JArr xs)
  assume "js_map worker_info v w = (out, w')"
  with JArr mapM_worker_info_pure [of xs w] show ?thesis by simp
qed (auto simp: throw_def)

lemma listWorkers_failures:
  "listWorkers_handler e p rem w = (Inr r, w') \<Longrightarrow> failure_recorded w w'
     \<Longrightarrow> text_prefixed ''**Error**'' (text_of r)"
  by (auto simp: listWorkers_handler_def listWorkers_body_def failure_recorded_def Let_def
      try_catch_def bindM_def listWorkers_def makeRequest_run logDeploymentOperation_def ret_def
      credentials_texts
      split: if_splits option.splits sum.splits prod.splits dest: js_map_worker_info_pure)

lemma createKV_failures:
  "createKVNamespace_handler e p rem a w = (Inr r, w') \<Longrightarrow> failure_recorded w w'
     \<Longrightarrow> text_prefixed ''**Error**'' (text_of r)"
  by (auto simp: createKVNamespace_handler_def createKVNamespace_body_def failure_recorded_def
      try_catch_def bindM_def fetch_def response_json_def logDeploymentOperation_def ret_def
      get_prop_def throw_def audit_insert_def unexpected_error_def credentials_error_details_def
      split: if_splits option.splits sum.splits fetch_outcome.splits)

lemma manageDO_failures:
  "manageDurableObjects_handler e p clk a w = (Inr r, w') \<Longrightarrow> failure_recorded w w'
     \<Longrightarrow> text_prefixed ''**Error**'' (text_of r)"
  by (auto simp: manageDurableObjects_handler_def manageDurableObjects_body_def failure_recorded_def
      try_catch_def bindM_def logDeploymentOperation_def ret_def Let_def
      audit_insert_def unexpected_error_def credentials_error_details_def
      split: if_splits option.splits sum.splits)

lemma getWorkerStatus_failures:
  assumes "getWorkerStatus_handler e p rem clk n w = (Inr r, w')" and "failure_recorded w w'"
  shows "text_prefixed ''**Error**'' (text_of r)"
proof (cases "credentials e")
  case None
  with assms show ?thesis
    by (auto simp: getWorkerStatus_handler_def getWorkerStatus_body_def try_catch_def bindM_def
        logDeploymentOperation_def ret_def credentials_texts)
next
  case (Some cf)
  obtain res w1 where g: "getWorker cf rem clk n w = (Inr res, w1)" and a: "audit w1 = audit w"
    using getWorker_total by blast
  show ?thesis
    using assms Some g a
    by (auto simp: getWorkerStatus_handler_def getWorkerStatus_body_def failure_recorded_def
        try_catch_def bindM_def logDeploymentOperation_def ret_def Let_def get_prop_def throw_def
        not_found_response_def
        split: if_splits)
qed

lemma deleteWorker_failures:
  assumes "deleteWorker_handler e p rem clk a w = (Inr r, w')" and "failure_recorded w w'"
  shows "text_prefixed ''**Error**'' (text_of r)"
proof (cases "credentials e")
  case None
  with assms show ?thesis
    by (auto simp: deleteWorker_handler_def deleteWorker_body_def try_catch_def bindM_def
        logDeploymentOperation_def ret_def credentials_texts split: if_splits)
next
  case (Some cf)
  obtain res w1 where g: "getWorker cf rem clk (del_name a) w = (Inr res, w1)"
    and au: "audit w1 = audit w"
    using getWorker_total by blast
  show ?thesis
    using assms Some g au
    by (auto simp: deleteWorker_handler_def deleteWorker_body_def failure_recorded_def
        try_catch_def bindM_def logDeploymentOperation_def ret_def Let_def get_prop_def throw_def
        not_found_response_def deleteWorker_run
        split: if_splits sum.splits)
qed

lemma setWorkerSecrets_failures:
  assumes "setWorkerSecrets_handler e p rem a w = (Inr r, w')" and "failure_recorded w w'"
  shows "text_prefixed ''**Error**'' (text_of r)"
proof (cases "credentials e")
  case None
  with assms show ?thesis
    by (auto simp: setWorkerSecrets_handler_def setWorkerSecrets_body_def try_catch_def bindM_def
        logDeploymentOperation_def ret_def credentials_texts)
next
  case (Some cf)
  show ?thesis
  proof (cases "sw_secrets a")
    case Nil
    with assms Some show ?thesis
      by (auto simp: setWorkerSecrets_handler_def setWorkerSecrets_body_def try_catch_def bindM_def
          logDeploymentOperation_def ret_def throw_def unexpected_error_prefixed)
  next
    case (Cons s rest)
    let ?failed = "call_failed (rem (calls w) (secret_request cf (sw_workerName a) s))"
    obtain fr where run: "setWorkerSecrets_handler e p rem a w =
           (Inr (batch_response a (fr # pending_results (s # rest))),
            w\<lparr>calls := calls w @ [secret_request cf (sw_workerName a) s],
              audit := audit w @ [\<lparr>operation = ''set_worker_secrets'', workerName = sw_workerName a,
                 userName = login p, succeeded = \<not> ?failed\<rparr>]\<rparr>)"
      and fr: "fr = Fulfilled (secret_name s) \<and> \<not> ?failed
                \<or> (\<exists>e. fr = Rejected e (secret_name s)) \<and> ?failed"
      using handler_run [OF Some Cons, of p rem w] by blast
    from fr have fr': "fr = Fulfilled (secret_name s) \<or> (\<exists>e. fr = Rejected e (secret_name s))"
      by blast
    from assms run have "?failed" by (auto simp: failure_recorded_def)
    with fr have "\<exists>e. fr = Rejected e (secret_name s)" by auto
    then show ?thesis
      using assms(1) run text_prefixed_batch_response [OF fr' Cons] by auto
  qed
qed

lemma deployMCPServer_failures:
  assumes "deployMCPServer_handler e p rem clk a w = (Inr r, w')" and "failure_recorded w w'"
  shows "text_prefixed ''**Error**'' (text_of r)"
proof (cases "credentials e")
  case None
  with assms show ?thesis
    by (auto simp: deployMCPServer_handler_def deployMCPServer_body_def try_catch_def bindM_def
        logDeploymentOperation_def ret_def credentials_texts)
next
  case (Some cf)
  show ?thesis
  proof (cases "call_failed (rem (calls w @ [mcp_kv_request cf a]) (mcp_deploy_request cf a))")
    case True
    then show ?thesis
      using mcp_failed_run [where e=e and cf=cf and rem=rem and w=w and args=a and p=p and clk=clk]
        Some assms(1) deploy_failed_response_facts
      by auto
  next
    case False
    then show ?thesis
      using mcp_deployed_run [where e=e and cf=cf and rem=rem and w=w and args=a and p=p and clk=clk]
        Some assms
      by (auto simp: failure_recorded_def)
  qed
qed

lemma group_columns_pure: "snd (group_columns cols tm w) = w"
proof (induction cols arbitrary: tm)
  case Nil
  show ?case by (simp add: ret_def)
next
  case (Cons col cols)
  then show ?case by (simp add: bindM_def get_prop_def throw_def ret_def)
qed

lemma group_columns_audit: "group_columns cols tm w = (out, w') \<Longrightarrow> audit w' = audit w"
  using group_columns_pure [of cols tm w] by simp

lemma database_tools_audit:
  "listTables_handler e db w = (out, w') \<Longrightarrow> audit w' = audit w"
  "queryDatabase_handler e db sec sql w = (out, w') \<Longrightarrow> audit w' = audit w"
  "executeDatabase_handler e p db sec sql w = (out, w') \<Longrightarrow> audit w' = audit w"
  by (auto simp: listTables_handler_def listTables_body_def queryDatabase_handler_def
      queryDatabase_body_def executeDatabase_handler_def executeDatabase_body_def
      try_catch_def bindM_def ret_def throw_def rpc_def checked_def lift_def
      split: if_splits sum.splits option.splits prod.splits dest: group_columns_audit)

lemma recorded_failures:
  assumes "invoke rt c w = (Inr r, w')" and "failure_recorded w w'"
  shows "text_prefixed ''**Error**'' (text_of r)"
proof (cases c)
  case Whoami
  with assms show ?thesis by (auto simp: whoami_handler_def ret_def failure_recorded_def)
next
  case ListTables
  with assms show ?thesis using database_tools_audit(1) by (auto simp: failure_recorded_def)
next
  case (QueryDatabase sql)
  with assms show ?thesis using database_tools_audit(2) by (auto simp: failure_recorded_def)
next
  case (ExecuteDatabase sql)
  with assms show ?thesis using database_tools_audit(3) by (auto simp: failure_recorded_def)
next
  case (DeployWorker a)
  with assms show ?thesis using deployWorker_failures by simp
next
  case ListWorkers
  with assms show ?thesis using listWorkers_failures by simp
next
  case (GetWorkerStatus n)
  with assms show ?thesis using getWorkerStatus_failures by simp
next
  case (DeleteWorker a)
  with assms show ?thesis using deleteWorker_failures by simp
next
  case (CreateKVNamespace a)
  with assms show ?thesis using createKV_failures by simp
next
  case (ManageDurableObjects a)
  with assms show ?thesis using manageDO_failures by simp
next
  case (SetWorkerSecrets a)
  with assms show ?thesis using setWorkerSecrets_failures by simp
next
  case (DeployMCPServer a)
  with assms show ?thesis using deployMCPServer_failures by simp
qed

lemma handlers_total:
  "\<exists>r w'. invoke rt c w = (Inr r, w')
     \<and> (\<forall>err w1. try_block rt c w = (Inl err, w1) \<longrightarrow> text_prefixed ''**Error**'' (text_of r))"
proof (cases c)
  case Whoami
  then show ?thesis using whoami_total by simp
next
  case ListTables
  then show ?thesis using database_tools_total(1) by simp
next
  case (QueryDatabase sql)
  then show ?thesis using database_tools_total(2) by simp
next
  case (ExecuteDatabase sql)
  then show ?thesis using database_tools_total(3) by simp
next
  case (DeployWorker a)
  then show ?thesis using deploy_tools_total(1) by simp
next
  case ListWorkers
  then show ?thesis using deploy_tools_total(2) by simp
next
  case (GetWorkerStatus n)
  then show ?thesis using deploy_tools_total(3) by simp
next
  case (DeleteWorker a)
  then show ?thesis using deploy_tools_total(4) by simp
next
  case (CreateKVNamespace a)
  then show ?thesis using infrastructure_tools_total(1) by simp
next
  case (ManageDurableObjects a)
  then show ?thesis using infrastructure_tools_total(2) by simp
next
  case (SetWorkerSecrets a)
  then show ?thesis using infrastructure_tools_total(3) by simp
next
  case (DeployMCPServer a)
  then show ?thesis using infrastructure_tools_total(4) by simp
qed

lemma credentials_None_iff: "(credentials e = None) = credentials_absent e"
  by (auto simp: credentials_absent_def credentials_def truthy_str_def split: option.splits)

lemma whoami_errors:
  assumes "invoke rt Whoami w = (Inr r, w')"
  shows "text_prefixed ''**Error**'' (text_of r) = error_outcome rt Whoami w"
  using assms
  by (auto simp: error_outcome_def raises_def whoami_handler_def ret_def split: option.splits)

lemma deployWorker_errors:
  assumes "invoke rt (DeployWorker a) w = (Inr r, w')"
  shows "text_prefixed ''**Error**'' (text_of r) = error_outcome rt (DeployWorker a) w"
proof (cases "credentials (rt_env rt)")
  case None
  then have "credentials_absent (rt_env rt)" by (simp add: credentials_None_iff)
  with None assms show ?thesis
    by (auto simp: error_outcome_def deployWorker_handler_def deployWorker_body_def Let_def
        try_catch_def bindM_def logDeploymentOperation_def ret_def credentials_error_plain_def
        split: if_splits)
next
  case (Some cf)
  then have "\<not> credentials_absent (rt_env rt)" using credentials_None_iff [of "rt_env rt"] by simp
  with Some assms show ?thesis
    by (auto simp: error_outcome_def raises_def deployWorker_handler_def deployWorker_body_def Let_def
        try_catch_def bindM_def deployWorker_run logDeploymentOperation_def ret_def
        call_failed_def
        split: if_splits sum.splits)
qed


lemma listWorkers_errors:
  assumes "invoke rt ListWorkers w = (Inr r, w')"
  shows "text_prefixed ''**Error**'' (text_of r) = error_outcome rt ListWorkers w"
proof (cases "credentials (rt_env rt)")
  case None
  then have "credentials_absent (rt_env rt)" by (simp add: credentials_None_iff)
  with None assms show ?thesis
    by (auto simp: error_outcome_def listWorkers_handler_def listWorkers_body_def
        try_catch_def bindM_def logDeploymentOperation_def ret_def credentials_error_plain_def)
next
  case (Some cf)
  then have "\<not> credentials_absent (rt_env rt)" using credentials_None_iff [of "rt_env rt"] by simp
  with Some assms show ?thesis
    by (auto simp: error_outcome_def raises_def listWorkers_handler_def listWorkers_body_def Let_def
        try_catch_def bindM_def listWorkers_def makeRequest_run logDeploymentOperation_def ret_def
        call_failed_def list_request_def
        split: if_splits sum.splits prod.splits)
qed

lemma manageDO_errors:
  assumes "invoke rt (ManageDurableObjects a) w = (Inr r, w')"
  shows "text_prefixed ''**Error**'' (text_of r) = error_outcome rt (ManageDurableObjects a) w"
proof (cases "credentials (rt_env rt)")
  case None
  then have "credentials_absent (rt_env rt)" by (simp add: credentials_None_iff)
  with None assms show ?thesis
    by (auto simp: error_outcome_def manageDurableObjects_handler_def manageDurableObjects_body_def
        try_catch_def bindM_def logDeploymentOperation_def ret_def credentials_error_details_def)
next
  case (Some cf)
  then have "\<not> credentials_absent (rt_env rt)" using credentials_None_iff [of "rt_env rt"] by simp
  with Some assms show ?thesis
    by (auto simp: error_outcome_def raises_def manageDurableObjects_handler_def
        manageDurableObjects_body_def Let_def audit_insert_def
        try_catch_def bindM_def logDeploymentOperation_def ret_def)
qed

lemma createKV_errors:
  assumes "invoke rt (CreateKVNamespace a) w = (Inr r, w')"
  shows "text_prefixed ''**Error**'' (text_of r) = error_outcome rt (CreateKVNamespace a) w"
proof (cases "credentials (rt_env rt)")
  case None
  then have "credentials_absent (rt_env rt)" by (simp add: credentials_None_iff)
  with None assms show ?thesis
    by (auto simp: error_outcome_def createKVNamespace_handler_def createKVNamespace_body_def
        try_catch_def bindM_def logDeploymentOperation_def ret_def credentials_error_details_def)
next
  case (Some cf)
  then have "\<not> credentials_absent (rt_env rt)" using credentials_None_iff [of "rt_env rt"] by simp
  with Some assms show ?thesis
    by (auto simp: error_outcome_def raises_def createKVNamespace_handler_def
        createKVNamespace_body_def Let_def audit_insert_def fetch_def response_json_def
        try_catch_def bindM_def logDeploymentOperation_def ret_def get_prop_def throw_def
        call_failed_def api_outcome_def unexpected_error_def
        split: if_splits sum.splits fetch_outcome.splits)
qed

lemma listTables_errors:
  assumes "invoke rt ListTables w = (Inr r, w')"
  shows "text_prefixed ''**Error**'' (text_of r) = error_outcome rt ListTables w"
  using assms
  by (auto simp: error_outcome_def raises_def supabase_absent_def rpc_failed_def rpc_outcome_def
      no_table_information_def listTables_handler_def listTables_body_def supabase_missing_def
      try_catch_def bindM_def ret_def throw_def rpc_def checked_def database_error_prefixed
      split: if_splits sum.splits option.splits prod.splits)

lemma queryDatabase_errors:
  assumes "invoke rt (QueryDatabase sql) w = (Inr r, w')"
  shows "text_prefixed ''**Error**'' (text_of r) = error_outcome rt (QueryDatabase sql) w"
  using assms
  by (auto simp: error_outcome_def raises_def supabase_absent_def rpc_failed_def rpc_outcome_def
      sql_invalid_def sql_writes_def lift_def
      queryDatabase_handler_def queryDatabase_body_def supabase_missing_def
      try_catch_def bindM_def ret_def throw_def rpc_def checked_def database_error_prefixed
      split: if_splits sum.splits option.splits prod.splits)

lemma executeDatabase_errors:
  assumes "invoke rt (ExecuteDatabase sql) w = (Inr r, w')"
  shows "text_prefixed ''**Error**'' (text_of r) = error_outcome rt (ExecuteDatabase sql) w"
  using assms
  by (auto simp: error_outcome_def raises_def supabase_absent_def rpc_failed_def rpc_outcome_def
      sql_invalid_def lift_def
      executeDatabase_handler_def executeDatabase_body_def supabase_missing_def
      try_catch_def bindM_def ret_def throw_def rpc_def checked_def database_error_prefixed
      split: if_splits sum.splits option.splits prod.splits)

lemma getWorkerStatus_errors:
  assumes "invoke rt (GetWorkerStatus n) w = (Inr r, w')"
  shows "text_prefixed ''**Error**'' (text_of r) = error_outcome rt (GetWorkerStatus n) w"
proof (cases "credentials (rt_env rt)")
  case None
  then have "credentials_absent (rt_env rt)" by (simp add: credentials_None_iff)
  with None assms show ?thesis
    by (auto simp: error_outcome_def getWorkerStatus_handler_def getWorkerStatus_body_def
        try_catch_def bindM_def logDeploymentOperation_def ret_def credentials_error_plain_def)
next
  case (Some cf)
  then have c: "\<not> credentials_absent (rt_env rt)" using credentials_None_iff [of "rt_env rt"] by simp
  obtain res w1 where g: "getWorker cf (rt_remote rt) (rt_clock rt) n w = (Inr res, w1)"
    using getWorker_total by blast
  show ?thesis
    using assms Some c g
    by (auto simp: error_outcome_def raises_def lookup_failed_def getWorkerStatus_handler_def
        getWorkerStatus_body_def Let_def not_found_response_def
        try_catch_def bindM_def logDeploymentOperation_def ret_def get_prop_def throw_def
        split: if_splits)
qed

lemma deleteWorker_errors:
  assumes "invoke rt (DeleteWorker a) w = (Inr r, w')"
  shows "text_prefixed ''**Error**'' (text_of r) = error_outcome rt (DeleteWorker a) w"
proof (cases "credentials (rt_env rt)")
  case None
  then have "credentials_absent (rt_env rt)" by (simp add: credentials_None_iff)
  with None assms show ?thesis
    by (auto simp: error_outcome_def deleteWorker_handler_def deleteWorker_body_def
        try_catch_def bindM_def logDeploymentOperation_def ret_def credentials_error_plain_def
        split: if_splits)
next
  case (Some cf)
  then have c: "\<not> credentials_absent (rt_env rt)" using credentials_None_iff [of "rt_env rt"] by simp
  obtain res w1 where g: "getWorker cf (rt_remote rt) (rt_clock rt) (del_name a) w = (Inr res, w1)"
    using getWorker_total by blast
  show ?thesis
    using assms Some c g
    by (auto simp: error_outcome_def raises_def lookup_failed_def deleteWorker_handler_def
        deleteWorker_body_def Let_def not_found_response_def deleteWorker_run call_failed_def
        try_catch_def bindM_def logDeploymentOperation_def ret_def get_prop_def throw_def
        split: if_splits sum.splits)
qed

lemma setWorkerSecrets_body_run:
  assumes "credentials e = Some cf" and "sw_secrets args = s # rest"
  shows "\<exists>r w'. setWorkerSecrets_body e p rem args w = (Inr r, w')"
proof -
  obtain fr where fr: "process_first cf rem (sw_workerName args) (s # rest) w =
          (Inr fr, w\<lparr>calls := calls w @ [secret_request cf (sw_workerName args) s]\<rparr>)"
    using process_first_run by blast
  show ?thesis
    unfolding setWorkerSecrets_body_def
    using assms fr
    by (simp add: bindM_def logDeploymentOperation_def ret_def Let_def del: process_first.simps)
qed

lemma setWorkerSecrets_errors:
  assumes "invoke rt (SetWorkerSecrets a) w = (Inr r, w')"
  shows "text_prefixed ''**Error**'' (text_of r) = error_outcome rt (SetWorkerSecrets a) w"
proof (cases "credentials (rt_env rt)")
  case None
  then have "credentials_absent (rt_env rt)" by (simp add: credentials_None_iff)
  with None assms show ?thesis
    by (auto simp: error_outcome_def setWorkerSecrets_handler_def setWorkerSecrets_body_def
        try_catch_def bindM_def logDeploymentOperation_def ret_def credentials_error_details_def)
next
  case (Some cf)
  then have c: "\<not> credentials_absent (rt_env rt)" using credentials_None_iff [of "rt_env rt"] by simp
  show ?thesis
  proof (cases "sw_secrets a")
    case Nil
    with assms Some show ?thesis
      by (auto simp: error_outcome_def raises_def setWorkerSecrets_handler_def
          setWorkerSecrets_body_def try_catch_def bindM_def
          logDeploymentOperation_def ret_def throw_def unexpected_error_prefixed)
  next
    case (Cons s rest)
    let ?failed = "call_failed (rt_remote rt (calls w) (secret_request cf (sw_workerName a) s))"
    obtain fr w2 where run: "setWorkerSecrets_handler (rt_env rt) (rt_props rt) (rt_remote rt) a w =
           (Inr (batch_response a (fr # pending_results (s # rest))), w2)"
      and fr: "fr = Fulfilled (secret_name s) \<and> \<not> ?failed
                \<or> (\<exists>e. fr = Rejected e (secret_name s)) \<and> ?failed"
      using handler_run [OF Some Cons, of "rt_props rt" "rt_remote rt" w] by blast
    from fr have fr': "fr = Fulfilled (secret_name s) \<or> (\<exists>e. fr = Rejected e (secret_name s))"
      by blast
    have body: "\<not> raises (setWorkerSecrets_body (rt_env rt) (rt_props rt) (rt_remote rt) a) w"
      using setWorkerSecrets_body_run [OF Some Cons, of "rt_props rt" "rt_remote rt" w]
      by (auto simp: raises_def)
    from assms run have r: "r = batch_response a (fr # pending_results (s # rest))" by simp
    have "text_prefixed ''**Error**'' (text_of r) = (\<exists>e. fr = Rejected e (secret_name s))"
      unfolding r using text_prefixed_batch_response [OF fr' Cons] .
    also have "\<dots> = ?failed" using fr by auto
    finally show ?thesis
      using Some c Cons body by (simp add: error_outcome_def)
  qed
qed

lemma deployMCPServer_body_run:
  "\<exists>r w'. deployMCPServer_body e p rem clk args w = (Inr r, w')"
proof (cases "credentials e")
  case None
  then show ?thesis
    by (simp add: deployMCPServer_body_def bindM_def logDeploymentOperation_def ret_def)
next
  case (Some cf)
  let ?w2 = "w\<lparr>calls := calls w @ [mcp_kv_request cf args, mcp_deploy_request cf args]\<rparr>"
  obtain rs w3 where rs: "set_secrets cf rem (mcp_name args) (secretsToSet args) ?w2 = (Inr rs, w3)"
    using set_secrets_run [of cf rem "mcp_name args" "secretsToSet args" ?w2] by blast
  show ?thesis
    using Some rs
    by (simp add: deployMCPServer_body_def bindM_def attempt_def createKVNamespace_run
        deployWorker_run logDeploymentOperation_def ret_def mcp_kv_request_def
        mcp_deploy_request_def Let_def split: sum.splits)
qed

lemma deployMCPServer_errors:
  assumes "invoke rt (DeployMCPServer a) w = (Inr r, w')"
  shows "text_prefixed ''**Error**'' (text_of r) = error_outcome rt (DeployMCPServer a) w"
proof (cases "credentials (rt_env rt)")
  case None
  then have "credentials_absent (rt_env rt)" by (simp add: credentials_None_iff)
  with None assms show ?thesis
    by (auto simp: error_outcome_def deployMCPServer_handler_def deployMCPServer_body_def
        try_catch_def bindM_def logDeploymentOperation_def ret_def credentials_error_details_def)
next
  case (Some cf)
  then have c: "\<not> credentials_absent (rt_env rt)" using credentials_None_iff [of "rt_env rt"] by simp
  have body: "\<not> raises (deployMCPServer_body (rt_env rt) (rt_props rt) (rt_remote rt) (rt_clock rt) a) w"
    using deployMCPServer_body_run [of "rt_env rt" "rt_props rt" "rt_remote rt" "rt_clock rt" a w]
    by (auto simp: raises_def)
  show ?thesis
  proof (cases "call_failed (rt_remote rt (calls w @ [mcp_kv_request cf a]) (mcp_deploy_request cf a))")
    case True
    then show ?thesis
      using mcp_failed_run [where e="rt_env rt" and cf=cf and rem="rt_remote rt" and w=w and args=a
          and p="rt_props rt" and clk="rt_clock rt"]
        Some c assms deploy_failed_response_facts
      by (auto simp: error_outcome_def)
  next
    case False
    then show ?thesis
      using mcp_deployed_run [where e="rt_env rt" and cf=cf and rem="rt_remote rt" and w=w and args=a
          and p="rt_props rt" and clk="rt_clock rt"]
        Some c assms body deployed_response_facts
      by (auto simp: error_outcome_def)
  qed
qed


lemma errors_characterised:
  assumes "invoke rt c w = (Inr r, w')"
  shows "text_prefixed ''**Error**'' (text_of r) = error_outcome rt c w"
proof (cases c)
  case Whoami
  with assms show ?thesis using whoami_errors by simp
next
  case ListTables
  with assms show ?thesis using listTables_errors by simp
next
  case (QueryDatabase sql)
  with assms show ?thesis using queryDatabase_errors by simp
next
  case (ExecuteDatabase sql)
  with assms show ?thesis using executeDatabase_errors by simp
next
  case (DeployWorker a)
  with assms show ?thesis using deployWorker_errors by simp
next
  case ListWorkers
  with assms show ?thesis using listWorkers_errors by simp
next
  case (GetWorkerStatus n)
  with assms show ?thesis using getWorkerStatus_errors by simp
next
  case (DeleteWorker a)
  with assms show ?thesis using deleteWorker_errors by simp
next
  case (CreateKVNamespace a)
  with assms show ?thesis using createKV_errors by simp
next
  case (ManageDurableObjects a)
  with assms show ?thesis using manageDO_errors by simp
next
  case (SetWorkerSecrets a)
  with assms show ?thesis using setWorkerSecrets_errors by simp
next
  case (DeployMCPServer a)
  with assms show ?thesis using deployMCPServer_errors by simp
qed

text \<open>
  Claim C8. Whatever the tool, its parameters, the environment, the remote and the
  database do, the handler returns a content envelope and raises nothing. The text of the
  response is prefixed \<open>**Error**\<close> in every error outcome, and only then: when the \<open>try\<close>
  block throws (a client method that throws included), when a guard of the handler refuses
  the request (settings absent, deletion not confirmed, code or statement invalid, a write
  sent to the read-only tool), and when the provider or the database answers the
  operation with a failure (no table information included). So it is, too, whenever the
  last audit line of the invocation records a failure. A failure the code absorbs is not
  an error outcome of the handler: a tolerated step of the orchestrator is itemised in its
  response (see C1), an unconfirmed lookup is answered by \<open>getWorker\<close> with a synthetic
  envelope (see C7).
\<close>

theorem C8_no_exception_crosses:
  "\<exists>r w'. invoke rt c w = (Inr r, w')
     \<and> (text_prefixed ''**Error**'' (text_of r) = error_outcome rt c w)
     \<and> (\<forall>err w1. try_block rt c w = (Inl err, w1) \<longrightarrow> text_prefixed ''**Error**'' (text_of r))
     \<and> (failure_recorded w w' \<longrightarrow> text_prefixed ''**Error**'' (text_of r))"
proof -
  obtain r w' where run: "invoke rt c w = (Inr r, w')"
    and thrown: "\<forall>err w1. try_block rt c w = (Inl err, w1) \<longrightarrow> text_prefixed ''**Error**'' (text_of r)"
    using handlers_total by blast
  have "failure_recorded w w' \<longrightarrow> text_prefixed ''**Error**'' (text_of r)"
    using recorded_failures [OF run] by blast
  moreover have "text_prefixed ''**Error**'' (text_of r) = error_outcome rt c w"
    using errors_characterised [OF run] .
  ultimately show ?thesis using run thrown by blast
qed

text \<open>
  Witness of C8: listing the workers of an unreachable remote (the \<open>try\<close> block throws), a
  deletion that is not confirmed (refused, nothing thrown, no audit line), and \<open>whoami\<close>
  (no error outcome).
\<close>

theorem C8_witness:
  "(\<exists>r w'. invoke broken_runtime ListWorkers fresh_world = (Inr r, w')
      \<and> text_prefixed ''**Error**'' (text_of r)
      \<and> try_block broken_runtime ListWorkers fresh_world =
          (Inl (ErrorObj ''fetch failed''), fresh_world\<lparr>calls := [list_request sample_api]\<rparr>))
   \<and> (\<exists>r. invoke broken_runtime (DeleteWorker unconfirmed_delete) fresh_world = (Inr r, fresh_world)
      \<and> text_prefixed ''**Error**'' (text_of r)
      \<and> \<not> raises (try_block broken_runtime (DeleteWorker unconfirmed_delete)) fresh_world)
   \<and> (\<exists>r w'. invoke broken_runtime Whoami fresh_world = (Inr r, w')
      \<and> \<not> text_prefixed ''**Error**'' (text_of r))"
proof -
  have t: "try_block broken_runtime ListWorkers fresh_world =
         (Inl (ErrorObj ''fetch failed''), fresh_world\<lparr>calls := [list_request sample_api]\<rparr>)"
    by (simp add: broken_runtime_def listWorkers_body_def sample_credentials bindM_def
        listWorkers_def makeRequest_run api_outcome_def remote_down_def list_request_def
        fresh_world_def)
  have d: "try_block broken_runtime (DeleteWorker unconfirmed_delete) fresh_world =
         (Inr (TextContent
            [Lit (''**Error**\<newline>\<newline>Deletion requires explicit confirmation. Set ''
                  @ quoted ''confirm: true'' @ '' to delete worker '' @ quoted ''ghost''
                  @ ''. **WARNING: This action cannot be undone.**'')]), fresh_world)"
    by (simp add: broken_runtime_def deleteWorker_body_def unconfirmed_delete_def ret_def)
  have e: "error_outcome broken_runtime (DeleteWorker unconfirmed_delete) fresh_world"
    by (simp add: error_outcome_def unconfirmed_delete_def)
  have n: "\<not> error_outcome broken_runtime Whoami fresh_world"
    by (simp add: error_outcome_def raises_def whoami_handler_def ret_def broken_runtime_def
        sample_env_def credentials_def)
  have first: "\<exists>r w'. invoke broken_runtime ListWorkers fresh_world = (Inr r, w')
      \<and> text_prefixed ''**Error**'' (text_of r)
      \<and> try_block broken_runtime ListWorkers fresh_world =
          (Inl (ErrorObj ''fetch failed''), fresh_world\<lparr>calls := [list_request sample_api]\<rparr>)"
    using C8_no_exception_crosses [of broken_runtime ListWorkers fresh_world] t by auto
  have second: "\<exists>r. invoke broken_runtime (DeleteWorker unconfirmed_delete) fresh_world = (Inr r, fresh_world)
      \<and> text_prefixed ''**Error**'' (text_of r)
      \<and> \<not> raises (try_block broken_runtime (DeleteWorker unconfirmed_delete)) fresh_world"
    using C8_no_exception_crosses [of broken_runtime "DeleteWorker unconfirmed_delete" fresh_world] d e
    by (auto simp: raises_def deleteWorker_handler_def try_catch_def)
  have third: "\<exists>r w'. invoke broken_runtime Whoami fresh_world = (Inr r, w')
      \<and> \<not> text_prefixed ''**Error**'' (text_of r)"
    using C8_no_exception_crosses [of broken_runtime Whoami fresh_world] n by auto
  from first second third show ?thesis by blast
qed

end
